theory Spec2Isabelle
  imports Complex_Main "HOL-Library.AList" "HOL-Library.Log_Nat"
begin

section \<open>JavaScript values used by the extraction services\<close>

text \<open>
  A JavaScript string is a sequence of UTF-16 code units. Strings are modelled as
  \<^typ>\<open>string\<close>, a list of the code units 0..255 (ASCII and Latin-1), which cover every
  keyword and every accented letter the extraction code names; \<open>length\<close> is then the
  JavaScript \<open>length\<close>. Cells holding code units from 256 on are outside the model. A cell
  that is \<open>null\<close> or \<open>undefined\<close> is \<open>None\<close>.

  A JavaScript number is an IEEE 754 binary64 value. It is modelled by the rational it
  denotes, or one of the two infinities; \<open>NaN\<close> is the \<open>None\<close> of \<open>parseFloat\<close>. Every number
  the code computes is rounded to binary64 (\<open>arrondi64\<close> below): the value of a decimal
  literal, and the product \<open>valeurNum * 100\<close>. The one thing left out is the sign of zero
  (\<open>-0\<close> and \<open>0\<close> are both \<open>Fini 0\<close>; the code never tells them apart).
\<close>

datatype number = Fini rat | Infini | MoinsInfini

type_synonym ligne = "string list"
type_synonym lignes = "ligne list"

text \<open>\<open>WhiteSpace\<close> and \<open>LineTerminator\<close> code units below 256: TAB, LF, VT, FF, CR, SP, NBSP.\<close>

definition estBlanc :: "char \<Rightarrow> bool" where
  "estBlanc c = (of_char c \<in> {9::nat, 10, 11, 12, 13, 32, 160})"

text \<open>\<open>String.prototype.trim\<close>.\<close>

definition trim :: "string \<Rightarrow> string" where
  "trim s = rev (dropWhile estBlanc (rev (dropWhile estBlanc s)))"

text \<open>\<open>String.prototype.toLowerCase\<close> on code units below 256: A-Z and the capital
  letters U+00C0..U+00DE (the multiplication sign U+00D7 apart) move up by 32.\<close>

definition minuscule :: "char \<Rightarrow> char" where
  "minuscule c =
     (let n = (of_char c :: nat)
      in if (65 \<le> n \<and> n \<le> 90) \<or> (192 \<le> n \<and> n \<le> 222 \<and> n \<noteq> 215)
         then char_of (n + 32) else c)"

definition toLowerCase :: "string \<Rightarrow> string" where
  "toLowerCase s = map minuscule s"

text \<open>\<open>String.prototype.includes\<close>: \<open>sub\<close> occurs in \<open>s\<close> as a contiguous substring.\<close>

fun js_includes :: "string \<Rightarrow> string \<Rightarrow> bool" where
  "js_includes [] sub = (sub = [])"
| "js_includes (c # cs) sub = (take (length sub) (c # cs) = sub \<or> js_includes cs sub)"

text \<open>\<open>String.prototype.replace\<close> with a string pattern: the first occurrence only.\<close>

fun replace :: "string \<Rightarrow> string \<Rightarrow> string \<Rightarrow> string" where
  "replace [] pat rep = (if pat = [] then rep else [])"
| "replace (c # cs) pat rep =
     (if take (length pat) (c # cs) = pat then rep @ drop (length pat) (c # cs)
      else c # replace cs pat rep)"

text \<open>\<open>ligne[i] || ""\<close>: a column beyond the row's length reads \<open>undefined\<close>, and
  \<open>undefined\<close> and the empty string both give the empty string.\<close>

definition cellule :: "ligne \<Rightarrow> nat \<Rightarrow> string" where
  "cellule ligne i = (if i < length ligne then ligne ! i else [])"

text \<open>\<open>ligne[i]\<close> itself: \<open>undefined\<close> beyond the row's length.\<close>

definition valeurCellule :: "ligne \<Rightarrow> nat \<Rightarrow> string option" where
  "valeurCellule ligne i = (if i < length ligne then Some (ligne ! i) else None)"

subsection \<open>Rounding to binary64\<close>

text \<open>
  \<open>roundTiesToEven\<close> of IEEE 754 for the binary64 format: 53 significant bits, exponents
  of normal numbers from -1022 to 1023, subnormal numbers in steps of \<open>2^-1074\<close>.
\<close>

definition puissance2 :: "int \<Rightarrow> rat" where
  "puissance2 e = (if 0 \<le> e then 2 ^ nat e else 1 / 2 ^ nat (- e))"

text \<open>The binary exponent of a positive rational: the \<open>e\<close> with \<open>2^e \<le> x < 2^(e+1)\<close>.
  \<open>bitlen n\<close> is the number of binary digits of \<open>n\<close>.\<close>

definition exposant2 :: "rat \<Rightarrow> int" where
  "exposant2 x =
     (if 1 \<le> x then bitlen \<lfloor>x\<rfloor> - 1
      else
        let f = bitlen \<lfloor>1 / x\<rfloor> - 1
        in if x * puissance2 f = 1 then - f else - f - 1)"

text \<open>The nearest integer, a tie going to the even one.\<close>

definition arrondiPair :: "rat \<Rightarrow> int" where
  "arrondiPair m =
     (let f = \<lfloor>m\<rfloor>; r = m - of_int f
      in if r < 1 / 2 then f
         else if 1 / 2 < r then f + 1
         else if even f then f else f + 1)"

text \<open>
  A positive rational is rounded to a multiple of the unit in the last place of its
  binade, \<open>2^(e - 52)\<close>, with \<open>e\<close> not below -1022 (below, the numbers are subnormal and
  the unit is \<open>2^-1074\<close>). A result that reaches \<open>2^1024\<close> overflows to infinity; that can
  only happen from the last binade, so the power is only compared there.
\<close>

definition arrondiPositif :: "rat \<Rightarrow> number" where
  "arrondiPositif x =
     (let e = max (exposant2 x) (- 1022);
          ulp = puissance2 (e - 52);
          v = of_int (arrondiPair (x / ulp)) * ulp
      in if 1023 \<le> e \<and> puissance2 1024 \<le> v then Infini else Fini v)"

definition arrondi64 :: "rat \<Rightarrow> number" where
  "arrondi64 x =
     (if x = 0 then Fini 0
      else if 0 < x then arrondiPositif x
      else (case arrondiPositif (- x) of
              Fini v \<Rightarrow> Fini (- v)
            | Infini \<Rightarrow> MoinsInfini
            | MoinsInfini \<Rightarrow> Infini))"

subsection \<open>parseFloat\<close>

definition estChiffre :: "char \<Rightarrow> bool" where
  "estChiffre c = (48 \<le> (of_char c :: nat) \<and> (of_char c :: nat) \<le> 57)"

definition valeurChiffres :: "string \<Rightarrow> nat" where
  "valeurChiffres ds = foldl (\<lambda>a c. 10 * a + (of_char c - 48)) 0 ds"

definition puissance10 :: "int \<Rightarrow> rat" where
  "puissance10 e = (if 0 \<le> e then 10 ^ nat e else 1 / 10 ^ nat (- e))"

text \<open>The \<open>ExponentPart\<close> of a \<open>StrDecimalLiteral\<close>: \<open>e\<close> or \<open>E\<close>, an optional sign and at
  least one digit; anything else is no exponent at all.\<close>

definition exposant :: "string \<Rightarrow> int" where
  "exposant s =
     (case s of
        [] \<Rightarrow> 0
      | c # r \<Rightarrow>
          if c = CHR ''e'' \<or> c = CHR ''E'' then
            (case r of
               [] \<Rightarrow> 0
             | d # r' \<Rightarrow>
                 if d = CHR ''-'' then
                   (if takeWhile estChiffre r' = [] then 0
                    else - int (valeurChiffres (takeWhile estChiffre r')))
                 else if d = CHR ''+'' then int (valeurChiffres (takeWhile estChiffre r'))
                 else int (valeurChiffres (takeWhile estChiffre r)))
          else 0)"

text \<open>
  \<open>parseFloat\<close>: leading white space is skipped, then the longest prefix that is a
  \<open>StrDecimalLiteral\<close> is read (sign, \<open>Infinity\<close> or digits with an optional fraction and
  exponent); what follows is ignored. With no such prefix the result is \<open>NaN\<close>. The result
  is the binary64 number nearest to the literal's decimal value (ECMAScript lets an engine
  approximate a literal of more than 20 significant digits; the engines round it exactly,
  and so does the model).
\<close>

definition parseFloat :: "string \<Rightarrow> number option" where
  "parseFloat s =
     (let s1 = dropWhile estBlanc s;
          neg = (s1 \<noteq> [] \<and> hd s1 = CHR ''-'');
          s2 = (if s1 \<noteq> [] \<and> (hd s1 = CHR ''-'' \<or> hd s1 = CHR ''+'') then tl s1 else s1)
      in if take 8 s2 = ''Infinity'' then Some (if neg then MoinsInfini else Infini)
         else
           let ent = takeWhile estChiffre s2;
               r1 = dropWhile estChiffre s2;
               point = (r1 \<noteq> [] \<and> hd r1 = CHR ''.'');
               frac = (if point then takeWhile estChiffre (tl r1) else []);
               r2 = (if point then dropWhile estChiffre (tl r1) else r1)
           in if ent = [] \<and> frac = [] then None
              else
                let mantisse = rat_of_nat (valeurChiffres ent)
                                 + rat_of_nat (valeurChiffres frac) / 10 ^ length frac;
                    v = mantisse * puissance10 (exposant r2)
                in Some (arrondi64 (if neg then - v else v)))"

section \<open>NumericNormalizer: parsePourcentage\<close>

text \<open>
  \<open>parsePourcentage\<close> is written twice, word for word the same, in
  \<open>OraceCSVService\<close> and in \<open>OraceService\<close>; one definition models both. The product
  \<open>valeurNum * 100\<close> is a binary64 product: the exact product, rounded.
\<close>

definition parsePourcentage :: "string option \<Rightarrow> number option" where
  "parsePourcentage valeur =
     (case valeur of
        None \<Rightarrow> None
      | Some v \<Rightarrow>
          if v = [] then None
          else
            let valeurStr = replace (trim (replace (trim v) ''%'' [])) '','' ''.''
            in (case parseFloat valeurStr of
                  None \<Rightarrow> None
                | Some (Fini q) \<Rightarrow>
                    if 0 < q \<and> q < 1 then Some (arrondi64 (q * 100)) else Some (Fini q)
                | Some n \<Rightarrow> Some n))"

section \<open>OraceCSVService: the flat-file extraction\<close>

text \<open>
  \<open>lignes\<close> is the grid \<open>csv-parse\<close> returns: an array of rows, each an array of strings,
  rows of any length (\<open>relax_column_count\<close>). \<open>lignes[i]\<close> beyond the grid is
  \<open>undefined\<close>.
\<close>

definition ligneA :: "lignes \<Rightarrow> nat \<Rightarrow> ligne option" where
  "ligneA lignes i = (if i < length lignes then Some (lignes ! i) else None)"

text \<open>\<open>validerIdentification\<close>: the pattern is \<open>"evaluation "\<close>, the level in lower case
  and \<open>"fr"\<close> for \<open>francais\<close>, \<open>"ma"\<close> for any other subject.\<close>

definition patternAttendu :: "string \<Rightarrow> string \<Rightarrow> string" where
  "patternAttendu niveau matiere =
     ''evaluation '' @ toLowerCase niveau @ (if matiere = ''francais'' then ''fr'' else ''ma'')"

definition validerIdentification :: "ligne option \<Rightarrow> string \<Rightarrow> string \<Rightarrow> bool" where
  "validerIdentification ligne1 niveau matiere =
     (case ligne1 of
        None \<Rightarrow> False
      | Some l \<Rightarrow>
          if l = [] then False
          else list_ex (\<lambda>c. c \<noteq> [] \<and>
                 js_includes (trim (toLowerCase c)) (patternAttendu niveau matiere)) l)"

definition contientGroupe :: "ligne \<Rightarrow> bool" where
  "contientGroupe ligne =
     list_ex (\<lambda>c. c \<noteq> [] \<and> js_includes (trim (toLowerCase c)) ''satisfaisant'') ligne"

text \<open>\<open>trouverLigneGroupes\<close>: \<open>for (i = 2; i < Math.min(10, lignes.length); i++)\<close>, the
  first row that holds the group label, or \<open>null\<close>.\<close>

definition trouverLigneGroupes :: "lignes \<Rightarrow> nat option" where
  "trouverLigneGroupes lignes =
     List.find (\<lambda>i. contientGroupe (lignes ! i)) [2 ..< min 10 (length lignes)]"

text \<open>The percentage markers: \<open>%\<close>, \<open>r\'epondants\<close> (with U+00E9) and \<open>repondants\<close>.\<close>

definition marquePourcentage :: "string \<Rightarrow> bool" where
  "marquePourcentage texte =
     (js_includes texte ''%'' \<or> js_includes texte (''r'' @ [CHR 0xE9] @ ''pondants'')
      \<or> js_includes texte ''repondants'')"

definition contientPourcentage :: "ligne \<Rightarrow> bool" where
  "contientPourcentage ligne =
     list_ex (\<lambda>c. c \<noteq> [] \<and> marquePourcentage (trim (toLowerCase c))) ligne"

text \<open>\<open>trouverLignePourcentages\<close>: the three rows after the group row.\<close>

definition trouverLignePourcentages :: "lignes \<Rightarrow> nat \<Rightarrow> nat option" where
  "trouverLignePourcentages lignes ligneGroupes =
     List.find (\<lambda>i. contientPourcentage (lignes ! i))
       [ligneGroupes + 1 ..< min (ligneGroupes + 4) (length lignes)]"

text \<open>The test of \<open>trouverPremiereEcole\<close> on one row.\<close>

definition estLigneEcole :: "ligne \<Rightarrow> bool" where
  "estLigneEcole ligne =
     (let uai = trim (cellule ligne 0); nom = trim (cellule ligne 1)
      in uai \<noteq> [] \<and> nom \<noteq> []
         \<and> \<not> js_includes (toLowerCase uai) ''uai''
         \<and> \<not> js_includes (toLowerCase uai) ''total''
         \<and> \<not> js_includes (toLowerCase uai) ''circonscription''
         \<and> 7 \<le> length uai)"

text \<open>\<open>trouverPremiereEcole\<close>: the first such row after the percentage row, row index 10
  when there is none.\<close>

definition trouverPremiereEcole :: "lignes \<Rightarrow> nat \<Rightarrow> nat" where
  "trouverPremiereEcole lignes lignePourcentages =
     (case List.find (\<lambda>i. estLigneEcole (lignes ! i))
             [lignePourcentages + 1 ..< length lignes] of
        Some i \<Rightarrow> i
      | None \<Rightarrow> 10)"

subsection \<open>Competency spans\<close>

text \<open>A competency of the flat-file service, \<open>{nom, colonne}\<close>.\<close>

record competence =
  nom :: string
  colonne :: nat

text \<open>The two \<open>console.warn\<close> groups of \<open>finaliserCompetence\<close>, with the values they print:
  the name and the span examined; the name and the column used by default.\<close>

datatype avertissement =
    PasDeGroupeSatisfaisant string nat nat
  | ColonnePourcentageNonIdentifiee string nat

text \<open>
  \<open>finaliserCompetence\<close> pushes onto the array \<open>competences\<close> and writes warnings; the
  model takes the array and the warnings written so far and returns both.
\<close>

definition finaliserCompetence ::
  "competence list \<times> avertissement list \<Rightarrow> string \<Rightarrow> nat \<Rightarrow> nat \<Rightarrow> ligne \<Rightarrow> ligne
     \<Rightarrow> competence list \<times> avertissement list" where
  "finaliserCompetence etat nomCompetence colDebut colFin ligneGroupes lignePourcentages =
     (case List.find
             (\<lambda>col. js_includes (trim (toLowerCase (cellule ligneGroupes col))) ''satisfaisant'')
             [colDebut ..< Suc colFin] of
        None \<Rightarrow>
          (fst etat, snd etat @ [PasDeGroupeSatisfaisant nomCompetence colDebut colFin])
      | Some colonneSatisfaisantGroupe \<Rightarrow>
          (case List.find
                  (\<lambda>col. marquePourcentage (trim (toLowerCase (cellule lignePourcentages col))))
                  [colonneSatisfaisantGroupe ..< Suc (min (colonneSatisfaisantGroupe + 3) colFin)] of
             Some colonnePourcentage \<Rightarrow>
               (fst etat @ [\<lparr>nom = nomCompetence, colonne = colonnePourcentage\<rparr>], snd etat)
           | None \<Rightarrow>
               (fst etat @ [\<lparr>nom = nomCompetence, colonne = colonneSatisfaisantGroupe + 1\<rparr>],
                snd etat @ [ColonnePourcentageNonIdentifiee nomCompetence
                              (colonneSatisfaisantGroupe + 1)])))"

text \<open>The test \<open>estCompetence\<close> on a trimmed title; \<open>comp\'etence\<close> is written with U+00E9.\<close>

definition estCompetence :: "string \<Rightarrow> bool" where
  "estCompetence texte =
     (10 \<le> length texte
      \<and> \<not> js_includes (toLowerCase texte) (''comp'' @ [CHR 0xE9] @ ''tence'')
      \<and> \<not> js_includes (toLowerCase texte) ''exercice''
      \<and> \<not> js_includes (toLowerCase texte) ''participation''
      \<and> \<not> js_includes (toLowerCase texte) ''scores'')"

text \<open>
  The state of the \<open>forEach\<close> of \<open>extraireCompetences\<close>: the array and the warnings, and
  the competency in progress. \<open>competenceEnCours\<close> and \<open>colonneDebutCompetence\<close> are always
  assigned together, so they are one optional pair (\<open>None\<close> is \<open>null\<close>).
\<close>

type_synonym etatCompetences =
  "(competence list \<times> avertissement list) \<times> (string \<times> nat) option"

definition etapeCompetence ::
  "ligne \<Rightarrow> ligne \<Rightarrow> string \<Rightarrow> nat \<Rightarrow> etatCompetences \<Rightarrow> etatCompetences" where
  "etapeCompetence ligneGroupes lignePourcentages c index etat =
     (let texte = trim c
      in if 0 < length texte \<and> estCompetence texte then
           (case snd etat of
              Some (competenceEnCours, colonneDebutCompetence) \<Rightarrow>
                (finaliserCompetence (fst etat) competenceEnCours colonneDebutCompetence
                   (index - 1) ligneGroupes lignePourcentages,
                 Some (texte, index))
            | None \<Rightarrow> (fst etat, Some (texte, index)))
         else etat)"

fun parcourirLigne3 ::
  "ligne \<Rightarrow> ligne \<Rightarrow> nat \<Rightarrow> ligne \<Rightarrow> etatCompetences \<Rightarrow> etatCompetences" where
  "parcourirLigne3 lg lp index [] etat = etat"
| "parcourirLigne3 lg lp index (c # cs) etat =
     parcourirLigne3 lg lp (Suc index) cs (etapeCompetence lg lp c index etat)"

definition extraireCompetences ::
  "ligne \<Rightarrow> ligne \<Rightarrow> ligne \<Rightarrow> competence list \<times> avertissement list" where
  "extraireCompetences ligne3 ligneGroupes lignePourcentages =
     (let etat = parcourirLigne3 ligneGroupes lignePourcentages 0 ligne3 (([], []), None)
      in case snd etat of
           Some (competenceEnCours, colonneDebutCompetence) \<Rightarrow>
             finaliserCompetence (fst etat) competenceEnCours colonneDebutCompetence
               (length ligne3 - 1) ligneGroupes lignePourcentages
         | None \<Rightarrow> fst etat)"

subsection \<open>School rows\<close>

text \<open>
  \<open>resultats\<close> is a JavaScript object used as a dictionary from competency key to
  percentage. It is an association list in insertion order: writing an existing key
  replaces its value in place, writing a new key appends it (\<open>AList.update\<close>). The keys
  all contain an underscore, so none is an array index that JavaScript would reorder.
  A school is \<open>{uai, nom, resultats}\<close>; its field \<open>nom\<close> is \<open>nomEcole\<close> here, apart from the
  competency's \<open>nom\<close>.
\<close>

record ecole =
  uai :: string
  nomEcole :: string
  resultats :: "(string \<times> number) list"

text \<open>\<open>replace(/\s+/g, "_")\<close>: each maximal run of white space becomes one underscore.\<close>

function remplacerBlancs :: "string \<Rightarrow> string" where
  "remplacerBlancs [] = []"
| "remplacerBlancs (c # cs) =
     (if estBlanc c then CHR ''_'' # remplacerBlancs (dropWhile estBlanc cs)
      else c # remplacerBlancs cs)"
  by pat_completeness auto
termination
  by (relation "measure length") (auto simp: length_dropWhile_le less_Suc_eq_le)

text \<open>\<open>replace(/[...]/g, rep)\<close> with a one-character replacement, and with the empty one.\<close>

definition remplacerClasse :: "char list \<Rightarrow> char \<Rightarrow> string \<Rightarrow> string" where
  "remplacerClasse classe rep s = map (\<lambda>c. if c \<in> set classe then rep else c) s"

definition supprimerClasse :: "char list \<Rightarrow> string \<Rightarrow> string" where
  "supprimerClasse classe s = filter (\<lambda>c. c \<notin> set classe) s"

text \<open>\<open>normaliserNomCompetence\<close>, the chain of replacements in the source's order; the
  accented letters are U+00E9 U+00E8 U+00EA, U+00E0 U+00E2, U+00EE U+00EF, U+00F4 U+00F6,
  U+00F9 U+00FB and U+00E7.\<close>

definition normaliserNomCompetence :: "string \<Rightarrow> string" where
  "normaliserNomCompetence n =
     take 100
       (supprimerClasse [CHR 0x27]
         (remplacerClasse [CHR 0xE7] CHR ''c''
           (remplacerClasse [CHR 0xF9, CHR 0xFB] CHR ''u''
             (remplacerClasse [CHR 0xF4, CHR 0xF6] CHR ''o''
               (remplacerClasse [CHR 0xEE, CHR 0xEF] CHR ''i''
                 (remplacerClasse [CHR 0xE0, CHR 0xE2] CHR ''a''
                   (remplacerClasse [CHR 0xE9, CHR 0xE8, CHR 0xEA] CHR ''e''
                     (supprimerClasse [CHR ''('', CHR '')'']
                       (remplacerBlancs (trim n))))))))))"

text \<open>The key \<open>`${niveau}_${matiere}_${nomCompetenceNormalise}`\<close>.\<close>

definition cleCompetence :: "string \<Rightarrow> string \<Rightarrow> string \<Rightarrow> string" where
  "cleCompetence niveau matiere nomCompetence =
     niveau @ ''_'' @ matiere @ ''_'' @ normaliserNomCompetence nomCompetence"

text \<open>The inner \<open>competences.forEach\<close> of \<open>extraireEcoles\<close>, for one row.\<close>

definition resultatsLigne ::
  "ligne \<Rightarrow> competence list \<Rightarrow> string \<Rightarrow> string \<Rightarrow> (string \<times> number) list" where
  "resultatsLigne ligne competences niveau matiere =
     fold (\<lambda>comp res.
             case parsePourcentage (valeurCellule ligne (colonne comp)) of
               None \<Rightarrow> res
             | Some pctSatisfaisant \<Rightarrow>
                 AList.update (cleCompetence niveau matiere (nom comp)) pctSatisfaisant res)
          competences []"

text \<open>The rows \<open>extraireEcoles\<close> skips: no identifier, or a total or district row.\<close>

definition ligneIgnoree :: "string \<Rightarrow> bool" where
  "ligneIgnoree u =
     (u = [] \<or> js_includes (toLowerCase u) ''total''
      \<or> js_includes (toLowerCase u) ''circonscription'')"

definition extraireEcole ::
  "competence list \<Rightarrow> string \<Rightarrow> string \<Rightarrow> ligne \<Rightarrow> ecole list \<Rightarrow> ecole list" where
  "extraireEcole competences niveau matiere ligne ecoles =
     (let u = trim (cellule ligne 0); n = trim (cellule ligne 1)
      in if ligneIgnoree u then ecoles
         else
           let res = resultatsLigne ligne competences niveau matiere
           in if 0 < length res
              then ecoles @ [\<lparr>uai = u, nomEcole = n, resultats = res\<rparr>]
              else ecoles)"

definition extraireEcoles ::
  "lignes \<Rightarrow> competence list \<Rightarrow> string \<Rightarrow> string \<Rightarrow> ecole list" where
  "extraireEcoles lignesEcoles competences niveau matiere =
     fold (extraireEcole competences niveau matiere) lignesEcoles []"

subsection \<open>One file, and all files\<close>

text \<open>
  \<open>chargerFichierCSV\<close> on the content of the file: \<open>None\<close> when the file does not exist
  or \<open>csv-parse\<close> throws (both paths return the empty array), the parsed grid otherwise.
  No other statement of the \<open>try\<close> block can throw: every row read is inside the grid.
\<close>

definition chargerFichierCSV :: "lignes option \<Rightarrow> string \<Rightarrow> string \<Rightarrow> ecole list" where
  "chargerFichierCSV fichier niveau matiere =
     (case fichier of
        None \<Rightarrow> []
      | Some lignes \<Rightarrow>
          if \<not> validerIdentification (ligneA lignes 0) niveau matiere then []
          else
            (case trouverLigneGroupes lignes of
               None \<Rightarrow> []
             | Some ligneGroupes \<Rightarrow>
                 (case trouverLignePourcentages lignes ligneGroupes of
                    None \<Rightarrow> []
                  | Some lignePourcentages \<Rightarrow>
                      let competences =
                            fst (extraireCompetences (lignes ! 2) (lignes ! ligneGroupes)
                                   (lignes ! lignePourcentages))
                      in if length competences = 0 then []
                         else
                           let premiereLigneEcole = trouverPremiereEcole lignes lignePourcentages
                           in extraireEcoles (drop premiereLigneEcole lignes) competences
                                niveau matiere)))"

text \<open>The configurations of \<open>loadEcoles\<close>: level, subject, file prefix.\<close>

definition configs :: "(string \<times> string \<times> string) list" where
  "configs =
     [(''CP'', ''francais'', ''cpfr''), (''CP'', ''maths'', ''cpma''),
      (''CE1'', ''francais'', ''ce1fr''), (''CE1'', ''maths'', ''ce1ma''),
      (''CE2'', ''francais'', ''ce2fr''), (''CE2'', ''maths'', ''ce2ma''),
      (''CM1'', ''francais'', ''cm1fr''), (''CM1'', ''maths'', ''cm1ma''),
      (''CM2'', ''francais'', ''cm2fr''), (''CM2'', ''maths'', ''cm2ma'')]"

text \<open>\<open>Object.assign(cible, source)\<close>: every entry of \<open>source\<close>, in order, written into
  \<open>cible\<close>.\<close>

definition assign :: "(string \<times> number) list \<Rightarrow> (string \<times> number) list \<Rightarrow> (string \<times> number) list" where
  "assign cible source = fold (\<lambda>(k, v). AList.update k v) source cible"

text \<open>
  \<open>ecolesMap\<close> is a \<open>Map\<close> from identifier to school, in insertion order: an association
  list, \<open>has\<close> is \<open>map_of \<noteq> None\<close>, \<open>set\<close> is \<open>AList.update\<close>, and the in-place mutation of the
  school that \<open>get\<close> returns is \<open>AList.map_entry\<close>. The body of
  \<open>resultatsFichier.forEach\<close>:
\<close>

definition fusionnerEcole :: "ecole \<Rightarrow> (string \<times> ecole) list \<Rightarrow> (string \<times> ecole) list" where
  "fusionnerEcole e ecolesMap =
     (let m = (if map_of ecolesMap (uai e) = None
               then AList.update (uai e) \<lparr>uai = uai e, nomEcole = nomEcole e, resultats = []\<rparr>
                      ecolesMap
               else ecolesMap)
      in AList.map_entry (uai e)
           (\<lambda>ecoleExistante.
              ecoleExistante\<lparr>resultats := assign (resultats ecoleExistante) (resultats e)\<rparr>) m)"

text \<open>
  The body of \<open>configs.forEach\<close>. The directory of CSV files is a function from the
  file prefix of a configuration (which fixes the file name \<open>CIRCO_ecoles_PREFIX.csv\<close>) to
  the file's content.
\<close>

definition chargerConfig ::
  "(string \<Rightarrow> lignes option) \<Rightarrow> string \<times> string \<times> string
     \<Rightarrow> (string \<times> ecole) list \<Rightarrow> (string \<times> ecole) list" where
  "chargerConfig dossier config ecolesMap =
     (case config of
        (niveau, matiere, prefix) \<Rightarrow>
          fold fusionnerEcole (chargerFichierCSV (dossier prefix) niveau matiere) ecolesMap)"

text \<open>\<open>loadEcoles\<close> over a list of configurations; the service runs it on \<open>configs\<close>.\<close>

definition chargerConfigs ::
  "(string \<Rightarrow> lignes option) \<Rightarrow> (string \<times> string \<times> string) list \<Rightarrow> ecole list" where
  "chargerConfigs dossier cfgs = map snd (fold (chargerConfig dossier) cfgs [])"

definition loadEcoles :: "(string \<Rightarrow> lignes option) \<Rightarrow> ecole list" where
  "loadEcoles dossier = chargerConfigs dossier configs"

section \<open>OraceService: the merged-workbook extraction\<close>

text \<open>
  A sheet of the workbook, as far as \<open>analyserStructureAvecFusions\<close> reads it. Every cell
  is read as \<open>cell && cell.v ? cell.v.toString() : ""\<close>, so \<open>contenu f r c\<close> is that text
  for row \<open>r\<close> and column \<open>c\<close>: empty for a missing cell or a falsy value. \<open>fusions\<close> is
  \<open>sheet["!merges"]\<close>, each merge a range from \<open>(s_r, s_c)\<close> to \<open>(e_r, e_c)\<close>.
\<close>

record fusion =
  s_r :: nat
  s_c :: nat
  e_r :: nat
  e_c :: nat

record feuille =
  contenu :: "nat \<Rightarrow> nat \<Rightarrow> string"
  fusions :: "fusion list"

text \<open>Step 1: the horizontal merges anchored on row index 2, sorted by first column
  (\<open>Array.prototype.sort\<close> is stable, as \<open>sort_key\<close> is).\<close>

definition fusionsLigne3 :: "feuille \<Rightarrow> fusion list" where
  "fusionsLigne3 sheet =
     sort_key s_c (filter (\<lambda>m. s_r m = 2 \<and> s_c m \<noteq> e_c m) (fusions sheet))"

text \<open>The spans kept as competencies, \<open>{nom, colDebut, colFin, largeur}\<close> (the column
  letters are for display only). \<open>largeur = colFin - colDebut + 1\<close> is computed on
  JavaScript numbers, so it is an integer that may be negative.\<close>

record competenceFusion =
  nomF :: string
  colDebut :: nat
  colFin :: nat
  largeur :: int

definition competencesFusions :: "feuille \<Rightarrow> competenceFusion list" where
  "competencesFusions sheet =
     fold (\<lambda>f competences.
             let texte = trim (contenu sheet 2 (s_c f))
             in if estCompetence texte
                then competences @
                       [\<lparr>nomF = texte, colDebut = s_c f, colFin = e_c f,
                          largeur = int (e_c f) - int (s_c f) + 1\<rparr>]
                else competences)
          (fusionsLigne3 sheet) []"

text \<open>
  Step 3, the body of the two nested loops on one cell: \<open>valeur\<close> is the cell's text in
  lower case, trimmed. \<open>Some\<close> is an assignment of \<open>offsetPourcentageSatisfaisant\<close>
  followed by \<open>break\<close>; \<open>None\<close> goes on to the next row.
\<close>

definition offsetCellule :: "nat \<Rightarrow> nat \<Rightarrow> string \<Rightarrow> int option" where
  "offsetCellule debut col valeur =
     (if valeur \<noteq> [] \<and> 2 < length valeur then
        if js_includes valeur ''satisfaisant'' \<or> js_includes valeur ''satisf''
           \<or> js_includes valeur ''satis''
        then
          if js_includes valeur ''nombre'' then Some (int col + 1 - int debut)
          else if js_includes valeur ''%'' \<or> js_includes valeur ''sur le nombre''
          then Some (int col - int debut)
          else None
        else None
      else None)"

text \<open>\<open>for (row = 3; row <= 5; row++)\<close>, given as the list of rows still to read.\<close>

fun chercherLignes :: "feuille \<Rightarrow> nat \<Rightarrow> nat \<Rightarrow> nat list \<Rightarrow> int option" where
  "chercherLignes sheet debut col [] = None"
| "chercherLignes sheet debut col (row # rows) =
     (case offsetCellule debut col (trim (toLowerCase (contenu sheet row col))) of
        Some off \<Rightarrow> Some off
      | None \<Rightarrow> chercherLignes sheet debut col rows)"

text \<open>\<open>for (col = comp.colDebut; col <= comp.colFin; col++)\<close>, left as soon as an
  offset is assigned.\<close>

fun chercherColonnes :: "feuille \<Rightarrow> nat \<Rightarrow> nat list \<Rightarrow> int option" where
  "chercherColonnes sheet debut [] = None"
| "chercherColonnes sheet debut (col # cols) =
     (case chercherLignes sheet debut col [3, 4, 5] of
        Some off \<Rightarrow> Some off
      | None \<Rightarrow> chercherColonnes sheet debut cols)"

definition chercherOffset :: "feuille \<Rightarrow> competenceFusion \<Rightarrow> int option" where
  "chercherOffset sheet c =
     chercherColonnes sheet (colDebut c) [colDebut c ..< Suc (colFin c)]"

text \<open>\<open>{...comp, offsetPourcentage, colonnePourcentage}\<close>.\<close>

record competenceAvecOffset = competenceFusion +
  offsetPourcentage :: int
  colonnePourcentage :: int

definition avecOffset :: "competenceFusion \<Rightarrow> int \<Rightarrow> competenceAvecOffset" where
  "avecOffset c off =
     \<lparr>nomF = nomF c, colDebut = colDebut c, colFin = colFin c,
      largeur = largeur c, offsetPourcentage = off,
      colonnePourcentage = int (colDebut c) + off\<rparr>"

text \<open>The warning of the heuristic, with the offset it prints.\<close>

datatype avertissementFusion = GroupeSatisfaisantNonTrouve int

text \<open>
  The array \<open>competencesAvecOffsets\<close> that \<open>analyserStructureAvecFusions\<close> builds in its
  \<open>competences.forEach\<close>, with the warnings written: an offset found by the search is
  kept, otherwise \<open>largeur - 1\<close> is taken and a warning written. This is the merge-aware
  path. When the sheet has no merge, or no merge of row index 2 is kept as a competency,
  the function hands over to \<open>analyserStructureClassique\<close>, which knows no span; that
  path is not part of this model.
\<close>

definition competencesAvecOffsets ::
  "feuille \<Rightarrow> competenceAvecOffset list \<times> avertissementFusion list" where
  "competencesAvecOffsets sheet =
     fold (\<lambda>comp etat.
             case chercherOffset sheet comp of
               Some off \<Rightarrow> (fst etat @ [avecOffset comp off], snd etat)
             | None \<Rightarrow>
                 (fst etat @ [avecOffset comp (largeur comp - 1)],
                  snd etat @ [GroupeSatisfaisantNonTrouve (largeur comp - 1)]))
          (competencesFusions sheet) ([], [])"

text \<open>The competencies handed to the row loop, \<open>{nom, colonneDebut}\<close>.\<close>

record competenceODS =
  nomO :: string
  colonneDebut :: int

definition competencesAvecDonnees :: "feuille \<Rightarrow> competenceODS list" where
  "competencesAvecDonnees sheet =
     map (\<lambda>c. \<lparr>nomO = nomF c, colonneDebut = colonnePourcentage c\<rparr>)
       (fst (competencesAvecOffsets sheet))"

subsection \<open>Rows of a sheet\<close>

text \<open>
  A row of \<open>sheet_to_json\<close> with \<open>header: 1, defval: null, raw: false\<close>: formatted
  strings, \<open>null\<close> for an empty cell. \<open>row[i] ? row[i].toString().trim() : ""\<close> and
  \<open>row[i]\<close>:
\<close>

type_synonym ligneODS = "string option list"

definition celluleODS :: "ligneODS \<Rightarrow> nat \<Rightarrow> string" where
  "celluleODS row i =
     (if i < length row then (case row ! i of None \<Rightarrow> [] | Some s \<Rightarrow> trim s) else [])"

definition valeurODS :: "ligneODS \<Rightarrow> int \<Rightarrow> string option" where
  "valeurODS row i = (if 0 \<le> i \<and> nat i < length row then row ! nat i else None)"

definition extraireResultats ::
  "ligneODS \<Rightarrow> competenceODS list \<Rightarrow> string \<Rightarrow> string \<Rightarrow> (string \<times> number) list" where
  "extraireResultats row competences niveau matiere =
     fold (\<lambda>comp res.
             case parsePourcentage (valeurODS row (colonneDebut comp)) of
               None \<Rightarrow> res
             | Some pctSatisfaisant \<Rightarrow>
                 AList.update (cleCompetence niveau matiere (nomO comp)) pctSatisfaisant res)
          competences []"

text \<open>The body of \<open>rangeData.forEach\<close> in \<open>OraceService.loadEcoles\<close>: the school is
  created first, its results are extracted and merged afterwards.\<close>

definition traiterLigne ::
  "competenceODS list \<Rightarrow> string \<Rightarrow> string \<Rightarrow> ligneODS
     \<Rightarrow> (string \<times> ecole) list \<Rightarrow> (string \<times> ecole) list" where
  "traiterLigne competences niveau matiere row ecolesMap =
     (let u = celluleODS row 0; n = celluleODS row 1
      in if ligneIgnoree u then ecolesMap
         else
           let m = (if map_of ecolesMap u = None
                    then AList.update u \<lparr>uai = u, nomEcole = n, resultats = []\<rparr> ecolesMap
                    else ecolesMap)
           in AList.map_entry u
                (\<lambda>e. e\<lparr>resultats :=
                          assign (resultats e)
                            (extraireResultats row competences niveau matiere)\<rparr>) m)"

text \<open>The body of \<open>feuillesResultats.forEach\<close>, given what the sheet yields: its level
  and subject, its competencies and its data rows from row index 10 on.\<close>

definition traiterFeuille ::
  "string \<Rightarrow> string \<Rightarrow> competenceODS list \<Rightarrow> ligneODS list
     \<Rightarrow> (string \<times> ecole) list \<Rightarrow> (string \<times> ecole) list" where
  "traiterFeuille niveau matiere competences rangeData ecolesMap =
     (if length competences = 0 then ecolesMap
      else fold (traiterLigne competences niveau matiere) rangeData ecolesMap)"

section \<open>The end-to-end scenario\<close>

text \<open>
  The grid of the scenario: twelve rows, the identity row first, the competency title at
  row index 2 and column 2 (the span runs to column 5, the last of the row), the group
  label at row index 6 and column 4, the percentage marker at row index 7 and column 5,
  the school at row index 11; every other cell is empty.
\<close>

definition grilleScenario :: "ligne \<Rightarrow> lignes" where
  "grilleScenario ligne1 =
     [ligne1, [''''],
      ['''', '''', ''Lecture de mots (10 points)'', '''', '''', ''''],
      [''''], [''''], [''''],
      ['''', '''', '''', '''', ''Groupe satisfaisant'', ''''],
      ['''', '''', '''', '''', '''', ''%''],
      [''''], [''''], [''''],
      [''0070116N'', ''Ecole Test'', ''12'', ''3'', ''5,5'', ''62,5'']]"

section \<open>The data row locator, as the specification words it\<close>

text \<open>
  A row that looks like a school: column 0, trimmed, has at least seven characters and
  contains none of \<open>uai\<close>, \<open>total\<close>, \<open>circonscription\<close> in any letter case, and column 1,
  trimmed, is not empty. This is the wording to compare with \<open>estLigneEcole\<close>, the test
  written in the source.
\<close>

definition ligneReconnue :: "ligne \<Rightarrow> bool" where
  "ligneReconnue ligne =
     (7 \<le> length (trim (cellule ligne 0))
      \<and> \<not> js_includes (toLowerCase (trim (cellule ligne 0))) ''uai''
      \<and> \<not> js_includes (toLowerCase (trim (cellule ligne 0))) ''total''
      \<and> \<not> js_includes (toLowerCase (trim (cellule ligne 0))) ''circonscription''
      \<and> trim (cellule ligne 1) \<noteq> [])"

section \<open>Values read and values stored\<close>

text \<open>\<open>valeurNum\<close>, the number \<open>parsePourcentage\<close> reads from a non-empty cell before its
  fraction rule.\<close>

definition valeurNum :: "string \<Rightarrow> number option" where
  "valeurNum v = parseFloat (replace (trim (replace (trim v) ''%'' [])) '','' ''.'')"

text \<open>A number in the closed interval from 0 to 100.\<close>

definition dansBornes :: "number \<Rightarrow> bool" where
  "dansBornes v = (case v of Fini q \<Rightarrow> 0 \<le> q \<and> q \<le> 100 | Infini \<Rightarrow> False | MoinsInfini \<Rightarrow> False)"

text \<open>The grid of the scenario for \<open>CP\<close> and \<open>francais\<close>, with \<open>105\<close> in the school's
  percentage cell.\<close>

definition grilleHorsBornes :: lignes where
  "grilleHorsBornes =
     take 11 (grilleScenario [''Evaluation cpfr''])
       @ [[''0070116N'', ''Ecole Test'', ''12'', ''3'', ''5,5'', ''105'']]"

section \<open>Sample sheets\<close>

text \<open>
  A sheet with one merge on row index 2, columns 2 to 5, titled as in the scenario, and
  one more text, at row index 5 and column 5.
\<close>

definition feuilleTest :: "string \<Rightarrow> feuille" where
  "feuilleTest t =
     \<lparr>contenu = (\<lambda>r c. if r = 2 \<and> c = 2 then ''Lecture de mots (10 points)''
                       else if r = 5 \<and> c = 5 then t else []),
      fusions = [\<lparr>s_r = 2, s_c = 2, e_r = 2, e_c = 5\<rparr>]\<rparr>"

section \<open>Rejection of a source unit, as the specification words it\<close>

text \<open>
  A cell contains a word in any letter case (the word given in lower case); a row
  contains it when one of its cells does; a row carries a percentage marker when it
  contains \<open>%\<close> or one of the two spellings of the respondents keyword.
\<close>

definition celluleContient :: "string \<Rightarrow> string \<Rightarrow> bool" where
  "celluleContient c mot = js_includes (toLowerCase c) mot"

definition ligneContient :: "ligne \<Rightarrow> string \<Rightarrow> bool" where
  "ligneContient ligne mot = list_ex (\<lambda>c. celluleContient c mot) ligne"

definition ligneMarquee :: "ligne \<Rightarrow> bool" where
  "ligneMarquee ligne =
     (ligneContient ligne ''%'' \<or> ligneContient ligne (''r'' @ [CHR 0xE9] @ ''pondants'')
      \<or> ligneContient ligne ''repondants'')"

text \<open>The grid of the scenario with its identity row, title row (index 2), group row
  (index 6) and percentage row (index 7) left open.\<close>

definition grilleTest :: "ligne \<Rightarrow> ligne \<Rightarrow> ligne \<Rightarrow> ligne \<Rightarrow> lignes" where
  "grilleTest ligne1 titres groupes pourcentages =
     [ligne1, [''''], titres, [''''], [''''], [''''], groupes, pourcentages,
      [''''], [''''], [''''],
      [''0070116N'', ''Ecole Test'', ''12'', ''3'', ''5,5'', ''62,5'']]"

section \<open>Decimal cells, as the specification words them\<close>

text \<open>\<open>valeurStr\<close>, the text \<open>parsePourcentage\<close> hands to \<open>parseFloat\<close>: the cell trimmed,
  without its first \<open>%\<close>, trimmed again, its first comma replaced by a point.\<close>

definition valeurStr :: "string \<Rightarrow> string" where
  "valeurStr v = replace (trim (replace (trim v) ''%'' [])) '','' ''.''"

text \<open>
  A text begins with a number when, after its leading white space and one optional sign,
  comes \<open>Infinity\<close>, a digit, or a point followed by a digit.
\<close>

definition commenceParUnNombre :: "string \<Rightarrow> bool" where
  "commenceParUnNombre s =
     (let t = dropWhile estBlanc s;
          u = (case t of
                 [] \<Rightarrow> []
               | c # r \<Rightarrow> if c = CHR ''+'' \<or> c = CHR ''-'' then r else t)
      in take 8 u = ''Infinity''
         \<or> (case u of
              [] \<Rightarrow> False
            | c # r \<Rightarrow>
                estChiffre c
                \<or> (c = CHR ''.'' \<and> (case r of [] \<Rightarrow> False | d # _ \<Rightarrow> estChiffre d))))"

text \<open>The value of the decimal numeral with integer digits \<open>ent\<close> and fraction digits
  \<open>dec\<close>.\<close>

definition valeurDecimale :: "string \<Rightarrow> string \<Rightarrow> rat" where
  "valeurDecimale ent dec =
     rat_of_nat (valeurChiffres ent) + rat_of_nat (valeurChiffres dec) / 10 ^ length dec"

text \<open>The fraction rule on a number: strictly between 0 and 1 it is multiplied by 100, the
  product rounded to binary64; any other number is left as it is.\<close>

definition regleFraction :: "number \<Rightarrow> number" where
  "regleFraction n =
     (case n of
        Fini q \<Rightarrow> if 0 < q \<and> q < 1 then arrondi64 (q * 100) else Fini q
      | Infini \<Rightarrow> Infini
      | MoinsInfini \<Rightarrow> MoinsInfini)"

text \<open>A string of digits, not empty.\<close>

definition chiffres :: "string \<Rightarrow> bool" where
  "chiffres ds = (ds \<noteq> [] \<and> list_all estChiffre ds)"

section \<open>Rounding to binary64, verified\<close>

lemma puissance2_powi: "puissance2 e = 2 powi e"
  by (simp add: puissance2_def power_int_def power_one_over inverse_eq_divide)

lemma of_int_le_pow2: "(n :: int) \<le> 2 ^ k \<Longrightarrow> (of_int n :: rat) \<le> 2 ^ k"
  by simp

lemma bitlen_positif: "0 < n \<Longrightarrow> 0 < bitlen n"
  using bitlen_le_iff_power [of n 0] by simp

lemma exposant2_encadre:
  assumes "0 < x"
  shows "puissance2 (exposant2 x) \<le> x \<and> x < puissance2 (exposant2 x + 1)"
proof (cases "1 \<le> x")
  case True
  define n where "n = \<lfloor>x\<rfloor>"
  have n: "0 < n" using True by (simp add: n_def)
  have b: "0 < bitlen n" using n by (rule bitlen_positif)
  have bo: "2 ^ nat (bitlen n - 1) \<le> n" "n < 2 ^ nat (bitlen n)"
    using bitlen_bounds [OF n] by simp_all
  have e: "exposant2 x = bitlen n - 1" using True by (simp add: exposant2_def n_def)
  have "(2 :: rat) ^ nat (bitlen n - 1) \<le> of_int n" using bo(1) by simp
  moreover have "of_int n \<le> x" by (simp add: n_def)
  ultimately have "(2 :: rat) ^ nat (bitlen n - 1) \<le> x" by linarith
  then have lo: "puissance2 (bitlen n - 1) \<le> x" using b by (simp add: puissance2_def)
  have "n + 1 \<le> 2 ^ nat (bitlen n)" using bo(2) by simp
  then have "(of_int (n + 1) :: rat) \<le> 2 ^ nat (bitlen n)" by (rule of_int_le_pow2)
  moreover have "x < of_int (n + 1)" unfolding n_def by linarith
  ultimately have "x < (2 :: rat) ^ nat (bitlen n)" by linarith
  then have hi: "x < puissance2 (bitlen n)" using b by (simp add: puissance2_def)
  show ?thesis using lo hi e by simp
next
  case False
  define n where "n = \<lfloor>1 / x\<rfloor>"
  define f where "f = bitlen n - 1"
  define P :: rat where "P = 2 ^ nat f"
  have y: "1 < 1 / x" using assms False by simp
  then have n: "0 < n" by (simp add: n_def)
  have f0: "0 \<le> f" using bitlen_positif [OF n] by (simp add: f_def)
  have bo: "2 ^ nat f \<le> n" "n < 2 ^ nat (bitlen n)"
    using bitlen_bounds [OF n] by (simp_all add: f_def)
  have nb: "nat (bitlen n) = Suc (nat f)" using f0 by (simp add: f_def)
  have P0: "0 < P" by (simp add: P_def)
  have "(2 :: rat) ^ nat f \<le> of_int n" using bo(1) by simp
  moreover have "of_int n \<le> 1 / x" by (simp add: n_def)
  ultimately have "P \<le> 1 / x" unfolding P_def by linarith
  then have lo: "x * P \<le> 1" using assms by (simp add: field_simps)
  have "n + 1 \<le> 2 ^ Suc (nat f)" using bo(2) nb by simp
  then have "(of_int (n + 1) :: rat) \<le> 2 ^ Suc (nat f)" by (rule of_int_le_pow2)
  then have "(of_int (n + 1) :: rat) \<le> 2 * P" by (simp add: P_def)
  moreover have "1 / x < of_int (n + 1)" unfolding n_def by linarith
  ultimately have "1 / x < 2 * P" by linarith
  then have hi: "1 < x * (2 * P)" using assms by (simp add: field_simps)
  have pf: "puissance2 f = P" using f0 by (simp add: puissance2_def P_def)
  have pm: "puissance2 (- f) = 1 / P"
    using f0 by (cases "f = 0") (simp_all add: puissance2_def P_def)
  have pm1: "puissance2 (- f - 1) = 1 / (2 * P)"
    using f0 by (simp add: puissance2_def P_def nat_add_distrib)
  have pp1: "puissance2 (- f + 1) = 2 / P"
  proof (cases "f = 0")
    case True
    then show ?thesis by (simp add: puissance2_def P_def)
  next
    case False
    then have "nat f = Suc (nat (f - 1))" using f0 by simp
    then show ?thesis using False f0 by (simp add: puissance2_def P_def)
  qed
  show ?thesis
  proof (cases "x * P = 1")
    case True
    then have e: "exposant2 x = - f"
      using False by (simp add: exposant2_def Let_def n_def [symmetric] f_def [symmetric] pf)
    have "x = 1 / P" using True P0 by (simp add: field_simps)
    moreover have "1 / P < 2 / P" using P0 by (simp add: divide_strict_right_mono)
    ultimately show ?thesis using e pm pp1 by simp
  next
    case neq: False
    then have e: "exposant2 x = - f - 1"
      using False by (simp add: exposant2_def Let_def n_def [symmetric] f_def [symmetric] pf)
    have "1 / (2 * P) < x" using hi P0 by (simp add: field_simps)
    moreover have "x < 1 / P" using lo neq P0 by (simp add: field_simps)
    ultimately show ?thesis using e pm pm1 by simp
  qed
qed

lemma arrondiPair_proche: "\<bar>of_int (arrondiPair m) - m\<bar> \<le> 1 / 2"
proof -
  have "of_int \<lfloor>m\<rfloor> \<le> m" "m < of_int \<lfloor>m\<rfloor> + 1" by linarith+
  then show ?thesis by (auto simp: arrondiPair_def Let_def)
qed

lemma arrondiPair_entier: "arrondiPair (of_int n) = n"
  by (simp add: arrondiPair_def)

lemma arrondiPair_minore:
  assumes "of_int M \<le> m"
  shows "M \<le> arrondiPair m"
proof -
  have "M \<le> \<lfloor>m\<rfloor>" using assms by (simp add: le_floor_iff)
  then show ?thesis by (simp add: arrondiPair_def Let_def)
qed

lemma arrondiPair_majore:
  assumes "m \<le> of_int M"
  shows "arrondiPair m \<le> M"
proof (cases "m = of_int M")
  case True
  then show ?thesis by (simp add: arrondiPair_entier)
next
  case False
  then have "\<lfloor>m\<rfloor> < M" using assms by (simp add: floor_less_iff)
  then show ?thesis by (simp add: arrondiPair_def Let_def)
qed

lemma puissance2_positif: "0 < puissance2 e"
  by (simp add: puissance2_powi)

lemma puissance2_mono: "a \<le> b \<Longrightarrow> puissance2 a \<le> puissance2 b"
  by (simp add: puissance2_powi power_int_increasing)

lemma puissance2_strict: "a < b \<Longrightarrow> puissance2 a < puissance2 b"
  by (simp add: puissance2_powi power_int_strict_increasing)

lemma puissance2_add: "puissance2 (a + b) = puissance2 a * puissance2 b"
  by (simp add: puissance2_powi power_int_add)

lemma puissance2_53: "puissance2 (e + 1) = 2 ^ 53 * puissance2 (e - 52)"
proof -
  have "puissance2 (53 + (e - 52)) = puissance2 53 * puissance2 (e - 52)"
    by (rule puissance2_add)
  then show ?thesis by (simp add: puissance2_def [of 53] add.commute)
qed

lemma puissance2_52: "puissance2 e = 2 ^ 52 * puissance2 (e - 52)"
proof -
  have "puissance2 (52 + (e - 52)) = puissance2 52 * puissance2 (e - 52)"
    by (rule puissance2_add)
  then show ?thesis by (simp add: puissance2_def [of 52])
qed

text \<open>
  The rounded value is a binary64 number, and a nearest one: an integer of at most 53 bits
  times the unit in the last place, at most half a unit away from the rational.
\<close>

lemma arrondiPositif_proche:
  assumes "0 < x" "arrondiPositif x = Fini v"
  shows "\<exists>n. 0 \<le> n \<and> n \<le> 2 ^ 53
           \<and> v = of_int n * puissance2 (max (exposant2 x) (- 1022) - 52)
           \<and> \<bar>v - x\<bar> \<le> puissance2 (max (exposant2 x) (- 1022) - 52) / 2"
proof -
  define e where "e = max (exposant2 x) (- 1022)"
  define ulp where "ulp = puissance2 (e - 52)"
  define n where "n = arrondiPair (x / ulp)"
  have u: "0 < ulp" by (simp add: ulp_def puissance2_positif)
  have v: "v = of_int n * ulp"
    using assms(2)
    by (simp add: arrondiPositif_def Let_def e_def [symmetric] ulp_def [symmetric]
        n_def [symmetric] split: if_splits)
  have n0: "0 \<le> n"
    unfolding n_def using assms(1) u by (intro arrondiPair_minore) simp
  have "x < puissance2 (exposant2 x + 1)" using exposant2_encadre [OF assms(1)] by simp
  also have "\<dots> \<le> puissance2 (e + 1)" by (intro puissance2_mono) (simp add: e_def)
  also have "\<dots> = 2 ^ 53 * ulp" by (simp add: puissance2_53 ulp_def)
  finally have "x / ulp < 2 ^ 53" using u by (simp add: field_simps)
  then have "x / ulp \<le> of_int (2 ^ 53)" by simp
  then have n53: "n \<le> 2 ^ 53" unfolding n_def by (rule arrondiPair_majore)
  have "\<bar>of_int n - x / ulp\<bar> \<le> 1 / 2" unfolding n_def by (rule arrondiPair_proche)
  then have "\<bar>of_int n - x / ulp\<bar> * ulp \<le> 1 / 2 * ulp"
    using u by (intro mult_right_mono) simp_all
  moreover have "\<bar>of_int n - x / ulp\<bar> * ulp = \<bar>of_int n * ulp - x\<bar>"
    using u by (simp add: abs_mult_pos' [symmetric] field_simps)
  ultimately have "\<bar>v - x\<bar> \<le> ulp / 2" using v by simp
  then show ?thesis using n0 n53 v unfolding ulp_def e_def by blast
qed

text \<open>From \<open>2^1024\<close> on, a number overflows to \<open>Infinity\<close>.\<close>

lemma arrondi64_deborde:
  assumes "puissance2 1024 \<le> x"
  shows "arrondi64 x = Infini"
proof -
  have x0: "0 < x" using assms puissance2_positif [of 1024] by linarith
  define e where "e = exposant2 x"
  have enc: "puissance2 e \<le> x" "x < puissance2 (e + 1)"
    using exposant2_encadre [OF x0] by (simp_all add: e_def)
  have e1024: "1024 \<le> e"
  proof (rule ccontr)
    assume "\<not> 1024 \<le> e"
    then have "puissance2 (e + 1) \<le> puissance2 1024" by (intro puissance2_mono) simp
    then show False using enc(2) assms by linarith
  qed
  define ulp where "ulp = puissance2 (e - 52)"
  have u: "0 < ulp" by (simp add: ulp_def puissance2_positif)
  have "2 ^ 52 * ulp \<le> x" using enc(1) puissance2_52 [of e] by (simp add: ulp_def)
  then have "of_int (2 ^ 52) \<le> x / ulp" using u by (simp add: field_simps)
  then have "2 ^ 52 \<le> arrondiPair (x / ulp)" by (rule arrondiPair_minore)
  then have "(2 :: rat) ^ 52 \<le> of_int (arrondiPair (x / ulp))" by simp
  then have "2 ^ 52 * ulp \<le> of_int (arrondiPair (x / ulp)) * ulp"
    using u by (intro mult_right_mono) simp_all
  then have "puissance2 e \<le> of_int (arrondiPair (x / ulp)) * ulp"
    using puissance2_52 [of e] by (simp add: ulp_def)
  moreover have "puissance2 1024 \<le> puissance2 e" using e1024 by (rule puissance2_mono)
  ultimately have "puissance2 1024 \<le> of_int (arrondiPair (x / ulp)) * ulp" by linarith
  moreover have "max e (- 1022) = e" using e1024 by simp
  ultimately have "arrondiPositif x = Infini"
    using e1024
    by (simp add: arrondiPositif_def Let_def e_def [symmetric] ulp_def [symmetric])
  then show ?thesis using x0 by (simp add: arrondi64_def)
qed

text \<open>Up to \<open>2^-1075\<close>, half the smallest subnormal number, a positive number underflows
  to zero.\<close>

lemma arrondi64_sousflux:
  assumes "0 < x" "x \<le> puissance2 (- 1075)"
  shows "arrondi64 x = Fini 0"
proof -
  define e where "e = exposant2 x"
  have enc: "puissance2 e \<le> x" using exposant2_encadre [OF assms(1)] by (simp add: e_def)
  have e1075: "e \<le> - 1075"
  proof (rule ccontr)
    assume "\<not> e \<le> - 1075"
    then have "puissance2 (- 1075) < puissance2 e" by (intro puissance2_strict) simp
    then show False using enc assms(2) by linarith
  qed
  define ulp where "ulp = puissance2 (- 1074)"
  have u: "0 < ulp" by (simp add: ulp_def puissance2_positif)
  have "puissance2 (- 1074) = puissance2 (1 + (- 1075))" by simp
  also have "\<dots> = 2 * puissance2 (- 1075)"
    by (simp only: puissance2_add) (simp add: puissance2_def [of 1])
  finally have "x \<le> ulp / 2" using assms(2) by (simp add: ulp_def)
  then have m: "x / ulp \<le> 1 / 2" using u by (simp add: field_simps)
  have m0: "0 < x / ulp" using assms(1) u by simp
  have "x / ulp < 1" using m by linarith
  then have fl: "\<lfloor>x / ulp\<rfloor> = 0" using m0 by (simp add: floor_eq_iff)
  have "arrondiPair (x / ulp) = 0" using m by (auto simp: arrondiPair_def Let_def fl)
  moreover have "max e (- 1022) = - 1022" using e1075 by simp
  ultimately have "arrondiPositif x = Fini 0"
    by (simp add: arrondiPositif_def Let_def e_def [symmetric] ulp_def [symmetric])
  then show ?thesis using assms(1) by (simp add: arrondi64_def)
qed

lemma exposant2_borne:
  assumes "0 < x" "x < 100"
  shows "exposant2 x \<le> 6"
proof (rule ccontr)
  assume "\<not> exposant2 x \<le> 6"
  then have "puissance2 7 \<le> puissance2 (exposant2 x)" by (intro puissance2_mono) simp
  moreover have "puissance2 7 = 128" by (simp add: puissance2_def)
  ultimately show False using exposant2_encadre [OF assms(1)] assms(2) by linarith
qed

text \<open>Rounding keeps a number between 0 and 100 there: 100 is a binary64 number.\<close>

lemma arrondi64_borne:
  assumes "0 < x" "x < 100"
  shows "\<exists>v. arrondi64 x = Fini v \<and> 0 \<le> v \<and> v \<le> 100"
proof -
  define e where "e = max (exposant2 x) (- 1022)"
  define k where "k = nat (52 - e)"
  have e6: "e \<le> 6" using exposant2_borne [OF assms] by (simp add: e_def)
  then have ulp: "puissance2 (e - 52) = 1 / 2 ^ k" by (simp add: puissance2_def k_def)
  define n where "n = arrondiPair (x * 2 ^ k)"
  have n0: "0 \<le> n" unfolding n_def using assms by (intro arrondiPair_minore) simp
  have "x * 2 ^ k \<le> of_int (100 * 2 ^ k)" using assms by simp
  then have nM: "n \<le> 100 * 2 ^ k" unfolding n_def by (rule arrondiPair_majore)
  have v: "arrondiPositif x = Fini (of_int n / 2 ^ k)"
    using e6 ulp by (simp add: arrondiPositif_def Let_def e_def [symmetric] n_def)
  have "(of_int n :: rat) \<le> of_int (100 * 2 ^ k)" using nM by (simp only: of_int_le_iff)
  then have "(of_int n :: rat) / 2 ^ k \<le> 100" by (simp add: divide_le_eq)
  moreover have "0 \<le> (of_int n :: rat) / 2 ^ k" using n0 by simp
  ultimately show ?thesis using assms v by (simp add: arrondi64_def)
qed

section \<open>Properties of the numeric normalizer\<close>

lemma parsePourcentage_50: "parsePourcentage (Some ''50%'') = Some (Fini 50)"
  by code_simp

lemma parsePourcentage_50_5: "parsePourcentage (Some ''50,5 %'') = Some (Fini (101 / 2))"
  by code_simp

lemma parsePourcentage_0_5: "parsePourcentage (Some ''0.5'') = Some (Fini 50)"
  by code_simp

lemma parsePourcentage_105: "parsePourcentage (Some ''105'') = Some (Fini 105)"
  by code_simp

lemma parsePourcentage_vide: "parsePourcentage (Some '''') = None"
  by (simp add: parsePourcentage_def)

lemma parsePourcentage_null: "parsePourcentage None = None"
  by (simp add: parsePourcentage_def)

text \<open>\<open>parseFloat\<close> gives \<open>NaN\<close> exactly on a text that does not begin with a number.\<close>

lemma parseFloat_None_iff: "parseFloat s = None \<longleftrightarrow> \<not> commenceParUnNombre s"
proof -
  define t where "t = dropWhile estBlanc s"
  define u where "u = (if t \<noteq> [] \<and> (hd t = CHR ''-'' \<or> hd t = CHR ''+'') then tl t else t)"
  have u': "(case t of [] \<Rightarrow> [] | c # r \<Rightarrow> if c = CHR ''+'' \<or> c = CHR ''-'' then r else t) = u"
    by (cases t) (auto simp: u_def)
  show ?thesis
  proof (cases "take 8 u = ''Infinity''")
    case True
    then show ?thesis
      by (simp add: parseFloat_def commenceParUnNombre_def Let_def t_def [symmetric]
          u_def [symmetric] u')
  next
    case inf: False
    show ?thesis
    proof (cases u)
      case Nil
      then show ?thesis
        by (simp add: parseFloat_def commenceParUnNombre_def Let_def t_def [symmetric]
            u_def [symmetric] u')
    next
      case (Cons c r)
      show ?thesis
      proof (cases "estChiffre c")
        case True
        then show ?thesis using Cons inf
          by (simp add: parseFloat_def commenceParUnNombre_def Let_def t_def [symmetric]
              u_def [symmetric] u')
      next
        case False
        then show ?thesis using Cons inf
          by (cases r)
            (auto simp: parseFloat_def commenceParUnNombre_def Let_def t_def [symmetric]
              u_def [symmetric] u')
      qed
    qed
  qed
qed

subsection \<open>Cells that hold a decimal numeral\<close>

lemma chiffre_pas_blanc: "estChiffre c \<Longrightarrow> \<not> estBlanc c"
  by (auto simp: estChiffre_def estBlanc_def)

lemma chiffre_pas_signe:
  "estChiffre c \<Longrightarrow> c \<noteq> CHR ''-'' \<and> c \<noteq> CHR ''+'' \<and> c \<noteq> CHR ''.'' \<and> c \<noteq> CHR '',''
     \<and> c \<noteq> CHR ''%'' \<and> c \<noteq> CHR ''I''"
  by (auto simp: estChiffre_def)

lemma trim_net:
  assumes "s \<noteq> []" "\<not> estBlanc (hd s)" "\<not> estBlanc (last s)"
  shows "trim s = s"
proof -
  have "dropWhile estBlanc s = s" using assms by (cases s) auto
  moreover have "dropWhile estBlanc (rev s) = rev s"
    using assms by (cases "rev s") (auto simp: hd_rev [symmetric])
  ultimately show ?thesis by (simp add: trim_def)
qed

lemma trim_espace_final:
  assumes "s \<noteq> []" "\<not> estBlanc (hd s)" "\<not> estBlanc (last s)"
  shows "trim (s @ '' '') = s"
proof -
  have "dropWhile estBlanc (s @ '' '') = s @ '' ''" using assms by (cases s) auto
  moreover have "dropWhile estBlanc (rev s) = rev s"
    using assms by (cases "rev s") (auto simp: hd_rev [symmetric])
  ultimately show ?thesis by (simp add: trim_def estBlanc_def)
qed

lemma replace_absent: "c \<notin> set s \<Longrightarrow> replace s [c] rep = s"
  by (induction s) auto

lemma replace_premier: "c \<notin> set p \<Longrightarrow> replace (p @ c # r) [c] rep = p @ rep @ r"
  by (induction p) auto

text \<open>The cleaning of a cell made of a text and an optional percent sign.\<close>

lemma valeurStr_cellule:
  assumes "t \<noteq> []" "\<not> estBlanc (hd t)" "\<not> estBlanc (last t)" "CHR ''%'' \<notin> set t"
    and "s = [] \<or> s = ''%'' \<or> s = '' %''"
  shows "valeurStr (t @ s) = replace t '','' ''.''"
proof -
  have pc: "\<not> estBlanc CHR ''%''" by (simp add: estBlanc_def)
  from assms(5) consider "s = []" | "s = ''%''" | "s = '' %''" by blast
  then show ?thesis
  proof cases
    case 1
    then show ?thesis using assms(1-4) by (simp add: valeurStr_def trim_net replace_absent)
  next
    case 2
    have "trim (t @ ''%'') = t @ ''%''" using assms(1,2) pc by (intro trim_net) auto
    moreover have "replace (t @ ''%'') ''%'' [] = t"
      using replace_premier [of "CHR ''%''" t "[]" "[]"] assms(4) by simp
    ultimately show ?thesis using 2 assms(1-3) by (simp add: valeurStr_def trim_net)
  next
    case 3
    have "trim (t @ '' %'') = t @ '' %''" using assms(1,2) pc by (intro trim_net) auto
    moreover have "replace (t @ '' %'') ''%'' [] = t @ '' ''"
      using replace_premier [of "CHR ''%''" "t @ '' ''" "[]" "[]"] assms(4) by simp
    ultimately show ?thesis using 3 assms(1-3) by (simp add: valeurStr_def trim_espace_final)
  qed
qed

lemma chiffres_tete: "chiffres a \<Longrightarrow> estChiffre (hd a) \<and> estChiffre (last a)"
  by (cases a) (auto simp: chiffres_def list_all_iff)

lemma chiffres_set: "chiffres a \<Longrightarrow> c \<in> set a \<Longrightarrow> estChiffre c"
  by (auto simp: chiffres_def list_all_iff)

lemma valeurStr_entier:
  assumes "chiffres a" "s = [] \<or> s = ''%'' \<or> s = '' %''"
  shows "valeurStr (a @ s) = a"
proof -
  have "CHR ''%'' \<notin> set a" "CHR '','' \<notin> set a"
    using chiffres_set [OF assms(1)] chiffre_pas_signe by blast+
  moreover have "a \<noteq> []" using assms(1) by (simp add: chiffres_def)
  ultimately show ?thesis
    using valeurStr_cellule [of a s] chiffres_tete [OF assms(1)] chiffre_pas_blanc assms(2)
    by (simp add: replace_absent)
qed

lemma valeurStr_decimal:
  assumes "chiffres a" "chiffres b" "sep = CHR '','' \<or> sep = CHR ''.''"
    "s = [] \<or> s = ''%'' \<or> s = '' %''"
  shows "valeurStr (a @ sep # b @ s) = a @ CHR ''.'' # b"
proof -
  let ?t = "a @ sep # b"
  have a: "a \<noteq> []" and b: "b \<noteq> []" using assms(1,2) by (simp_all add: chiffres_def)
  have pa: "CHR ''%'' \<notin> set a" "CHR '','' \<notin> set a" "CHR ''%'' \<notin> set b" "CHR '','' \<notin> set b"
    using chiffres_set [OF assms(1)] chiffres_set [OF assms(2)] chiffre_pas_signe by blast+
  have "hd ?t = hd a" "last ?t = last b" using a b by simp_all
  then have bl: "\<not> estBlanc (hd ?t)" "\<not> estBlanc (last ?t)"
    using chiffres_tete [OF assms(1)] chiffres_tete [OF assms(2)] chiffre_pas_blanc by auto
  have pc: "CHR ''%'' \<notin> set ?t" using pa assms(3) by auto
  have "valeurStr (?t @ s) = replace ?t '','' ''.''"
    using valeurStr_cellule [of ?t s] bl pc assms(4) by simp
  moreover have "replace ?t '','' ''.'' = a @ CHR ''.'' # b"
  proof (cases "sep = CHR '',''")
    case True
    then show ?thesis using replace_premier [of "CHR '',''" a b "''.''"] pa by simp
  next
    case False
    then have "CHR '','' \<notin> set ?t" using pa assms(3) by auto
    then have "replace ?t [CHR '',''] ''.'' = ?t" by (rule replace_absent)
    then show ?thesis using False assms(3) by simp
  qed
  ultimately show ?thesis by simp
qed

lemma pas_infinity: "estChiffre (hd s) \<Longrightarrow> take 8 s \<noteq> ''Infinity''"
  by (cases s) (auto simp: estChiffre_def)

lemma takeWhile_chiffres: "list_all estChiffre a \<Longrightarrow> \<not> estChiffre c \<Longrightarrow> takeWhile estChiffre (a @ c # r) = a"
  by (induction a) auto

lemma dropWhile_chiffres: "list_all estChiffre a \<Longrightarrow> \<not> estChiffre c \<Longrightarrow> dropWhile estChiffre (a @ c # r) = c # r"
  by (induction a) auto

lemma takeWhile_tous: "list_all estChiffre a \<Longrightarrow> takeWhile estChiffre a = a"
  by (induction a) auto

lemma dropWhile_tous: "list_all estChiffre a \<Longrightarrow> dropWhile estChiffre a = []"
  by (induction a) auto

lemma parseFloat_entier:
  assumes "chiffres a"
  shows "parseFloat a = Some (arrondi64 (rat_of_nat (valeurChiffres a)))"
proof -
  have a: "a \<noteq> []" "list_all estChiffre a" using assms by (simp_all add: chiffres_def)
  have h: "estChiffre (hd a)" using chiffres_tete [OF assms] by simp
  have d: "dropWhile estBlanc a = a" using a h chiffre_pas_blanc by (cases a) auto
  have sg: "hd a \<noteq> CHR ''-''" "hd a \<noteq> CHR ''+''" using h chiffre_pas_signe by blast+
  show ?thesis
    using a d sg pas_infinity [OF h]
    by (simp add: parseFloat_def Let_def takeWhile_tous dropWhile_tous exposant_def
        puissance10_def valeurChiffres_def)
qed

lemma parseFloat_decimal:
  assumes "chiffres a" "chiffres b"
  shows "parseFloat (a @ CHR ''.'' # b) = Some (arrondi64 (valeurDecimale a b))"
proof -
  let ?s = "a @ CHR ''.'' # b"
  have a: "a \<noteq> []" "list_all estChiffre a" using assms by (simp_all add: chiffres_def)
  have b: "b \<noteq> []" "list_all estChiffre b" using assms by (simp_all add: chiffres_def)
  have h: "estChiffre (hd ?s)" using chiffres_tete [OF assms(1)] a by simp
  have d: "dropWhile estBlanc ?s = ?s" using a h chiffre_pas_blanc by (cases a) auto
  have sg: "hd ?s \<noteq> CHR ''-''" "hd ?s \<noteq> CHR ''+''" using h chiffre_pas_signe by blast+
  have pt: "\<not> estChiffre CHR ''.''" by (simp add: estChiffre_def)
  have tw: "takeWhile estChiffre ?s = a" "dropWhile estChiffre ?s = CHR ''.'' # b"
    using a pt by (simp_all add: takeWhile_chiffres dropWhile_chiffres)
  show ?thesis
    unfolding parseFloat_def Let_def d
    using a b sg pas_infinity [OF h] tw
    by (simp add: takeWhile_tous dropWhile_tous exposant_def puissance10_def
        valeurDecimale_def)
qed

subsection \<open>Overflow, underflow and the rounded product\<close>

text \<open>
  Three literals on which the rounding shows. \<open>1e309\<close> is beyond the largest binary64
  number and reads as \<open>Infinity\<close>; \<open>1e-400\<close> is below half the smallest one and reads as
  0; 0.57 is not a binary64 number, and the product of the number read with 100, rounded,
  is 56.99999999999999 (\<open>8022036836253695 / 2^47\<close>), not 57.
\<close>

lemma parseFloat_1e309: "parseFloat ''1e309'' = Some Infini"
proof -
  have "parseFloat ''1e309'' = Some (arrondi64 (10 ^ 309))"
    by (simp add: parseFloat_def Let_def estBlanc_def estChiffre_def exposant_def
        valeurChiffres_def puissance10_def)
  moreover have "puissance2 1024 \<le> 10 ^ 309" by (simp add: puissance2_def)
  ultimately show ?thesis by (simp only: arrondi64_deborde)
qed

lemma parseFloat_1e_400: "parseFloat ''1e-400'' = Some (Fini 0)"
proof -
  have "parseFloat ''1e-400'' = Some (arrondi64 (1 / 10 ^ 400))"
    by (simp add: parseFloat_def Let_def estBlanc_def estChiffre_def exposant_def
        valeurChiffres_def puissance10_def)
  moreover have "(1 / 10 ^ 400 :: rat) \<le> puissance2 (- 1075)"
    by (simp add: puissance2_def field_simps)
  moreover have "(0 :: rat) < 1 / 10 ^ 400" by simp
  ultimately show ?thesis by (simp only: arrondi64_sousflux)
qed

lemma parsePourcentage_0_57:
  "parsePourcentage (Some ''0,57'') = Some (Fini (8022036836253695 / 140737488355328))"
  by code_simp

text \<open>The result, by the number read from the cleaned text.\<close>

lemma parsePourcentage_regleFraction:
  "v \<noteq> [] \<Longrightarrow> parsePourcentage (Some v) = map_option regleFraction (parseFloat (valeurStr v))"
  by (simp add: parsePourcentage_def valeurStr_def regleFraction_def Let_def
      split: option.splits number.splits)

lemma parsePourcentage_None_iff:
  "parsePourcentage (Some v) = None \<longleftrightarrow> v = [] \<or> \<not> commenceParUnNombre (valeurStr v)"
proof (cases "v = []")
  case True
  then show ?thesis by (simp add: parsePourcentage_def)
next
  case False
  then show ?thesis
    by (simp add: parsePourcentage_regleFraction parseFloat_None_iff [symmetric])
qed

lemma regleFraction_proche:
  assumes "0 < q" "q < 1"
  shows "\<exists>r. regleFraction (Fini q) = Fini r \<and> 0 \<le> r \<and> r \<le> 100
           \<and> \<bar>r - q * 100\<bar> \<le> 1 / 2 ^ 47"
proof -
  let ?x = "q * 100"
  have x: "0 < ?x" "?x < 100" using assms by simp_all
  from arrondi64_borne [OF x] obtain r where r: "arrondi64 ?x = Fini r" "0 \<le> r" "r \<le> 100"
    by blast
  then have ap: "arrondiPositif ?x = Fini r" using x by (simp add: arrondi64_def)
  from arrondiPositif_proche [OF x(1) ap]
  have pr: "\<bar>r - ?x\<bar> \<le> puissance2 (max (exposant2 ?x) (- 1022) - 52) / 2" by blast
  have "max (exposant2 ?x) (- 1022) - 52 \<le> - 46" using exposant2_borne [OF x] by simp
  then have "puissance2 (max (exposant2 ?x) (- 1022) - 52) \<le> puissance2 (- 46)"
    by (rule puissance2_mono)
  also have "\<dots> = 1 / 2 ^ 46" by (simp add: puissance2_def)
  finally have "\<bar>r - ?x\<bar> \<le> 1 / 2 ^ 47" using pr by simp
  then show ?thesis using r assms by (simp add: regleFraction_def)
qed

lemma regleFraction_inchange:
  "\<not> (\<exists>q. n = Fini q \<and> 0 < q \<and> q < 1) \<Longrightarrow> regleFraction n = n"
  by (auto simp: regleFraction_def split: number.splits)

lemma parsePourcentage_entier:
  assumes "chiffres a" "s = [] \<or> s = ''%'' \<or> s = '' %''"
  shows "parsePourcentage (Some (a @ s))
         = Some (regleFraction (arrondi64 (rat_of_nat (valeurChiffres a))))"
proof -
  have "a @ s \<noteq> []" using assms(1) by (simp add: chiffres_def)
  then show ?thesis
    using valeurStr_entier [OF assms] parseFloat_entier [OF assms(1)]
    by (simp add: parsePourcentage_regleFraction)
qed

lemma parsePourcentage_decimal:
  assumes "chiffres a" "chiffres b" "sep = CHR '','' \<or> sep = CHR ''.''"
    "s = [] \<or> s = ''%'' \<or> s = '' %''"
  shows "parsePourcentage (Some (a @ sep # b @ s))
         = Some (regleFraction (arrondi64 (valeurDecimale a b)))"
  using valeurStr_decimal [OF assms] parseFloat_decimal [OF assms(1,2)]
  by (simp add: parsePourcentage_regleFraction)

text \<open>
  Claim C5, as stated, fails: an input that is not a number is not always mapped to
  \<open>null\<close>. \<open>parseFloat\<close> reads the number a text begins with and ignores what follows it,
  so \<open>"12abc"\<close> gives 12 and \<open>"5 absents"\<close> gives 5.
\<close>

theorem prefixe_numerique_accepte:
  "parsePourcentage (Some ''12abc'') = Some (Fini 12)
   \<and> parsePourcentage (Some ''5 absents'') = Some (Fini 5)"
  by code_simp

text \<open>
  Claim C5, amended. \<open>parsePourcentage\<close> maps \<open>"50%"\<close> to 50, \<open>"50,5 %"\<close> to 50.5, \<open>"0.5"\<close> to
  50, \<open>"105"\<close> to 105, and the empty string and \<open>null\<close> to \<open>null\<close>. For every string, with
  the first \<open>%\<close> and the surrounding white space removed and the first comma replaced by a
  point (\<open>valeurStr\<close>):

  \<^item> the result is \<open>null\<close> exactly when the string is empty or the cleaned text does not
    begin with a number (what follows the number is ignored);
  \<^item> otherwise the result is the number \<open>parseFloat\<close> reads from the cleaned text, under
    the fraction rule: a number strictly between 0 and 1 is returned as its binary64
    product with 100, which lies between 0 and 100 and within \<open>2^-47\<close> of the exact
    product; any other number is returned as it is;
  \<^item> on a cell made of digits, with an optional fraction after a comma or a point and an
    optional \<open>%\<close> or \<open> %\<close> at the end, the number read is the binary64 number nearest to
    the decimal value written.

  The function is total: it returns on every input.
\<close>

theorem parsePourcentage_regle:
  "parsePourcentage (Some ''50%'') = Some (Fini 50)
   \<and> parsePourcentage (Some ''50,5 %'') = Some (Fini (101 / 2))
   \<and> parsePourcentage (Some ''0.5'') = Some (Fini 50)
   \<and> parsePourcentage (Some ''105'') = Some (Fini 105)
   \<and> parsePourcentage (Some '''') = None
   \<and> parsePourcentage None = None
   \<and> (\<forall>v. parsePourcentage (Some v) = None
          \<longleftrightarrow> v = [] \<or> \<not> commenceParUnNombre (valeurStr v))
   \<and> (\<forall>v n. v \<noteq> [] \<and> parseFloat (valeurStr v) = Some n
          \<longrightarrow> parsePourcentage (Some v) = Some (regleFraction n))
   \<and> (\<forall>q. 0 < q \<and> q < 1
          \<longrightarrow> (\<exists>r. regleFraction (Fini q) = Fini r \<and> 0 \<le> r \<and> r \<le> 100
                 \<and> \<bar>r - q * 100\<bar> \<le> 1 / 2 ^ 47))
   \<and> (\<forall>n. \<not> (\<exists>q. n = Fini q \<and> 0 < q \<and> q < 1) \<longrightarrow> regleFraction n = n)
   \<and> (\<forall>a s. chiffres a \<and> s \<in> set [[], ''%'', '' %'']
          \<longrightarrow> parsePourcentage (Some (a @ s))
              = Some (regleFraction (arrondi64 (rat_of_nat (valeurChiffres a)))))
   \<and> (\<forall>a b sep s. chiffres a \<and> chiffres b \<and> sep \<in> set '',.''
            \<and> s \<in> set [[], ''%'', '' %'']
          \<longrightarrow> parsePourcentage (Some (a @ sep # b @ s))
              = Some (regleFraction (arrondi64 (valeurDecimale a b))))"
proof -
  have nul: "\<forall>v. parsePourcentage (Some v) = None
          \<longleftrightarrow> v = [] \<or> \<not> commenceParUnNombre (valeurStr v)"
    using parsePourcentage_None_iff by blast
  have lu: "\<forall>v n. v \<noteq> [] \<and> parseFloat (valeurStr v) = Some n
          \<longrightarrow> parsePourcentage (Some v) = Some (regleFraction n)"
    by (simp add: parsePourcentage_regleFraction)
  have fr: "\<forall>q. 0 < q \<and> q < 1
          \<longrightarrow> (\<exists>r. regleFraction (Fini q) = Fini r \<and> 0 \<le> r \<and> r \<le> 100
                 \<and> \<bar>r - q * 100\<bar> \<le> 1 / 2 ^ 47)"
    using regleFraction_proche by blast
  have au: "\<forall>n. \<not> (\<exists>q. n = Fini q \<and> 0 < q \<and> q < 1) \<longrightarrow> regleFraction n = n"
    using regleFraction_inchange by blast
  have en: "\<forall>a s. chiffres a \<and> s \<in> set [[], ''%'', '' %'']
          \<longrightarrow> parsePourcentage (Some (a @ s))
              = Some (regleFraction (arrondi64 (rat_of_nat (valeurChiffres a))))"
    using parsePourcentage_entier by simp
  have de: "\<forall>a b sep s. chiffres a \<and> chiffres b \<and> sep \<in> set '',.''
            \<and> s \<in> set [[], ''%'', '' %'']
          \<longrightarrow> parsePourcentage (Some (a @ sep # b @ s))
              = Some (regleFraction (arrondi64 (valeurDecimale a b)))"
    using parsePourcentage_decimal by simp
  show ?thesis
    using parsePourcentage_50 parsePourcentage_50_5 parsePourcentage_0_5 parsePourcentage_105
      parsePourcentage_vide parsePourcentage_null nul lu fr au en de
    by (intro conjI)
qed

theorem parsePourcentage_regle_witness:
  "''abc'' \<noteq> [] \<and> \<not> commenceParUnNombre (valeurStr ''abc'')
   \<and> parsePourcentage (Some ''abc'') = None
   \<and> ''12abc'' \<noteq> [] \<and> parseFloat (valeurStr ''12abc'') = Some (Fini 12)
   \<and> parsePourcentage (Some ''12abc'') = Some (regleFraction (Fini 12))
   \<and> (0 :: rat) < 57 / 100 \<and> (57 / 100 :: rat) < 1
   \<and> (\<exists>r. regleFraction (Fini (57 / 100)) = Fini r \<and> 0 \<le> r \<and> r \<le> 100
         \<and> \<bar>r - 57 / 100 * 100\<bar> \<le> 1 / 2 ^ 47)
   \<and> \<not> (\<exists>q. Fini 105 = Fini q \<and> 0 < q \<and> q < 1) \<and> regleFraction (Fini 105) = Fini 105
   \<and> chiffres ''105'' \<and> '' %'' \<in> set [[], ''%'', '' %'']
   \<and> parsePourcentage (Some (''105'' @ '' %''))
       = Some (regleFraction (arrondi64 (rat_of_nat (valeurChiffres ''105''))))
   \<and> chiffres ''0'' \<and> chiffres ''57'' \<and> CHR '','' \<in> set '',.''
   \<and> parsePourcentage (Some (''0'' @ CHR '','' # ''57'' @ '' %''))
       = Some (regleFraction (arrondi64 (valeurDecimale ''0'' ''57'')))"
proof -
  note t = parsePourcentage_regle
  have nul: "\<forall>v. parsePourcentage (Some v) = None
          \<longleftrightarrow> v = [] \<or> \<not> commenceParUnNombre (valeurStr v)"
    using t by (elim conjE) assumption
  have lu: "\<forall>v n. v \<noteq> [] \<and> parseFloat (valeurStr v) = Some n
          \<longrightarrow> parsePourcentage (Some v) = Some (regleFraction n)"
    using t by (elim conjE) assumption
  have fr: "\<forall>q. 0 < q \<and> q < 1
          \<longrightarrow> (\<exists>r. regleFraction (Fini q) = Fini r \<and> 0 \<le> r \<and> r \<le> 100
                 \<and> \<bar>r - q * 100\<bar> \<le> 1 / 2 ^ 47)"
    using t by (elim conjE) assumption
  have au: "\<forall>n. \<not> (\<exists>q. n = Fini q \<and> 0 < q \<and> q < 1) \<longrightarrow> regleFraction n = n"
    using t by (elim conjE) assumption
  have en: "\<forall>a s. chiffres a \<and> s \<in> set [[], ''%'', '' %'']
          \<longrightarrow> parsePourcentage (Some (a @ s))
              = Some (regleFraction (arrondi64 (rat_of_nat (valeurChiffres a))))"
    using t by (elim conjE) assumption
  have de: "\<forall>a b sep s. chiffres a \<and> chiffres b \<and> sep \<in> set '',.''
            \<and> s \<in> set [[], ''%'', '' %'']
          \<longrightarrow> parsePourcentage (Some (a @ sep # b @ s))
              = Some (regleFraction (arrondi64 (valeurDecimale a b)))"
    using t by (elim conjE) assumption
  have abc: "\<not> commenceParUnNombre (valeurStr ''abc'')" by code_simp
  have h1: "parsePourcentage (Some ''abc'') = None"
    using nul [rule_format, of "''abc''"] abc by simp
  have p12: "parseFloat (valeurStr ''12abc'') = Some (Fini 12)" by code_simp
  have h2: "parsePourcentage (Some ''12abc'') = Some (regleFraction (Fini 12))"
    using lu [rule_format, of "''12abc''" "Fini 12"] p12 by simp
  have h3: "\<exists>r. regleFraction (Fini (57 / 100)) = Fini r \<and> 0 \<le> r \<and> r \<le> 100
         \<and> \<bar>r - 57 / 100 * 100\<bar> \<le> 1 / 2 ^ 47"
    using fr [rule_format, of "57 / 100"] by simp
  have h4: "regleFraction (Fini 105) = Fini 105"
    using au [rule_format, of "Fini 105"] by simp
  have c: "chiffres ''105''" "chiffres ''0''" "chiffres ''57''"
    by (simp_all add: chiffres_def estChiffre_def)
  have h5: "parsePourcentage (Some (''105'' @ '' %''))
       = Some (regleFraction (arrondi64 (rat_of_nat (valeurChiffres ''105''))))"
    using en [rule_format, of "''105''" "'' %''"] c by simp
  have h6: "parsePourcentage (Some (''0'' @ CHR '','' # ''57'' @ '' %''))
       = Some (regleFraction (arrondi64 (valeurDecimale ''0'' ''57'')))"
    using de [rule_format, of "''0''" "''57''" "CHR '',''" "'' %''"] c by simp
  show ?thesis
    using abc h1 p12 h2 h3 h4 c h5 h6 by (intro conjI) simp_all
qed

section \<open>The end-to-end scenario, verified\<close>

lemma scenario_groupes: "trouverLigneGroupes (grilleScenario l) = Some 6"
  unfolding trouverLigneGroupes_def grilleScenario_def by code_simp

lemma scenario_pourcentages: "trouverLignePourcentages (grilleScenario l) 6 = Some 7"
  unfolding trouverLignePourcentages_def grilleScenario_def by code_simp

lemma scenario_competences:
  "extraireCompetences (grilleScenario l ! 2) (grilleScenario l ! 6) (grilleScenario l ! 7)
     = ([\<lparr>nom = ''Lecture de mots (10 points)'', colonne = 5\<rparr>], [])"
  unfolding grilleScenario_def by code_simp

lemma scenario_premiere: "trouverPremiereEcole (grilleScenario l) 7 = 11"
  unfolding trouverPremiereEcole_def grilleScenario_def by code_simp

lemma scenario_pct: "parsePourcentage (Some ''62,5'') = Some (Fini (125 / 2))"
  by code_simp

lemma scenario_nom:
  "normaliserNomCompetence ''Lecture de mots (10 points)'' = ''Lecture_de_mots_10_points''"
  by code_simp

lemma scenario_uai: "\<not> ligneIgnoree (trim ''0070116N'')"
  by code_simp

lemma scenario_trim: "trim ''0070116N'' = ''0070116N''" "trim ''Ecole Test'' = ''Ecole Test''"
  by code_simp+

lemma scenario_ecoles:
  "extraireEcoles (drop 11 (grilleScenario l))
      [\<lparr>nom = ''Lecture de mots (10 points)'', colonne = 5\<rparr>] n m
    = [\<lparr>uai = ''0070116N'', nomEcole = ''Ecole Test'',
        resultats = [(cleCompetence n m ''Lecture de mots (10 points)'', Fini (125 / 2))]\<rparr>]"
  using scenario_uai
  by (simp add: grilleScenario_def extraireEcoles_def extraireEcole_def resultatsLigne_def
      valeurCellule_def cellule_def scenario_pct scenario_trim Let_def)

text \<open>
  Claim C1. On the twelve-row grid of the scenario, whatever the level, the subject and
  the first row, provided the first row is a valid identity row for that level and
  subject: \<open>chargerFichierCSV\<close> returns exactly one school, with identifier \<open>0070116N\<close>,
  whose results hold exactly one entry, under the key made of the level, the subject and
  \<open>Lecture_de_mots_10_points\<close>, with value 62.5.
\<close>

theorem scenario_bout_en_bout:
  assumes "validerIdentification (Some ligne1) niveau matiere"
  shows "chargerFichierCSV (Some (grilleScenario ligne1)) niveau matiere
           = [\<lparr>uai = ''0070116N'', nomEcole = ''Ecole Test'',
               resultats = [(niveau @ ''_'' @ matiere @ ''_Lecture_de_mots_10_points'',
                             Fini (125 / 2))]\<rparr>]"
proof -
  have l0: "ligneA (grilleScenario ligne1) 0 = Some ligne1"
    by (simp add: ligneA_def grilleScenario_def)
  have cle: "cleCompetence niveau matiere ''Lecture de mots (10 points)''
               = niveau @ ''_'' @ matiere @ ''_Lecture_de_mots_10_points''"
    by (simp add: cleCompetence_def scenario_nom)
  show ?thesis
    using assms
    by (simp add: chargerFichierCSV_def l0 scenario_groupes scenario_pourcentages
        scenario_competences scenario_premiere scenario_ecoles cle)
qed

theorem scenario_bout_en_bout_witness:
  "validerIdentification (Some [''Evaluation cpfr'']) ''CP'' ''francais''
   \<and> chargerFichierCSV (Some (grilleScenario [''Evaluation cpfr''])) ''CP'' ''francais''
       = [\<lparr>uai = ''0070116N'', nomEcole = ''Ecole Test'',
           resultats = [(''CP_francais_Lecture_de_mots_10_points'', Fini (125 / 2))]\<rparr>]"
proof -
  have v: "validerIdentification (Some [''Evaluation cpfr'']) ''CP'' ''francais''"
    by code_simp
  show ?thesis
    using v scenario_bout_en_bout [OF v] by simp
qed

section \<open>Loops that return the first index\<close>

lemma find_upt_Some:
  "List.find P [a..<b] = Some i \<longleftrightarrow>
     a \<le> i \<and> i < b \<and> P i \<and> (\<forall>j. a \<le> j \<and> j < i \<longrightarrow> \<not> P j)"
proof (induction "b - a" arbitrary: a)
  case 0
  then show ?case by auto
next
  case (Suc n)
  then have ab: "a < b" by simp
  have IH: "List.find P [Suc a..<b] = Some i \<longleftrightarrow>
        Suc a \<le> i \<and> i < b \<and> P i \<and> (\<forall>j. Suc a \<le> j \<and> j < i \<longrightarrow> \<not> P j)"
    using Suc by simp
  show ?case
  proof (cases "P a")
    case True
    then show ?thesis using ab by (auto simp: upt_conv_Cons)
  next
    case False
    have "(a \<le> i \<and> i < b \<and> P i \<and> (\<forall>j. a \<le> j \<and> j < i \<longrightarrow> \<not> P j))
        \<longleftrightarrow> (Suc a \<le> i \<and> i < b \<and> P i \<and> (\<forall>j. Suc a \<le> j \<and> j < i \<longrightarrow> \<not> P j))"
      using False by (metis Suc_leD Suc_leI le_neq_implies_less)
    then show ?thesis using False ab IH by (simp add: upt_conv_Cons)
  qed
qed

lemma find_upt_None:
  "List.find P [a..<b] = None \<longleftrightarrow> (\<forall>j. a \<le> j \<and> j < b \<longrightarrow> \<not> P j)"
  by (auto simp: find_None_iff)

section \<open>The data row locator\<close>

lemma estLigneEcole_reconnue: "estLigneEcole ligne = ligneReconnue ligne"
  by (auto simp: estLigneEcole_def ligneReconnue_def Let_def)

text \<open>
  Claim C8, as stated, fails: it asks of column 1 only that it is not empty, while
  \<open>trouverPremiereEcole\<close> trims it first. In a grid whose only row after the percentage
  row has the identifier \<open>0070116N\<close> and a name made of one no-break space (U+00A0), that
  row has a trimmed identifier of eight characters without any of the three words and a
  column 1 that is not empty, yet the index returned is the default 10, not 1.
\<close>

theorem nom_blanc_ignore:
  "trouverPremiereEcole [[], [''0070116N'', [CHR 0xA0]]] 0 = 10
   \<and> 7 \<le> length (trim (cellule [''0070116N'', [CHR 0xA0]] 0))
   \<and> \<not> js_includes (toLowerCase (trim (cellule [''0070116N'', [CHR 0xA0]] 0))) ''uai''
   \<and> \<not> js_includes (toLowerCase (trim (cellule [''0070116N'', [CHR 0xA0]] 0))) ''total''
   \<and> \<not> js_includes (toLowerCase (trim (cellule [''0070116N'', [CHR 0xA0]] 0)))
         ''circonscription''
   \<and> cellule [''0070116N'', [CHR 0xA0]] 1 \<noteq> []"
proof -
  have a: "trouverPremiereEcole [[], [''0070116N'', [CHR 0xA0]]] 0 = 10"
    unfolding trouverPremiereEcole_def by code_simp
  have b: "trim (cellule [''0070116N'', [CHR 0xA0]] 0) = ''0070116N''"
    by code_simp
  have c: "\<not> js_includes (toLowerCase ''0070116N'') ''uai''
      \<and> \<not> js_includes (toLowerCase ''0070116N'') ''total''
      \<and> \<not> js_includes (toLowerCase ''0070116N'') ''circonscription''"
    by code_simp
  show ?thesis using a b c by (simp add: cellule_def)
qed

text \<open>
  Claim C8, amended. \<open>trouverPremiereEcole\<close> returns the smallest row index strictly
  after the percentage row whose column 0, trimmed, has at least seven characters and
  contains none of \<open>uai\<close>, \<open>total\<close>, \<open>circonscription\<close> in any letter case, and whose
  column 1, trimmed, is not empty; when the grid has no such row it returns 10. So
  whenever such a row exists, the index returned is a row of the grid after the
  percentage row whose identifier has at least seven characters: a shorter identifier is
  only possible in the default case.
\<close>

theorem trouverPremiereEcole_premiere:
  "(\<forall>i. lp < i \<and> i < length lignes \<and> ligneReconnue (lignes ! i)
         \<and> (\<forall>j. lp < j \<and> j < i \<longrightarrow> \<not> ligneReconnue (lignes ! j))
       \<longrightarrow> trouverPremiereEcole lignes lp = i)
   \<and> ((\<forall>i. lp < i \<and> i < length lignes \<longrightarrow> \<not> ligneReconnue (lignes ! i))
       \<longrightarrow> trouverPremiereEcole lignes lp = 10)
   \<and> ((\<exists>i. lp < i \<and> i < length lignes \<and> ligneReconnue (lignes ! i))
       \<longrightarrow> lp < trouverPremiereEcole lignes lp
           \<and> trouverPremiereEcole lignes lp < length lignes
           \<and> ligneReconnue (lignes ! trouverPremiereEcole lignes lp)
           \<and> 7 \<le> length (trim (cellule (lignes ! trouverPremiereEcole lignes lp) 0)))"
proof (intro conjI allI impI)
  fix i
  assume h: "lp < i \<and> i < length lignes \<and> ligneReconnue (lignes ! i)
         \<and> (\<forall>j. lp < j \<and> j < i \<longrightarrow> \<not> ligneReconnue (lignes ! j))"
  then have "List.find (\<lambda>i. estLigneEcole (lignes ! i)) [lp + 1 ..< length lignes] = Some i"
    by (simp add: find_upt_Some estLigneEcole_reconnue Suc_le_eq)
  then show "trouverPremiereEcole lignes lp = i"
    by (simp add: trouverPremiereEcole_def)
next
  assume "\<forall>i. lp < i \<and> i < length lignes \<longrightarrow> \<not> ligneReconnue (lignes ! i)"
  then have "List.find (\<lambda>i. estLigneEcole (lignes ! i)) [lp + 1 ..< length lignes] = None"
    by (simp add: find_upt_None estLigneEcole_reconnue Suc_le_eq)
  then show "trouverPremiereEcole lignes lp = 10"
    by (simp add: trouverPremiereEcole_def)
next
  assume ex: "\<exists>i. lp < i \<and> i < length lignes \<and> ligneReconnue (lignes ! i)"
  then have "List.find (\<lambda>i. estLigneEcole (lignes ! i)) [lp + 1 ..< length lignes] \<noteq> None"
    by (auto simp: find_upt_None estLigneEcole_reconnue Suc_le_eq)
  then obtain r where
    r: "List.find (\<lambda>i. estLigneEcole (lignes ! i)) [lp + 1 ..< length lignes] = Some r"
    by auto
  then have res: "trouverPremiereEcole lignes lp = r"
    by (simp add: trouverPremiereEcole_def)
  from r have p: "lp < r \<and> r < length lignes \<and> ligneReconnue (lignes ! r)"
    by (simp add: find_upt_Some estLigneEcole_reconnue Suc_le_eq)
  show "lp < trouverPremiereEcole lignes lp" using res p by simp
  show "trouverPremiereEcole lignes lp < length lignes" using res p by simp
  show "ligneReconnue (lignes ! trouverPremiereEcole lignes lp)" using res p by simp
  then show "7 \<le> length (trim (cellule (lignes ! trouverPremiereEcole lignes lp) 0))"
    by (simp add: ligneReconnue_def)
qed

theorem trouverPremiereEcole_premiere_witness:
  "ligneReconnue (grilleScenario [] ! 11)
   \<and> \<not> ligneReconnue (grilleScenario [] ! 8)
   \<and> \<not> ligneReconnue (grilleScenario [] ! 9)
   \<and> \<not> ligneReconnue (grilleScenario [] ! 10)
   \<and> trouverPremiereEcole (grilleScenario []) 7 = 11
   \<and> 7 \<le> length (trim (cellule (grilleScenario [] ! 11) 0))
   \<and> trouverPremiereEcole [] 0 = 10"
proof -
  have len: "length (grilleScenario []) = 12"
    by (simp add: grilleScenario_def)
  have r11: "ligneReconnue (grilleScenario [] ! 11)"
    unfolding grilleScenario_def by code_simp
  have r8: "\<not> ligneReconnue (grilleScenario [] ! 8)"
    unfolding grilleScenario_def by code_simp
  have r9: "\<not> ligneReconnue (grilleScenario [] ! 9)"
    unfolding grilleScenario_def by code_simp
  have r10: "\<not> ligneReconnue (grilleScenario [] ! 10)"
    unfolding grilleScenario_def by code_simp
  have avant: "\<forall>j. 7 < j \<and> j < 11 \<longrightarrow> \<not> ligneReconnue (grilleScenario [] ! j)"
  proof (intro allI impI)
    fix j :: nat
    assume "7 < j \<and> j < 11"
    then have "j = 8 \<or> j = 9 \<or> j = 10" by arith
    then show "\<not> ligneReconnue (grilleScenario [] ! j)" using r8 r9 r10 by auto
  qed
  note t = trouverPremiereEcole_premiere [of 7 "grilleScenario []"]
  have res: "trouverPremiereEcole (grilleScenario []) 7 = 11"
    using t len r11 avant by simp
  have ex: "\<exists>i. 7 < i \<and> i < length (grilleScenario []) \<and> ligneReconnue (grilleScenario [] ! i)"
    using len r11 by (intro exI [of _ 11]) simp
  have long: "7 \<le> length (trim (cellule (grilleScenario [] ! 11) 0))"
    using t ex res by simp
  have defaut: "trouverPremiereEcole [] 0 = 10"
    using trouverPremiereEcole_premiere [of 0 "[]"] by simp
  show ?thesis
    using r11 r8 r9 r10 res long defaut by simp
qed

section \<open>Where a stored percentage comes from\<close>

lemma set_update_inclus: "set (AList.update k v al) \<subseteq> insert (k, v) (set al)"
  by (induction al) auto

lemma parsePourcentage_valeurNum:
  assumes "parsePourcentage (Some val) = Some v"
  shows "\<exists>v0. valeurNum val = Some v0 \<and> (dansBornes v \<longleftrightarrow> dansBornes v0)"
proof -
  have ne: "val \<noteq> []" using assms by (auto simp: parsePourcentage_def)
  from assms ne obtain v0 where v0: "valeurNum val = Some v0"
    by (auto simp: parsePourcentage_def valeurNum_def Let_def split: option.splits)
  show ?thesis
  proof (cases "\<exists>q. v0 = Fini q \<and> 0 < q \<and> q < 1")
    case True
    then obtain q where q: "v0 = Fini q" "0 < q" "q < 1" by blast
    have v: "v = arrondi64 (q * 100)"
      using assms ne v0 q by (simp add: parsePourcentage_def valeurNum_def Let_def)
    from q have "0 < q * 100" "q * 100 < 100" by simp_all
    from arrondi64_borne [OF this] obtain r where
      "arrondi64 (q * 100) = Fini r" "0 \<le> r" "r \<le> 100" by blast
    then show ?thesis using v v0 q by (simp add: dansBornes_def)
  next
    case False
    then have "v = v0"
      using assms ne v0
      by (auto simp: parsePourcentage_def valeurNum_def Let_def
          split: number.splits if_splits)
    then show ?thesis using v0 by simp
  qed
qed

lemma resultatsLigne_fold:
  "(k, v) \<in> set (fold (\<lambda>comp res.
             case parsePourcentage (valeurCellule ligne (colonne comp)) of
               None \<Rightarrow> res
             | Some p \<Rightarrow> AList.update (cleCompetence niveau matiere (nom comp)) p res)
          competences acc)
   \<Longrightarrow> (k, v) \<in> set acc
       \<or> (\<exists>c \<in> set competences. k = cleCompetence niveau matiere (nom c)
            \<and> parsePourcentage (valeurCellule ligne (colonne c)) = Some v)"
proof (induction competences arbitrary: acc)
  case Nil
  then show ?case by simp
next
  case (Cons c cs)
  show ?case
  proof (cases "parsePourcentage (valeurCellule ligne (colonne c))")
    case None
    then show ?thesis using Cons.IH [of acc] Cons.prems by auto
  next
    case (Some p)
    then have "(k, v) \<in> set (AList.update (cleCompetence niveau matiere (nom c)) p acc)
       \<or> (\<exists>c \<in> set cs. k = cleCompetence niveau matiere (nom c)
            \<and> parsePourcentage (valeurCellule ligne (colonne c)) = Some v)"
      using Cons.IH [of "AList.update (cleCompetence niveau matiere (nom c)) p acc"] Cons.prems
      by simp
    moreover have "set (AList.update (cleCompetence niveau matiere (nom c)) p acc)
        \<subseteq> insert (cleCompetence niveau matiere (nom c), p) (set acc)"
      by (rule set_update_inclus)
    ultimately show ?thesis using Some by auto
  qed
qed

lemma resultatsLigne_origine:
  "(k, v) \<in> set (resultatsLigne ligne competences niveau matiere)
   \<Longrightarrow> \<exists>c \<in> set competences. k = cleCompetence niveau matiere (nom c)
            \<and> parsePourcentage (valeurCellule ligne (colonne c)) = Some v"
  unfolding resultatsLigne_def using resultatsLigne_fold [where acc = "[]"]
  by simp

lemma extraireEcoles_fold:
  "e \<in> set (fold (extraireEcole competences niveau matiere) ls acc)
   \<Longrightarrow> e \<in> set acc
       \<or> (\<exists>ligne \<in> set ls. \<not> ligneIgnoree (trim (cellule ligne 0))
            \<and> resultatsLigne ligne competences niveau matiere \<noteq> []
            \<and> e = \<lparr>uai = trim (cellule ligne 0), nomEcole = trim (cellule ligne 1),
                    resultats = resultatsLigne ligne competences niveau matiere\<rparr>)"
proof (induction ls arbitrary: acc)
  case Nil
  then show ?case by simp
next
  case (Cons l ls)
  from Cons.IH [of "extraireEcole competences niveau matiere l acc"] Cons.prems
  have "e \<in> set (extraireEcole competences niveau matiere l acc)
       \<or> (\<exists>ligne \<in> set ls. \<not> ligneIgnoree (trim (cellule ligne 0))
            \<and> resultatsLigne ligne competences niveau matiere \<noteq> []
            \<and> e = \<lparr>uai = trim (cellule ligne 0), nomEcole = trim (cellule ligne 1),
                    resultats = resultatsLigne ligne competences niveau matiere\<rparr>)"
    by simp
  then show ?case
    by (auto simp: extraireEcole_def Let_def split: if_splits)
qed

lemma extraireEcoles_origine:
  "e \<in> set (extraireEcoles ls competences niveau matiere)
   \<Longrightarrow> \<exists>ligne \<in> set ls. \<not> ligneIgnoree (trim (cellule ligne 0))
            \<and> resultatsLigne ligne competences niveau matiere \<noteq> []
            \<and> e = \<lparr>uai = trim (cellule ligne 0), nomEcole = trim (cellule ligne 1),
                    resultats = resultatsLigne ligne competences niveau matiere\<rparr>"
  unfolding extraireEcoles_def using extraireEcoles_fold [where acc = "[]"]
  by simp

lemma chargerFichierCSV_origine:
  assumes "e \<in> set (chargerFichierCSV (Some lignes) niveau matiere)"
  shows "\<exists>competences. \<exists>ligne \<in> set lignes. \<not> ligneIgnoree (trim (cellule ligne 0))
            \<and> resultatsLigne ligne competences niveau matiere \<noteq> []
            \<and> e = \<lparr>uai = trim (cellule ligne 0), nomEcole = trim (cellule ligne 1),
                    resultats = resultatsLigne ligne competences niveau matiere\<rparr>"
proof -
  from assms obtain competences k where
    "e \<in> set (extraireEcoles (drop k lignes) competences niveau matiere)"
    by (auto simp: chargerFichierCSV_def Let_def split: if_splits option.splits)
  from extraireEcoles_origine [OF this] show ?thesis
    by (meson in_set_dropD)
qed

lemma scenario_cp:
  "chargerFichierCSV (Some (grilleScenario [''Evaluation cpfr''])) ''CP'' ''francais''
     = [\<lparr>uai = ''0070116N'', nomEcole = ''Ecole Test'',
         resultats = [(''CP_francais_Lecture_de_mots_10_points'', Fini (125 / 2))]\<rparr>]"
  unfolding grilleScenario_def by code_simp

text \<open>
  Claim C9, as stated, fails: on the scenario grid with \<open>105\<close> in the school's percentage
  cell, the stored value is 105, outside the interval from 0 to 100.
\<close>

theorem pourcentage_hors_bornes:
  "chargerFichierCSV (Some grilleHorsBornes) ''CP'' ''francais''
     = [\<lparr>uai = ''0070116N'', nomEcole = ''Ecole Test'',
         resultats = [(''CP_francais_Lecture_de_mots_10_points'', Fini 105)]\<rparr>]
   \<and> \<not> dansBornes (Fini 105)"
proof -
  have "chargerFichierCSV (Some grilleHorsBornes) ''CP'' ''francais''
     = [\<lparr>uai = ''0070116N'', nomEcole = ''Ecole Test'',
         resultats = [(''CP_francais_Lecture_de_mots_10_points'', Fini 105)]\<rparr>]"
    unfolding grilleHorsBornes_def grilleScenario_def by code_simp
  then show ?thesis by (simp add: dansBornes_def)
qed

text \<open>
  Claim C9, amended. For every input grid, every value stored in the results of a school
  that \<open>chargerFichierCSV\<close> returns is what \<open>parsePourcentage\<close> returns for a cell of that
  school's row, and it lies in the closed interval from 0 to 100 exactly when the number
  read from that cell does: no bound is enforced on the value.
\<close>

theorem valeur_stockee:
  assumes "e \<in> set (chargerFichierCSV (Some lignes) niveau matiere)"
    and "(k, v) \<in> set (resultats e)"
  shows "\<exists>ligne \<in> set lignes. \<exists>col val v0.
           uai e = trim (cellule ligne 0)
           \<and> valeurCellule ligne col = Some val
           \<and> parsePourcentage (Some val) = Some v
           \<and> valeurNum val = Some v0
           \<and> (dansBornes v \<longleftrightarrow> dansBornes v0)"
proof -
  from chargerFichierCSV_origine [OF assms(1)] obtain competences ligne where
    l: "ligne \<in> set lignes"
    and e: "e = \<lparr>uai = trim (cellule ligne 0), nomEcole = trim (cellule ligne 1),
                    resultats = resultatsLigne ligne competences niveau matiere\<rparr>"
    by blast
  from e assms(2) have "(k, v) \<in> set (resultatsLigne ligne competences niveau matiere)"
    by simp
  from resultatsLigne_origine [OF this] obtain c :: competence where
    c: "parsePourcentage (valeurCellule ligne (colonne c)) = Some v"
    by blast
  then obtain val where val: "valeurCellule ligne (colonne c) = Some val"
    by (cases "valeurCellule ligne (colonne c)") (auto simp: parsePourcentage_def)
  with c have pv: "parsePourcentage (Some val) = Some v" by simp
  from parsePourcentage_valeurNum [OF pv] obtain v0 where
    "valeurNum val = Some v0 \<and> (dansBornes v \<longleftrightarrow> dansBornes v0)" by blast
  with l e val pv show ?thesis by force
qed

theorem valeur_stockee_witness:
  "\<lparr>uai = ''0070116N'', nomEcole = ''Ecole Test'',
     resultats = [(''CP_francais_Lecture_de_mots_10_points'', Fini (125 / 2))]\<rparr>
     \<in> set (chargerFichierCSV (Some (grilleScenario [''Evaluation cpfr''])) ''CP'' ''francais'')
   \<and> (''CP_francais_Lecture_de_mots_10_points'', Fini (125 / 2))
       \<in> set (resultats \<lparr>uai = ''0070116N'', nomEcole = ''Ecole Test'',
            resultats = [(''CP_francais_Lecture_de_mots_10_points'', Fini (125 / 2))]\<rparr>)
   \<and> (\<exists>ligne \<in> set (grilleScenario [''Evaluation cpfr'']). \<exists>col val v0.
           ''0070116N'' = trim (cellule ligne 0)
           \<and> valeurCellule ligne col = Some val
           \<and> parsePourcentage (Some val) = Some (Fini (125 / 2))
           \<and> valeurNum val = Some v0
           \<and> (dansBornes (Fini (125 / 2)) \<longleftrightarrow> dansBornes v0))"
proof -
  let ?e = "\<lparr>uai = ''0070116N'', nomEcole = ''Ecole Test'',
     resultats = [(''CP_francais_Lecture_de_mots_10_points'', Fini (125 / 2))]\<rparr>"
  have h1: "?e \<in> set (chargerFichierCSV (Some (grilleScenario [''Evaluation cpfr'']))
              ''CP'' ''francais'')"
    by (simp add: scenario_cp)
  have h2: "(''CP_francais_Lecture_de_mots_10_points'', Fini (125 / 2)) \<in> set (resultats ?e)"
    by simp
  show ?thesis
    using h1 h2 valeur_stockee [OF h1 h2] by simp
qed

section \<open>The resolved column and the span\<close>

lemma finaliserCompetence_cas:
  "finaliserCompetence (cs, ws) n d f lg lp = (cs, ws @ [PasDeGroupeSatisfaisant n d f])
   \<or> (\<exists>col. d \<le> col \<and> col \<le> f + 1
         \<and> fst (finaliserCompetence (cs, ws) n d f lg lp) = cs @ [\<lparr>nom = n, colonne = col\<rparr>])"
proof (cases "List.find
             (\<lambda>col. js_includes (trim (toLowerCase (cellule lg col))) ''satisfaisant'')
             [d ..< Suc f]")
  case None
  then show ?thesis by (simp add: finaliserCompetence_def)
next
  case (Some g)
  then have g: "d \<le> g \<and> g \<le> f" by (simp add: find_upt_Some del: upt_Suc)
  show ?thesis
  proof (cases "List.find
                  (\<lambda>col. marquePourcentage (trim (toLowerCase (cellule lp col))))
                  [g ..< Suc (min (g + 3) f)]")
    case None
    then show ?thesis using Some g by (simp add: finaliserCompetence_def)
  next
    case (Some p)
    then have "g \<le> p \<and> p < Suc (min (g + 3) f)" by (simp add: find_upt_Some del: upt_Suc)
    then have "g \<le> p \<and> p \<le> f" by arith
    then show ?thesis using Some \<open>List.find _ [d ..< Suc f] = Some g\<close> g
      by (simp add: finaliserCompetence_def)
  qed
qed

lemma finaliserCompetence_plage:
  assumes "c \<in> set (fst (finaliserCompetence (cs, ws) n d f lg lp))" "c \<notin> set cs"
  shows "d \<le> colonne c \<and> colonne c \<le> f + 1"
  using finaliserCompetence_cas [of cs ws n d f lg lp] assms by auto

lemma offsetCellule_Some:
  "offsetCellule d col valeur = Some off \<Longrightarrow> off = int col + 1 - int d \<or> off = int col - int d"
  by (auto simp: offsetCellule_def split: if_splits)

lemma chercherLignes_Some:
  "chercherLignes sheet d col rows = Some off
   \<Longrightarrow> off = int col + 1 - int d \<or> off = int col - int d"
  by (induction rows) (auto split: option.splits dest: offsetCellule_Some)

lemma chercherColonnes_Some:
  "chercherColonnes sheet d cols = Some off
   \<Longrightarrow> \<exists>col \<in> set cols. off = int col + 1 - int d \<or> off = int col - int d"
proof (induction cols)
  case Nil
  then show ?case by simp
next
  case (Cons col cols)
  show ?case
  proof (cases "chercherLignes sheet d col [3, 4, 5]")
    case None
    then show ?thesis using Cons by simp
  next
    case (Some o')
    then have "o' = off" using Cons.prems by simp
    then show ?thesis using chercherLignes_Some [OF Some] by simp
  qed
qed

lemma chercherOffset_bornes:
  assumes "chercherOffset sheet c = Some off"
  shows "0 \<le> off \<and> off \<le> int (colFin c) - int (colDebut c) + 1"
proof -
  from chercherColonnes_Some [OF assms [unfolded chercherOffset_def]]
  obtain col where "col \<in> set [colDebut c ..< Suc (colFin c)]"
    "off = int col + 1 - int (colDebut c) \<or> off = int col - int (colDebut c)" by blast
  then show ?thesis by (auto simp del: upt_Suc)
qed

lemma competencesFusions_fold:
  "c \<in> set (fold (\<lambda>f competences.
             let texte = trim (contenu sheet 2 (s_c f))
             in if estCompetence texte
                then competences @
                       [\<lparr>nomF = texte, colDebut = s_c f, colFin = e_c f,
                          largeur = int (e_c f) - int (s_c f) + 1\<rparr>]
                else competences) fs acc)
   \<Longrightarrow> c \<in> set acc \<or> (\<exists>f \<in> set fs. estCompetence (trim (contenu sheet 2 (s_c f))) \<and>
          c = \<lparr>nomF = trim (contenu sheet 2 (s_c f)), colDebut = s_c f, colFin = e_c f,
                          largeur = int (e_c f) - int (s_c f) + 1\<rparr>)"
proof (induction fs arbitrary: acc)
  case Nil
  then show ?case by simp
next
  case (Cons f fs)
  from Cons.IH [OF Cons.prems [simplified]] show ?case
    by (auto simp: Let_def split: if_splits)
qed

lemma competencesFusions_origine:
  assumes "c \<in> set (competencesFusions sheet)"
  shows "\<exists>f \<in> set (fusions sheet). s_r f = 2 \<and> s_c f \<noteq> e_c f
          \<and> estCompetence (trim (contenu sheet 2 (s_c f)))
          \<and> c = \<lparr>nomF = trim (contenu sheet 2 (s_c f)), colDebut = s_c f, colFin = e_c f,
                          largeur = int (e_c f) - int (s_c f) + 1\<rparr>"
  using competencesFusions_fold [where acc = "[]", OF assms [unfolded competencesFusions_def]]
  by (auto simp: fusionsLigne3_def)

lemma competencesAvecOffsets_fold:
  "c' \<in> set (fst (fold (\<lambda>comp etat.
             case chercherOffset sheet comp of
               Some off \<Rightarrow> (fst etat @ [avecOffset comp off], snd etat)
             | None \<Rightarrow>
                 (fst etat @ [avecOffset comp (largeur comp - 1)],
                  snd etat @ [GroupeSatisfaisantNonTrouve (largeur comp - 1)])) cs acc))
   \<Longrightarrow> c' \<in> set (fst acc)
       \<or> (\<exists>c \<in> set cs. (\<exists>off. chercherOffset sheet c = Some off \<and> c' = avecOffset c off)
             \<or> (chercherOffset sheet c = None \<and> c' = avecOffset c (largeur c - 1)))"
proof (induction cs arbitrary: acc)
  case Nil
  then show ?case by simp
next
  case (Cons c cs)
  from Cons.IH [OF Cons.prems [simplified]] show ?case
    by (auto split: option.splits)
qed

lemma competencesAvecOffsets_origine:
  assumes "c' \<in> set (fst (competencesAvecOffsets sheet))"
  shows "\<exists>c \<in> set (competencesFusions sheet).
            (\<exists>off. chercherOffset sheet c = Some off \<and> c' = avecOffset c off)
             \<or> (chercherOffset sheet c = None \<and> c' = avecOffset c (largeur c - 1))"
  using competencesAvecOffsets_fold
    [where acc = "([], [])", OF assms [unfolded competencesAvecOffsets_def]]
  by simp

lemma fusion_plage:
  assumes wf: "\<forall>m \<in> set (fusions sheet). s_c m \<le> e_c m"
    and c': "c' \<in> set (fst (competencesAvecOffsets sheet))"
  shows "int (colDebut c') \<le> colonnePourcentage c'
       \<and> colonnePourcentage c' \<le> int (colFin c') + 1"
proof -
  from competencesAvecOffsets_origine [OF c'] obtain c where
    c: "c \<in> set (competencesFusions sheet)"
    and cas: "(\<exists>off. chercherOffset sheet c = Some off \<and> c' = avecOffset c off)
             \<or> (chercherOffset sheet c = None \<and> c' = avecOffset c (largeur c - 1))"
    by blast
  from competencesFusions_origine [OF c] wf have
    l: "largeur c = int (colFin c) - int (colDebut c) + 1" and o: "colDebut c \<le> colFin c"
    by auto
  from cas show ?thesis
  proof
    assume "\<exists>off. chercherOffset sheet c = Some off \<and> c' = avecOffset c off"
    then obtain off where "chercherOffset sheet c = Some off" "c' = avecOffset c off" by blast
    with chercherOffset_bornes [of sheet c off] show ?thesis
      by (simp add: avecOffset_def)
  next
    assume "chercherOffset sheet c = None \<and> c' = avecOffset c (largeur c - 1)"
    then show ?thesis using l o by (simp add: avecOffset_def)
  qed
qed

text \<open>
  Claim C2 at inputs the two services can receive. Flat-file mode: in the span from
  column 2 to column 5, with the group label in column 5 and no percentage marker, the
  search of \<open>finaliserCompetence\<close> stops at the span's last column but its default, the
  column after the label, is 6. Merge-aware mode: with a merge from column 2 to column 5
  and a cell of column 5 that names the satisfactory group as a count (\<open>nombre\<close>), the
  column kept is 6 as well. In both, the resolved column is outside the span: its offset
  from the span's first column is 4, above the span's width less one, 3.
\<close>

theorem colonne_apres_la_plage:
  "finaliserCompetence ([], []) ''Lecture de mots (10 points)'' 2 5
       ['''', '''', '''', '''', '''', ''Groupe satisfaisant'']
       ['''', '''', '''', '''', '''', '''']
     = ([\<lparr>nom = ''Lecture de mots (10 points)'', colonne = 6\<rparr>],
        [ColonnePourcentageNonIdentifiee ''Lecture de mots (10 points)'' 6])
   \<and> fst (competencesAvecOffsets (feuilleTest ''Nombre satisfaisant''))
     = [\<lparr>nomF = ''Lecture de mots (10 points)'', colDebut = 2, colFin = 5, largeur = 4,
         offsetPourcentage = 4, colonnePourcentage = 6\<rparr>]
   \<and> \<not> ((6::int) - 2 \<le> 5 - 2)"
proof -
  have a: "finaliserCompetence ([], []) ''Lecture de mots (10 points)'' 2 5
       ['''', '''', '''', '''', '''', ''Groupe satisfaisant'']
       ['''', '''', '''', '''', '''', '''']
     = ([\<lparr>nom = ''Lecture de mots (10 points)'', colonne = 6\<rparr>],
        [ColonnePourcentageNonIdentifiee ''Lecture de mots (10 points)'' 6])"
    by code_simp
  have b: "fst (competencesAvecOffsets (feuilleTest ''Nombre satisfaisant''))
     = [\<lparr>nomF = ''Lecture de mots (10 points)'', colDebut = 2, colFin = 5, largeur = 4,
         offsetPourcentage = 4, colonnePourcentage = 6\<rparr>]"
    unfolding feuilleTest_def by code_simp
  show ?thesis using a b by simp
qed

text \<open>
  How far outside the span the resolved column can be: never before the span's first
  column, and at most one column after its last. In flat-file mode \<open>finaliserCompetence\<close>,
  for the span from \<open>d\<close> to \<open>f\<close>, either adds nothing or adds one competency with such a
  column; in merge-aware mode this holds of every entry of \<open>competencesAvecOffsets\<close>, for
  a sheet whose merge ranges run from a first column to a last one that is not before it.
\<close>

theorem colonne_dans_plage_elargie:
  "(fst (finaliserCompetence (cs, ws) n d f lg lp) = cs
      \<or> (\<exists>col. d \<le> col \<and> col \<le> f + 1
            \<and> fst (finaliserCompetence (cs, ws) n d f lg lp)
                = cs @ [\<lparr>nom = n, colonne = col\<rparr>]))
   \<and> ((\<forall>m \<in> set (fusions sheet). s_c m \<le> e_c m)
       \<longrightarrow> (\<forall>c' \<in> set (fst (competencesAvecOffsets sheet)).
              int (colDebut c') \<le> colonnePourcentage c'
              \<and> colonnePourcentage c' \<le> int (colFin c') + 1))"
proof (rule conjI)
  show "fst (finaliserCompetence (cs, ws) n d f lg lp) = cs
      \<or> (\<exists>col. d \<le> col \<and> col \<le> f + 1
            \<and> fst (finaliserCompetence (cs, ws) n d f lg lp)
                = cs @ [\<lparr>nom = n, colonne = col\<rparr>])"
    using finaliserCompetence_cas [of cs ws n d f lg lp] by auto
  show "(\<forall>m \<in> set (fusions sheet). s_c m \<le> e_c m)
       \<longrightarrow> (\<forall>c' \<in> set (fst (competencesAvecOffsets sheet)).
              int (colDebut c') \<le> colonnePourcentage c'
              \<and> colonnePourcentage c' \<le> int (colFin c') + 1)"
    using fusion_plage by blast
qed

theorem colonne_dans_plage_elargie_witness:
  "fst (finaliserCompetence ([], []) ''Lecture de mots (10 points)'' 2 5
          ['''', '''', '''', '''', ''Groupe satisfaisant'', '''']
          ['''', '''', '''', '''', '''', ''%''])
     = [\<lparr>nom = ''Lecture de mots (10 points)'', colonne = 5\<rparr>]
   \<and> 2 \<le> colonne \<lparr>nom = ''Lecture de mots (10 points)'', colonne = 5\<rparr>
   \<and> colonne \<lparr>nom = ''Lecture de mots (10 points)'', colonne = 5\<rparr> \<le> 5 + 1
   \<and> s_c \<lparr>s_r = 2, s_c = 2, e_r = 2, e_c = 5\<rparr> \<le> e_c \<lparr>s_r = 2, s_c = 2, e_r = 2, e_c = 5\<rparr>
   \<and> map colonnePourcentage (fst (competencesAvecOffsets (feuilleTest ''% satisfaisant''))) = [5]
   \<and> list_all (\<lambda>c'. int (colDebut c') \<le> colonnePourcentage c'
                    \<and> colonnePourcentage c' \<le> int (colFin c') + 1)
        (fst (competencesAvecOffsets (feuilleTest ''% satisfaisant'')))"
proof -
  let ?lg = "['''', '''', '''', '''', ''Groupe satisfaisant'', '''']"
  let ?lp = "['''', '''', '''', '''', '''', ''%'']"
  let ?c = "\<lparr>nom = ''Lecture de mots (10 points)'', colonne = 5\<rparr>"
  note t = colonne_dans_plage_elargie
    [of "[]" "[]" "''Lecture de mots (10 points)''" 2 5 ?lg ?lp "feuilleTest ''% satisfaisant''"]
  have a: "fst (finaliserCompetence ([], []) ''Lecture de mots (10 points)'' 2 5 ?lg ?lp) = [?c]"
    by code_simp
  have wf: "\<forall>m \<in> set (fusions (feuilleTest ''% satisfaisant'')). s_c m \<le> e_c m"
    by (simp add: feuilleTest_def)
  have b: "map colonnePourcentage (fst (competencesAvecOffsets (feuilleTest ''% satisfaisant'')))
             = [5]"
    unfolding feuilleTest_def by code_simp
  have c1: "2 \<le> colonne ?c \<and> colonne ?c \<le> 5 + 1"
    using t a by simp
  have c2: "list_all (\<lambda>c'. int (colDebut c') \<le> colonnePourcentage c'
                    \<and> colonnePourcentage c' \<le> int (colFin c') + 1)
        (fst (competencesAvecOffsets (feuilleTest ''% satisfaisant'')))"
    using t wf by (simp add: list_all_iff)
  show ?thesis using a b c1 c2 by simp
qed

section \<open>The default column when the search fails\<close>

lemma competencesAvecOffsets_fold_eq:
  "fold (\<lambda>comp etat.
             case chercherOffset sheet comp of
               Some off \<Rightarrow> (fst etat @ [avecOffset comp off], snd etat)
             | None \<Rightarrow>
                 (fst etat @ [avecOffset comp (largeur comp - 1)],
                  snd etat @ [GroupeSatisfaisantNonTrouve (largeur comp - 1)])) cs acc
   = (fst acc @ map (\<lambda>c. avecOffset c (case chercherOffset sheet c of
                                          Some off \<Rightarrow> off | None \<Rightarrow> largeur c - 1)) cs,
      snd acc @ map (\<lambda>c. GroupeSatisfaisantNonTrouve (largeur c - 1))
                  (filter (\<lambda>c. chercherOffset sheet c = None) cs))"
  by (induction cs arbitrary: acc) (auto split: option.splits)

lemma competencesAvecOffsets_eq:
  "competencesAvecOffsets sheet
   = (map (\<lambda>c. avecOffset c (case chercherOffset sheet c of
                                Some off \<Rightarrow> off | None \<Rightarrow> largeur c - 1))
        (competencesFusions sheet),
      map (\<lambda>c. GroupeSatisfaisantNonTrouve (largeur c - 1))
        (filter (\<lambda>c. chercherOffset sheet c = None) (competencesFusions sheet)))"
  by (simp add: competencesAvecOffsets_def competencesAvecOffsets_fold_eq)

lemma heuristique_fusion:
  assumes c: "c \<in> set (competencesFusions sheet)" and n: "chercherOffset sheet c = None"
  shows "avecOffset c (largeur c - 1) \<in> set (fst (competencesAvecOffsets sheet))
       \<and> colonnePourcentage (avecOffset c (largeur c - 1)) = int (colFin c)
       \<and> GroupeSatisfaisantNonTrouve (largeur c - 1) \<in> set (snd (competencesAvecOffsets sheet))"
proof -
  from competencesFusions_origine [OF c] have
    l: "largeur c = int (colFin c) - int (colDebut c) + 1" by auto
  have a: "avecOffset c (largeur c - 1) \<in> set (fst (competencesAvecOffsets sheet))"
    using c n by (force simp: competencesAvecOffsets_eq)
  have b: "GroupeSatisfaisantNonTrouve (largeur c - 1) \<in> set (snd (competencesAvecOffsets sheet))"
    using c n by (force simp: competencesAvecOffsets_eq)
  show ?thesis using a b l by (simp add: avecOffset_def)
qed

lemma defaut_csv:
  assumes "d \<le> g" "g \<le> f"
    "js_includes (trim (toLowerCase (cellule lg g))) ''satisfaisant''"
    "\<forall>j. d \<le> j \<and> j < g \<longrightarrow> \<not> js_includes (trim (toLowerCase (cellule lg j))) ''satisfaisant''"
    "\<forall>j. g \<le> j \<and> j \<le> min (g + 3) f
         \<longrightarrow> \<not> marquePourcentage (trim (toLowerCase (cellule lp j)))"
  shows "finaliserCompetence (cs, ws) n d f lg lp
       = (cs @ [\<lparr>nom = n, colonne = g + 1\<rparr>], ws @ [ColonnePourcentageNonIdentifiee n (g + 1)])"
proof -
  have 1: "List.find
             (\<lambda>col. js_includes (trim (toLowerCase (cellule lg col))) ''satisfaisant'')
             [d ..< Suc f] = Some g"
    using assms(1-4) by (simp add: find_upt_Some del: upt_Suc)
  have 2: "List.find
                  (\<lambda>col. marquePourcentage (trim (toLowerCase (cellule lp col))))
                  [g ..< Suc (min (g + 3) f)] = None"
    using assms(5) by (simp add: find_upt_None less_Suc_eq_le del: upt_Suc)
  show ?thesis by (simp add: finaliserCompetence_def 1 2 del: upt_Suc)
qed

lemma abandon_csv:
  assumes "\<forall>j. d \<le> j \<and> j \<le> f
             \<longrightarrow> \<not> js_includes (trim (toLowerCase (cellule lg j))) ''satisfaisant''"
  shows "finaliserCompetence (cs, ws) n d f lg lp
       = (cs, ws @ [PasDeGroupeSatisfaisant n d f])"
proof -
  have 1: "List.find
             (\<lambda>col. js_includes (trim (toLowerCase (cellule lg col))) ''satisfaisant'')
             [d ..< Suc f] = None"
    using assms by (simp add: find_upt_None less_Suc_eq_le del: upt_Suc)
  show ?thesis by (simp add: finaliserCompetence_def 1 del: upt_Suc)
qed

text \<open>
  Claim C3, as stated, fails in flat-file mode. In the span from column 2 to column 5,
  with the group label in column 3 and no percentage marker, the column substituted is
  4, not the span's last column 5; and with no group label in the span at all, no
  competency is produced.
\<close>

theorem defaut_colonne_suivante:
  "finaliserCompetence ([], []) ''Lecture de mots (10 points)'' 2 5
       ['''', '''', '''', ''Groupe satisfaisant'', '''', '''']
       ['''', '''', '''', '''', '''', '''']
     = ([\<lparr>nom = ''Lecture de mots (10 points)'', colonne = 4\<rparr>],
        [ColonnePourcentageNonIdentifiee ''Lecture de mots (10 points)'' 4])
   \<and> (4::nat) \<noteq> 5
   \<and> finaliserCompetence ([], []) ''Lecture de mots (10 points)'' 2 5
       ['''', '''', '''', '''', '''', '''']
       ['''', '''', '''', '''', '''', '''']
     = ([], [PasDeGroupeSatisfaisant ''Lecture de mots (10 points)'' 2 5])"
proof -
  have a: "finaliserCompetence ([], []) ''Lecture de mots (10 points)'' 2 5
       ['''', '''', '''', ''Groupe satisfaisant'', '''', '''']
       ['''', '''', '''', '''', '''', '''']
     = ([\<lparr>nom = ''Lecture de mots (10 points)'', colonne = 4\<rparr>],
        [ColonnePourcentageNonIdentifiee ''Lecture de mots (10 points)'' 4])"
    by code_simp
  have b: "finaliserCompetence ([], []) ''Lecture de mots (10 points)'' 2 5
       ['''', '''', '''', '''', '''', '''']
       ['''', '''', '''', '''', '''', '''']
     = ([], [PasDeGroupeSatisfaisant ''Lecture de mots (10 points)'' 2 5])"
    by code_simp
  show ?thesis using a b by simp
qed

text \<open>
  Claim C3, amended. Merge-aware mode: whenever the search over the span's cells (rows
  index 3 to 5) assigns no offset, the competency is still produced, with the span's last
  column as resolved column, and a warning is written. Flat-file mode: when the group
  label is first found at a column \<open>g\<close> of the span before its last column and no
  percentage marker is found from \<open>g\<close> to \<open>min (g + 3) columnEnd\<close>, the competency is still
  produced, with column \<open>g + 1\<close>, and a warning is written; when the group label is not
  found in the span, no competency is produced and a warning is written. (The label in
  the span's last column is the case of claim C2.)
\<close>

theorem defaut_selon_le_mode:
  "(c \<in> set (competencesFusions sheet) \<and> chercherOffset sheet c = None
      \<longrightarrow> avecOffset c (largeur c - 1) \<in> set (fst (competencesAvecOffsets sheet))
          \<and> colonnePourcentage (avecOffset c (largeur c - 1)) = int (colFin c)
          \<and> GroupeSatisfaisantNonTrouve (largeur c - 1)
              \<in> set (snd (competencesAvecOffsets sheet)))
   \<and> (d \<le> g \<and> g < f
        \<and> js_includes (trim (toLowerCase (cellule lg g))) ''satisfaisant''
        \<and> (\<forall>j. d \<le> j \<and> j < g
               \<longrightarrow> \<not> js_includes (trim (toLowerCase (cellule lg j))) ''satisfaisant'')
        \<and> (\<forall>j. g \<le> j \<and> j \<le> min (g + 3) f
               \<longrightarrow> \<not> marquePourcentage (trim (toLowerCase (cellule lp j))))
      \<longrightarrow> finaliserCompetence (cs, ws) n d f lg lp
          = (cs @ [\<lparr>nom = n, colonne = g + 1\<rparr>],
             ws @ [ColonnePourcentageNonIdentifiee n (g + 1)])
        \<and> g + 1 \<le> f)
   \<and> ((\<forall>j. d \<le> j \<and> j \<le> f
             \<longrightarrow> \<not> js_includes (trim (toLowerCase (cellule lg j))) ''satisfaisant'')
      \<longrightarrow> finaliserCompetence (cs, ws) n d f lg lp
          = (cs, ws @ [PasDeGroupeSatisfaisant n d f]))"
proof (intro conjI impI)
  assume "c \<in> set (competencesFusions sheet) \<and> chercherOffset sheet c = None"
  then show "avecOffset c (largeur c - 1) \<in> set (fst (competencesAvecOffsets sheet))"
    and "colonnePourcentage (avecOffset c (largeur c - 1)) = int (colFin c)"
    and "GroupeSatisfaisantNonTrouve (largeur c - 1)
              \<in> set (snd (competencesAvecOffsets sheet))"
    using heuristique_fusion [of c sheet] by simp_all
next
  assume h: "d \<le> g \<and> g < f
        \<and> js_includes (trim (toLowerCase (cellule lg g))) ''satisfaisant''
        \<and> (\<forall>j. d \<le> j \<and> j < g
               \<longrightarrow> \<not> js_includes (trim (toLowerCase (cellule lg j))) ''satisfaisant'')
        \<and> (\<forall>j. g \<le> j \<and> j \<le> min (g + 3) f
               \<longrightarrow> \<not> marquePourcentage (trim (toLowerCase (cellule lp j))))"
  then have "g \<le> f" by simp
  with h show "finaliserCompetence (cs, ws) n d f lg lp
          = (cs @ [\<lparr>nom = n, colonne = g + 1\<rparr>],
             ws @ [ColonnePourcentageNonIdentifiee n (g + 1)])"
    using defaut_csv [of d g f lg lp cs ws n] by blast
  from h show "g + 1 \<le> f" by simp
next
  assume "\<forall>j. d \<le> j \<and> j \<le> f
             \<longrightarrow> \<not> js_includes (trim (toLowerCase (cellule lg j))) ''satisfaisant''"
  then show "finaliserCompetence (cs, ws) n d f lg lp
          = (cs, ws @ [PasDeGroupeSatisfaisant n d f])"
    by (rule abandon_csv)
qed

theorem defaut_selon_le_mode_witness:
  "\<lparr>nomF = ''Lecture de mots (10 points)'', colDebut = 2, colFin = 5, largeur = 4\<rparr>
      \<in> set (competencesFusions (feuilleTest []))
   \<and> chercherOffset (feuilleTest [])
        \<lparr>nomF = ''Lecture de mots (10 points)'', colDebut = 2, colFin = 5, largeur = 4\<rparr> = None
   \<and> \<lparr>nomF = ''Lecture de mots (10 points)'', colDebut = 2, colFin = 5, largeur = 4,
       offsetPourcentage = 3, colonnePourcentage = 5\<rparr>
      \<in> set (fst (competencesAvecOffsets (feuilleTest [])))
   \<and> GroupeSatisfaisantNonTrouve 3 \<in> set (snd (competencesAvecOffsets (feuilleTest [])))
   \<and> js_includes (trim (toLowerCase
        (cellule ['''', '''', '''', ''Groupe satisfaisant''] 3))) ''satisfaisant''
   \<and> \<not> js_includes (trim (toLowerCase
        (cellule ['''', '''', '''', ''Groupe satisfaisant''] 2))) ''satisfaisant''
   \<and> finaliserCompetence ([], []) ''Lecture de mots (10 points)'' 2 5
        ['''', '''', '''', ''Groupe satisfaisant''] []
      = ([\<lparr>nom = ''Lecture de mots (10 points)'', colonne = 4\<rparr>],
         [ColonnePourcentageNonIdentifiee ''Lecture de mots (10 points)'' 4])
   \<and> finaliserCompetence ([], []) ''Lecture de mots (10 points)'' 2 5 [] []
      = ([], [PasDeGroupeSatisfaisant ''Lecture de mots (10 points)'' 2 5])"
proof -
  let ?c = "\<lparr>nomF = ''Lecture de mots (10 points)'', colDebut = 2, colFin = 5, largeur = 4\<rparr>"
  let ?lg = "['''', '''', '''', ''Groupe satisfaisant'']"
  let ?n = "''Lecture de mots (10 points)''"
  have c: "?c \<in> set (competencesFusions (feuilleTest []))"
    unfolding feuilleTest_def by code_simp
  have o: "chercherOffset (feuilleTest []) ?c = None"
    unfolding feuilleTest_def by code_simp
  have av: "avecOffset ?c (largeur ?c - 1)
      = \<lparr>nomF = ''Lecture de mots (10 points)'', colDebut = 2, colFin = 5, largeur = 4,
         offsetPourcentage = 3, colonnePourcentage = 5\<rparr>"
    by (simp add: avecOffset_def)
  have g3: "js_includes (trim (toLowerCase (cellule ?lg 3))) ''satisfaisant''"
    by code_simp
  have g2: "\<not> js_includes (trim (toLowerCase (cellule ?lg 2))) ''satisfaisant''"
    by code_simp
  have vide: "\<And>j. trim (toLowerCase (cellule [] j)) = []"
    by (simp add: cellule_def toLowerCase_def trim_def)
  have avant: "\<forall>j. (2::nat) \<le> j \<and> j < 3
      \<longrightarrow> \<not> js_includes (trim (toLowerCase (cellule ?lg j))) ''satisfaisant''"
  proof (intro allI impI)
    fix j :: nat
    assume "2 \<le> j \<and> j < 3"
    then have "j = 2" by arith
    then show "\<not> js_includes (trim (toLowerCase (cellule ?lg j))) ''satisfaisant''"
      using g2 by simp
  qed
  have sansMarque: "\<forall>j. (3::nat) \<le> j \<and> j \<le> min (3 + 3) 5
      \<longrightarrow> \<not> marquePourcentage (trim (toLowerCase (cellule [] j)))"
    by (simp add: vide marquePourcentage_def)
  have sansGroupe: "\<forall>j. (2::nat) \<le> j \<and> j \<le> 5
      \<longrightarrow> \<not> js_includes (trim (toLowerCase (cellule [] j))) ''satisfaisant''"
    by (simp add: vide)
  note t1 = defaut_selon_le_mode [of ?c "feuilleTest []" 2 3 5 ?lg "[]" "[]" "[]" ?n]
  note t2 = defaut_selon_le_mode [of ?c "feuilleTest []" 2 3 5 "[]" "[]" "[]" "[]" ?n]
  have r1: "avecOffset ?c (largeur ?c - 1) \<in> set (fst (competencesAvecOffsets (feuilleTest [])))
      \<and> GroupeSatisfaisantNonTrouve (largeur ?c - 1)
           \<in> set (snd (competencesAvecOffsets (feuilleTest [])))"
    using t1 c o by blast
  have r2: "finaliserCompetence ([], []) ?n 2 5 ?lg []
      = ([\<lparr>nom = ?n, colonne = 4\<rparr>], [ColonnePourcentageNonIdentifiee ?n 4])"
    using t1 g3 avant sansMarque by simp
  have r3: "finaliserCompetence ([], []) ?n 2 5 [] []
      = ([], [PasDeGroupeSatisfaisant ?n 2 5])"
    using t2 sansGroupe by simp
  show ?thesis
    using c o r1 r2 r3 g3 g2 av by simp
qed

section \<open>Substrings and trimming\<close>

lemma js_includes_iff: "js_includes s sub \<longleftrightarrow> (\<exists>pre suf. s = pre @ sub @ suf)"
proof (induction s)
  case Nil
  then show ?case by auto
next
  case (Cons c cs)
  show ?case
  proof
    assume "js_includes (c # cs) sub"
    then consider "take (length sub) (c # cs) = sub" | "js_includes cs sub" by auto
    then show "\<exists>pre suf. c # cs = pre @ sub @ suf"
    proof cases
      case 1
      then have "c # cs = [] @ sub @ drop (length sub) (c # cs)"
        by (metis append_Nil append_take_drop_id)
      then show ?thesis by blast
    next
      case 2
      then obtain pre suf where "cs = pre @ sub @ suf" using Cons.IH by blast
      then have "c # cs = (c # pre) @ sub @ suf" by simp
      then show ?thesis by blast
    qed
  next
    assume "\<exists>pre suf. c # cs = pre @ sub @ suf"
    then obtain pre suf where e: "c # cs = pre @ sub @ suf" by blast
    show "js_includes (c # cs) sub"
    proof (cases pre)
      case Nil
      then have "take (length sub) (c # cs) = sub" using e by (metis append_Nil append_eq_conv_conj)
      then show ?thesis by simp
    next
      case (Cons p ps)
      then have "cs = ps @ sub @ suf" using e by simp
      then show ?thesis using Cons.IH by auto
    qed
  qed
qed

lemma dropWhile_garde:
  assumes "sub \<noteq> []" "\<not> P (hd sub)"
  shows "\<exists>pre'. dropWhile P (pre @ sub @ suf) = pre' @ sub @ suf"
proof (cases "\<forall>x \<in> set pre. P x")
  case True
  then have "dropWhile P (pre @ sub @ suf) = dropWhile P (sub @ suf)"
    by (simp add: dropWhile_append)
  also have "\<dots> = sub @ suf" using assms by (cases sub) auto
  finally show ?thesis by (metis append_Nil)
next
  case False
  then have "dropWhile P (pre @ sub @ suf) = dropWhile P pre @ sub @ suf"
    by (auto simp: dropWhile_append)
  then show ?thesis by blast
qed

lemma js_includes_trim:
  assumes "sub \<noteq> []" "\<not> estBlanc (hd sub)" "\<not> estBlanc (last sub)"
  shows "js_includes (trim s) sub = js_includes s sub"
proof
  assume "js_includes (trim s) sub"
  then obtain pre suf where t: "trim s = pre @ sub @ suf" by (auto simp: js_includes_iff)
  have 1: "s = takeWhile estBlanc s @ dropWhile estBlanc s" by simp
  have 2: "rev (dropWhile estBlanc s)
         = takeWhile estBlanc (rev (dropWhile estBlanc s)) @ rev (trim s)"
    by (simp add: trim_def)
  then have "dropWhile estBlanc s
         = trim s @ rev (takeWhile estBlanc (rev (dropWhile estBlanc s)))"
    by (metis rev_append rev_rev_ident)
  with 1 t have "s = (takeWhile estBlanc s @ pre) @ sub
      @ (suf @ rev (takeWhile estBlanc (rev (dropWhile estBlanc s))))"
    by (metis append.assoc)
  then show "js_includes s sub" unfolding js_includes_iff by blast
next
  assume "js_includes s sub"
  then obtain pre suf where s: "s = pre @ sub @ suf" by (auto simp: js_includes_iff)
  obtain pre' where a: "dropWhile estBlanc s = pre' @ sub @ suf"
    using dropWhile_garde [where P = estBlanc, OF assms(1,2)] s by blast
  have "rev sub \<noteq> []" "\<not> estBlanc (hd (rev sub))"
    using assms by (simp_all add: hd_rev)
  from dropWhile_garde [where P = estBlanc, OF this, of "rev suf" "rev pre'"]
  obtain suf' where "dropWhile estBlanc (rev suf @ rev sub @ rev pre') = suf' @ rev sub @ rev pre'"
    by blast
  then have "trim s = pre' @ sub @ rev suf'"
    by (simp add: trim_def a)
  then show "js_includes (trim s) sub" unfolding js_includes_iff by blast
qed

section \<open>Rejected source units\<close>

lemma celluleContient_trim:
  assumes "mot \<noteq> []" "\<not> estBlanc (hd mot)" "\<not> estBlanc (last mot)"
  shows "(c \<noteq> [] \<and> js_includes (trim (toLowerCase c)) mot) = celluleContient c mot"
proof -
  have "celluleContient c mot \<Longrightarrow> c \<noteq> []"
    using assms(1) by (auto simp: celluleContient_def toLowerCase_def)
  then show ?thesis
    using js_includes_trim [OF assms] by (auto simp: celluleContient_def)
qed

lemma pattern_forme:
  "patternAttendu niveau matiere \<noteq> []
   \<and> \<not> estBlanc (hd (patternAttendu niveau matiere))
   \<and> \<not> estBlanc (last (patternAttendu niveau matiere))"
  by (simp add: patternAttendu_def estBlanc_def)

lemma validerIdentification_iff:
  "validerIdentification (ligneA lignes 0) niveau matiere
   \<longleftrightarrow> lignes \<noteq> [] \<and> ligneContient (lignes ! 0) (patternAttendu niveau matiere)"
proof (cases lignes)
  case Nil
  then show ?thesis by (simp add: validerIdentification_def ligneA_def)
next
  case (Cons l ls)
  have "list_ex (\<lambda>c. c \<noteq> [] \<and>
                 js_includes (trim (toLowerCase c)) (patternAttendu niveau matiere)) l
      = ligneContient l (patternAttendu niveau matiere)"
    using pattern_forme [of niveau matiere]
    by (simp add: ligneContient_def celluleContient_trim)
  then show ?thesis using Cons
    by (auto simp: validerIdentification_def ligneA_def ligneContient_def)
qed

lemma contientGroupe_iff: "contientGroupe ligne = ligneContient ligne ''satisfaisant''"
proof -
  have "''satisfaisant'' \<noteq> [] \<and> \<not> estBlanc (hd ''satisfaisant'')
      \<and> \<not> estBlanc (last ''satisfaisant'')"
    by (simp add: estBlanc_def)
  then show ?thesis
    by (simp add: contientGroupe_def ligneContient_def celluleContient_trim)
qed

lemma marque_iff:
  "(c \<noteq> [] \<and> marquePourcentage (trim (toLowerCase c)))
   = (celluleContient c ''%'' \<or> celluleContient c (''r'' @ [CHR 0xE9] @ ''pondants'')
      \<or> celluleContient c ''repondants'')"
proof -
  have 1: "''%'' \<noteq> [] \<and> \<not> estBlanc (hd ''%'') \<and> \<not> estBlanc (last ''%'')"
    by (simp add: estBlanc_def)
  have 2: "''r'' @ [CHR 0xE9] @ ''pondants'' \<noteq> []
      \<and> \<not> estBlanc (hd (''r'' @ [CHR 0xE9] @ ''pondants''))
      \<and> \<not> estBlanc (last (''r'' @ [CHR 0xE9] @ ''pondants''))"
    by (simp add: estBlanc_def)
  have 3: "''repondants'' \<noteq> [] \<and> \<not> estBlanc (hd ''repondants'')
      \<and> \<not> estBlanc (last ''repondants'')"
    by (simp add: estBlanc_def)
  show ?thesis
    using celluleContient_trim [of "''%''" c]
      celluleContient_trim [of "''r'' @ [CHR 0xE9] @ ''pondants''" c]
      celluleContient_trim [of "''repondants''" c] 1 2 3
    unfolding marquePourcentage_def by blast
qed

lemma contientPourcentage_iff: "contientPourcentage ligne = ligneMarquee ligne"
  by (auto simp: contientPourcentage_def ligneMarquee_def ligneContient_def marque_iff
      list_ex_iff)

lemma trouverLigneGroupes_None_iff:
  "trouverLigneGroupes lignes = None
   \<longleftrightarrow> (\<forall>i. 2 \<le> i \<and> i \<le> 9 \<and> i < length lignes
            \<longrightarrow> \<not> ligneContient (lignes ! i) ''satisfaisant'')"
  by (auto simp: trouverLigneGroupes_def find_upt_None contientGroupe_iff)

lemma trouverLignePourcentages_None_iff:
  "trouverLignePourcentages lignes lg = None
   \<longleftrightarrow> (\<forall>i. lg < i \<and> i \<le> lg + 3 \<and> i < length lignes \<longrightarrow> \<not> ligneMarquee (lignes ! i))"
  by (auto simp: trouverLignePourcentages_def find_upt_None contientPourcentage_iff)

lemma chargerConfig_vide:
  "chargerFichierCSV (dossier prefix) niveau matiere = []
   \<Longrightarrow> chargerConfig dossier (niveau, matiere, prefix) ecolesMap = ecolesMap"
  by (simp add: chargerConfig_def)

lemma chargerConfigs_vide:
  assumes "chargerFichierCSV (dossier prefix) niveau matiere = []"
  shows "chargerConfigs dossier (avant @ (niveau, matiere, prefix) # apres)
       = chargerConfigs dossier (avant @ apres)"
  using assms by (simp add: chargerConfigs_def chargerConfig_vide)

text \<open>
  Claim C6. A source unit whose file holds the grid \<open>lignes\<close> contributes no record, and
  leaves the registry as it was, whenever: no cell of its first row (or no first row)
  contains, in any letter case, \<open>"evaluation "\<close> followed by the level in lower case and
  the two-letter subject code; or no row of index 2 to 9 contains \<open>satisfaisant\<close> in any
  letter case; or none of the three rows after the group row contains \<open>%\<close> or a
  respondents keyword; or no competency span is resolved. The units before and after it
  are processed all the same: the schools loaded are those loaded without that unit.
\<close>

theorem unite_rejetee:
  assumes f: "dossier prefix = Some lignes"
    and rejet:
      "lignes = [] \<or> \<not> ligneContient (lignes ! 0) (patternAttendu niveau matiere)
       \<or> (\<forall>i. 2 \<le> i \<and> i \<le> 9 \<and> i < length lignes
              \<longrightarrow> \<not> ligneContient (lignes ! i) ''satisfaisant'')
       \<or> (\<exists>lg. trouverLigneGroupes lignes = Some lg
              \<and> (\<forall>i. lg < i \<and> i \<le> lg + 3 \<and> i < length lignes
                     \<longrightarrow> \<not> ligneMarquee (lignes ! i)))
       \<or> (\<exists>lg lp. trouverLigneGroupes lignes = Some lg
              \<and> trouverLignePourcentages lignes lg = Some lp
              \<and> fst (extraireCompetences (lignes ! 2) (lignes ! lg) (lignes ! lp)) = [])"
  shows "chargerFichierCSV (dossier prefix) niveau matiere = []
       \<and> chargerConfig dossier (niveau, matiere, prefix) ecolesMap = ecolesMap
       \<and> chargerConfigs dossier (avant @ (niveau, matiere, prefix) # apres)
           = chargerConfigs dossier (avant @ apres)"
proof -
  from rejet have "chargerFichierCSV (Some lignes) niveau matiere = []"
  proof (elim disjE exE conjE)
    assume "lignes = []"
    then show ?thesis
      by (simp add: chargerFichierCSV_def validerIdentification_iff)
  next
    assume "\<not> ligneContient (lignes ! 0) (patternAttendu niveau matiere)"
    then show ?thesis
      by (simp add: chargerFichierCSV_def validerIdentification_iff)
  next
    assume "\<forall>i. 2 \<le> i \<and> i \<le> 9 \<and> i < length lignes
              \<longrightarrow> \<not> ligneContient (lignes ! i) ''satisfaisant''"
    then have "trouverLigneGroupes lignes = None"
      by (simp add: trouverLigneGroupes_None_iff)
    then show ?thesis
      by (simp add: chargerFichierCSV_def)
  next
    fix lg
    assume "trouverLigneGroupes lignes = Some lg"
      "\<forall>i. lg < i \<and> i \<le> lg + 3 \<and> i < length lignes \<longrightarrow> \<not> ligneMarquee (lignes ! i)"
    then have "trouverLigneGroupes lignes = Some lg" "trouverLignePourcentages lignes lg = None"
      by (simp_all add: trouverLignePourcentages_None_iff)
    then show ?thesis
      by (simp add: chargerFichierCSV_def)
  next
    fix lg lp
    assume "trouverLigneGroupes lignes = Some lg"
      "trouverLignePourcentages lignes lg = Some lp"
      "fst (extraireCompetences (lignes ! 2) (lignes ! lg) (lignes ! lp)) = []"
    then show ?thesis
      by (simp add: chargerFichierCSV_def)
  qed
  then have v: "chargerFichierCSV (dossier prefix) niveau matiere = []"
    using f by simp
  then show ?thesis
    using chargerConfig_vide [of dossier prefix niveau matiere ecolesMap]
      chargerConfigs_vide [of dossier prefix niveau matiere avant apres] by simp
qed

lemma list_all_upt: "list_all P [a ..< b] \<Longrightarrow> a \<le> i \<Longrightarrow> i < b \<Longrightarrow> P i"
  by (simp add: list_all_iff)

theorem unite_rejetee_witness:
  "\<not> ligneContient (grilleScenario [''Evaluation cpfr''] ! 0) (patternAttendu ''CP'' ''maths'')
   \<and> chargerConfigs (\<lambda>p. Some (grilleScenario [''Evaluation cpfr'']))
        ([(''CP'', ''francais'', ''cpfr'')] @ (''CP'', ''maths'', ''cpma'') # [])
       = chargerConfigs (\<lambda>p. Some (grilleScenario [''Evaluation cpfr'']))
           ([(''CP'', ''francais'', ''cpfr'')] @ [])
   \<and> list_all (\<lambda>i. \<not> ligneContient
          (grilleTest [''Evaluation cpma''] [] [] [] ! i) ''satisfaisant'') [2 ..< 10]
   \<and> chargerFichierCSV (Some (grilleTest [''Evaluation cpma''] [] [] [])) ''CP'' ''maths'' = []
   \<and> trouverLigneGroupes (grilleTest [''Evaluation cpma''] [] [''Groupe satisfaisant''] [])
       = Some 6
   \<and> list_all (\<lambda>i. \<not> ligneMarquee
          (grilleTest [''Evaluation cpma''] [] [''Groupe satisfaisant''] [] ! i)) [7 ..< 10]
   \<and> chargerFichierCSV
        (Some (grilleTest [''Evaluation cpma''] [] [''Groupe satisfaisant''] []))
        ''CP'' ''maths'' = []
   \<and> trouverLignePourcentages
        (grilleTest [''Evaluation cpma''] [] [''Groupe satisfaisant''] [''%'']) 6 = Some 7
   \<and> fst (extraireCompetences
        (grilleTest [''Evaluation cpma''] [] [''Groupe satisfaisant''] [''%''] ! 2)
        (grilleTest [''Evaluation cpma''] [] [''Groupe satisfaisant''] [''%''] ! 6)
        (grilleTest [''Evaluation cpma''] [] [''Groupe satisfaisant''] [''%''] ! 7)) = []
   \<and> chargerFichierCSV
        (Some (grilleTest [''Evaluation cpma''] [] [''Groupe satisfaisant''] [''%'']))
        ''CP'' ''maths'' = []"
proof -
  let ?gA = "grilleScenario [''Evaluation cpfr'']"
  let ?gB = "grilleTest [''Evaluation cpma''] [] [] []"
  let ?gC = "grilleTest [''Evaluation cpma''] [] [''Groupe satisfaisant''] []"
  let ?gD = "grilleTest [''Evaluation cpma''] [] [''Groupe satisfaisant''] [''%'']"
  have a1: "\<not> ligneContient (?gA ! 0) (patternAttendu ''CP'' ''maths'')"
    unfolding grilleScenario_def by code_simp
  have a2: "chargerConfigs (\<lambda>p. Some ?gA)
        ([(''CP'', ''francais'', ''cpfr'')] @ (''CP'', ''maths'', ''cpma'') # [])
       = chargerConfigs (\<lambda>p. Some ?gA) ([(''CP'', ''francais'', ''cpfr'')] @ [])"
    using unite_rejetee [of "\<lambda>p. Some ?gA" "''cpma''" ?gA "''CP''" "''maths''" "[]"
        "[(''CP'', ''francais'', ''cpfr'')]" "[]"] a1
    by simp
  have b1: "list_all (\<lambda>i. \<not> ligneContient (?gB ! i) ''satisfaisant'') [2 ..< 10]"
    unfolding grilleTest_def by code_simp
  have b1': "\<forall>i. 2 \<le> i \<and> i \<le> 9 \<and> i < length ?gB
      \<longrightarrow> \<not> ligneContient (?gB ! i) ''satisfaisant''"
    using list_all_upt [OF b1] by auto
  have b2: "chargerFichierCSV (Some ?gB) ''CP'' ''maths'' = []"
    using unite_rejetee [of "\<lambda>p. Some ?gB" "''cpma''" ?gB "''CP''" "''maths''" "[]" "[]" "[]"]
      b1'
    by simp
  have c0: "trouverLigneGroupes ?gC = Some 6"
    unfolding grilleTest_def trouverLigneGroupes_def by code_simp
  have c1: "list_all (\<lambda>i. \<not> ligneMarquee (?gC ! i)) [7 ..< 10]"
    unfolding grilleTest_def by code_simp
  have c1': "\<forall>i. 6 < i \<and> i \<le> 6 + 3 \<and> i < length ?gC \<longrightarrow> \<not> ligneMarquee (?gC ! i)"
    using list_all_upt [OF c1] by auto
  have c2: "chargerFichierCSV (Some ?gC) ''CP'' ''maths'' = []"
    using unite_rejetee [of "\<lambda>p. Some ?gC" "''cpma''" ?gC "''CP''" "''maths''" "[]" "[]" "[]"]
      c0 c1'
    by simp
  have d0: "trouverLigneGroupes ?gD = Some 6"
    unfolding grilleTest_def trouverLigneGroupes_def by code_simp
  have d1: "trouverLignePourcentages ?gD 6 = Some 7"
    unfolding grilleTest_def trouverLignePourcentages_def by code_simp
  have d2: "fst (extraireCompetences (?gD ! 2) (?gD ! 6) (?gD ! 7)) = []"
    unfolding grilleTest_def by code_simp
  have d3: "chargerFichierCSV (Some ?gD) ''CP'' ''maths'' = []"
    using unite_rejetee [of "\<lambda>p. Some ?gD" "''cpma''" ?gD "''CP''" "''maths''" "[]" "[]" "[]"]
      d0 d1 d2
    by simp
  show ?thesis
    using a1 a2 b1 b2 c0 c1 c2 d1 d2 d3 by blast
qed

section \<open>Results as association lists\<close>

lemma update_absent: "k \<notin> fst ` set al \<Longrightarrow> AList.update k v al = al @ [(k, v)]"
  by (induction al) auto

lemma map_entry_absent: "k \<notin> fst ` set al \<Longrightarrow> AList.map_entry k f al = al"
  by (induction al) auto

lemma map_entry_fin:
  "k \<notin> fst ` set al \<Longrightarrow> AList.map_entry k f (al @ [(k, v)]) = al @ [(k, f v)]"
  by (induction al) auto

lemma assign_disjoint:
  "distinct (map fst source) \<Longrightarrow> fst ` set source \<inter> fst ` set cible = {}
   \<Longrightarrow> assign cible source = cible @ source"
proof (induction source arbitrary: cible)
  case Nil
  then show ?case by (simp add: assign_def)
next
  case (Cons p ps)
  obtain k v where p: "p = (k, v)" by (cases p)
  have k: "k \<notin> fst ` set cible" using Cons.prems p by auto
  have "assign cible (p # ps) = assign (AList.update k v cible) ps"
    by (simp add: assign_def p)
  also have "\<dots> = assign (cible @ [(k, v)]) ps"
    using k by (simp add: update_absent)
  also have "\<dots> = (cible @ [(k, v)]) @ ps"
    using Cons.prems p by (intro Cons.IH) auto
  finally show ?case by (simp add: p)
qed

lemma assign_cles: "fst ` set (assign cible source) = fst ` set cible \<union> fst ` set source"
proof (induction source arbitrary: cible)
  case Nil
  then show ?case by (simp add: assign_def)
next
  case (Cons p ps)
  obtain k v where p: "p = (k, v)" by (cases p)
  have "assign cible (p # ps) = assign (AList.update k v cible) ps"
    by (simp add: assign_def p)
  then show ?case using Cons.IH [of "AList.update k v cible"]
    by (auto simp: p AList.dom_update)
qed

text \<open>A fold that writes some keys into an association list.\<close>

lemma fold_update_cles:
  "fst ` set (fold (\<lambda>c res. case P c of None \<Rightarrow> res | Some v \<Rightarrow> AList.update (K c) v res) cs acc)
   \<subseteq> fst ` set acc \<union> K ` set cs"
proof (induction cs arbitrary: acc)
  case Nil
  then show ?case by simp
next
  case (Cons c cs)
  show ?case
  proof (cases "P c")
    case None
    then show ?thesis using Cons.IH [of acc] by auto
  next
    case (Some v)
    then show ?thesis using Cons.IH [of "AList.update (K c) v acc"]
      by (auto simp: AList.dom_update)
  qed
qed

lemma fold_update_distinct:
  "distinct (map fst acc)
   \<Longrightarrow> distinct (map fst (fold (\<lambda>c res. case P c of None \<Rightarrow> res | Some v \<Rightarrow> AList.update (K c) v res) cs acc))"
proof (induction cs arbitrary: acc)
  case Nil
  then show ?case by simp
next
  case (Cons c cs)
  show ?case
  proof (cases "P c")
    case None
    then show ?thesis using Cons by simp
  next
    case (Some v)
    then show ?thesis using Cons.IH [of "AList.update (K c) v acc"] Cons.prems
      by (simp add: AList.distinct_update)
  qed
qed

lemma resultatsLigne_cles:
  "fst ` set (resultatsLigne ligne competences niveau matiere)
   \<subseteq> (\<lambda>c. cleCompetence niveau matiere (nom c)) ` set competences"
  unfolding resultatsLigne_def
  using fold_update_cles [where P = "\<lambda>c. parsePourcentage (valeurCellule ligne (colonne c))"
      and K = "\<lambda>c. cleCompetence niveau matiere (nom c)" and cs = competences and acc = "[]"]
  by simp

lemma resultatsLigne_distinct:
  "distinct (map fst (resultatsLigne ligne competences niveau matiere))"
  unfolding resultatsLigne_def
  using fold_update_distinct [where P = "\<lambda>c. parsePourcentage (valeurCellule ligne (colonne c))"
      and K = "\<lambda>c. cleCompetence niveau matiere (nom c)" and cs = competences and acc = "[]"]
  by simp

lemma extraireResultats_cles:
  "fst ` set (extraireResultats row competences niveau matiere)
   \<subseteq> (\<lambda>c. cleCompetence niveau matiere (nomO c)) ` set competences"
  unfolding extraireResultats_def
  using fold_update_cles [where P = "\<lambda>c. parsePourcentage (valeurODS row (colonneDebut c))"
      and K = "\<lambda>c. cleCompetence niveau matiere (nomO c)" and cs = competences and acc = "[]"]
  by simp

lemma extraireResultats_distinct:
  "distinct (map fst (extraireResultats row competences niveau matiere))"
  unfolding extraireResultats_def
  using fold_update_distinct [where P = "\<lambda>c. parsePourcentage (valeurODS row (colonneDebut c))"
      and K = "\<lambda>c. cleCompetence niveau matiere (nomO c)" and cs = competences and acc = "[]"]
  by simp

lemma sans_souligne:
  assumes "CHR ''_'' \<notin> set a" "CHR ''_'' \<notin> set b" "a @ CHR ''_'' # r = b @ CHR ''_'' # s"
  shows "a = b \<and> r = s"
proof -
  have "takeWhile (\<lambda>c. c \<noteq> CHR ''_'') (a @ CHR ''_'' # r) = a"
    using assms(1) by (induction a) auto
  moreover have "takeWhile (\<lambda>c. c \<noteq> CHR ''_'') (b @ CHR ''_'' # s) = b"
    using assms(2) by (induction b) auto
  ultimately have "a = b" using assms(3) by simp
  then show ?thesis using assms(3) by simp
qed

lemma cleCompetence_unite:
  assumes "CHR ''_'' \<notin> set n1" "CHR ''_'' \<notin> set m1" "CHR ''_'' \<notin> set n2" "CHR ''_'' \<notin> set m2"
    "cleCompetence n1 m1 x = cleCompetence n2 m2 y"
  shows "n1 = n2 \<and> m1 = m2"
proof -
  from assms(5) have e: "n1 @ CHR ''_'' # (m1 @ CHR ''_'' # normaliserNomCompetence x)
      = n2 @ CHR ''_'' # (m2 @ CHR ''_'' # normaliserNomCompetence y)"
    by (simp add: cleCompetence_def)
  from sans_souligne [OF assms(1) assms(3) e] have n: "n1 = n2"
    and r: "m1 @ CHR ''_'' # normaliserNomCompetence x = m2 @ CHR ''_'' # normaliserNomCompetence y"
    by simp_all
  from sans_souligne [OF assms(2) assms(4) r] n show ?thesis by simp
qed

lemma configs_sans_souligne:
  "(n, m, p) \<in> set configs \<Longrightarrow> CHR ''_'' \<notin> set n \<and> CHR ''_'' \<notin> set m"
  by (auto simp: configs_def)

section \<open>Merging two units into the registry\<close>

lemma chargerFichierCSV_resultats:
  assumes "e \<in> set (chargerFichierCSV f niveau matiere)"
  shows "\<exists>ligne competences. resultats e = resultatsLigne ligne competences niveau matiere"
proof (cases f)
  case None
  then show ?thesis using assms by (simp add: chargerFichierCSV_def)
next
  case (Some lignes)
  with assms have "e \<in> set (chargerFichierCSV (Some lignes) niveau matiere)" by simp
  from chargerFichierCSV_origine [OF this] obtain competences ligne where
    "e = \<lparr>uai = trim (cellule ligne 0), nomEcole = trim (cellule ligne 1),
           resultats = resultatsLigne ligne competences niveau matiere\<rparr>"
    by blast
  then have "resultats e = resultatsLigne ligne competences niveau matiere" by simp
  then show ?thesis by blast
qed

lemma cles_disjointes:
  assumes u: "CHR ''_'' \<notin> set n1" "CHR ''_'' \<notin> set m1" "CHR ''_'' \<notin> set n2" "CHR ''_'' \<notin> set m2"
    and d: "(n1, m1) \<noteq> (n2, m2)"
  shows "(\<lambda>x. cleCompetence n1 m1 (f x)) ` A \<inter> (\<lambda>y. cleCompetence n2 m2 (g y)) ` B = {}"
  using cleCompetence_unite [OF u] d by blast

lemma fusionnerEcole_nouvelle:
  assumes "map_of reg (uai e) = None"
  shows "fusionnerEcole e reg
       = reg @ [(uai e, \<lparr>uai = uai e, nomEcole = nomEcole e,
                          resultats = assign [] (resultats e)\<rparr>)]"
proof -
  have k: "uai e \<notin> fst ` set reg" using assms by (simp add: map_of_eq_None_iff)
  show ?thesis using assms k
    by (simp add: fusionnerEcole_def update_absent map_entry_fin)
qed

lemma fusionnerEcole_existante:
  assumes "map_of reg (uai e) = Some r"
  shows "fusionnerEcole e reg
       = AList.map_entry (uai e) (\<lambda>x. x\<lparr>resultats := assign (resultats x) (resultats e)\<rparr>) reg"
  using assms by (simp add: fusionnerEcole_def)

lemma fusion_deux_csv:
  assumes u: "CHR ''_'' \<notin> set n1" "CHR ''_'' \<notin> set m1" "CHR ''_'' \<notin> set n2" "CHR ''_'' \<notin> set m2"
    and d: "(n1, m1) \<noteq> (n2, m2)"
    and e1: "e1 \<in> set (chargerFichierCSV f1 n1 m1)"
    and e2: "e2 \<in> set (chargerFichierCSV f2 n2 m2)"
    and id: "uai e1 = uai e2"
    and abs: "map_of reg (uai e1) = None"
  shows "fusionnerEcole e2 (fusionnerEcole e1 reg)
       = reg @ [(uai e1, \<lparr>uai = uai e1, nomEcole = nomEcole e1,
                           resultats = resultats e1 @ resultats e2\<rparr>)]
       \<and> distinct (map fst (resultats e1 @ resultats e2))"
proof -
  from chargerFichierCSV_resultats [OF e1] obtain l1 c1 where
    r1: "resultats e1 = resultatsLigne l1 c1 n1 m1" by blast
  from chargerFichierCSV_resultats [OF e2] obtain l2 c2 where
    r2: "resultats e2 = resultatsLigne l2 c2 n2 m2" by blast
  have d1: "distinct (map fst (resultats e1))" by (simp add: r1 resultatsLigne_distinct)
  have d2: "distinct (map fst (resultats e2))" by (simp add: r2 resultatsLigne_distinct)
  have dis: "fst ` set (resultats e2) \<inter> fst ` set (resultats e1) = {}"
    using resultatsLigne_cles [of l1 c1 n1 m1] resultatsLigne_cles [of l2 c2 n2 m2]
      cles_disjointes [OF u d, of nom "set c1" nom "set c2"]
    unfolding r1 r2 by blast
  have a1: "assign [] (resultats e1) = resultats e1"
    using assign_disjoint [OF d1, of "[]"] by simp
  have a2: "assign (resultats e1) (resultats e2) = resultats e1 @ resultats e2"
    using assign_disjoint [OF d2 dis] .
  have k: "uai e1 \<notin> fst ` set reg" using abs by (simp add: map_of_eq_None_iff)
  have s1: "fusionnerEcole e1 reg
       = reg @ [(uai e1, \<lparr>uai = uai e1, nomEcole = nomEcole e1, resultats = resultats e1\<rparr>)]"
    using fusionnerEcole_nouvelle [OF abs] a1 by simp
  have p: "map_of (fusionnerEcole e1 reg) (uai e2)
      = Some \<lparr>uai = uai e1, nomEcole = nomEcole e1, resultats = resultats e1\<rparr>"
    using abs by (simp add: s1 id [symmetric] map_add_def)
  have s2: "fusionnerEcole e2 (fusionnerEcole e1 reg)
       = reg @ [(uai e1, \<lparr>uai = uai e1, nomEcole = nomEcole e1,
                           resultats = resultats e1 @ resultats e2\<rparr>)]"
    using fusionnerEcole_existante [OF p] k
    by (simp add: s1 id [symmetric] map_entry_fin a2)
  have "distinct (map fst (resultats e1 @ resultats e2))"
    using d1 d2 dis by auto
  with s2 show ?thesis by simp
qed

lemma map_entry_conserve:
  assumes "map_of reg u = Some r" "\<And>x. fst ` set (resultats x) \<subseteq> fst ` set (resultats (f x))"
  shows "\<exists>r'. map_of (AList.map_entry k f reg) u = Some r'
            \<and> fst ` set (resultats r) \<subseteq> fst ` set (resultats r')"
  using assms by (cases "u = k") (auto simp: AList.map_of_map_entry)

lemma fusionnerEcole_conserve:
  assumes "map_of reg u = Some r"
  shows "\<exists>r'. map_of (fusionnerEcole e reg) u = Some r'
            \<and> fst ` set (resultats r) \<subseteq> fst ` set (resultats r')"
proof -
  let ?m = "if map_of reg (uai e) = None
               then AList.update (uai e) \<lparr>uai = uai e, nomEcole = nomEcole e, resultats = []\<rparr> reg
               else reg"
  have "map_of ?m u = Some r"
    using assms by (auto simp: AList.update_conv')
  from map_entry_conserve [OF this, of "\<lambda>x. x\<lparr>resultats := assign (resultats x) (resultats e)\<rparr>" "uai e"]
  show ?thesis by (simp add: fusionnerEcole_def assign_cles Let_def)
qed

lemma traiterLigne_conserve:
  assumes "map_of reg u = Some r"
  shows "\<exists>r'. map_of (traiterLigne competences niveau matiere row reg) u = Some r'
            \<and> fst ` set (resultats r) \<subseteq> fst ` set (resultats r')"
proof (cases "ligneIgnoree (celluleODS row 0)")
  case True
  then show ?thesis using assms by (simp add: traiterLigne_def)
next
  case False
  let ?k = "celluleODS row 0"
  let ?f = "\<lambda>x. x\<lparr>resultats := assign (resultats x)
       (extraireResultats row competences niveau matiere)\<rparr>"
  have mono: "\<And>x. fst ` set (resultats x) \<subseteq> fst ` set (resultats (?f x))"
    by (simp add: assign_cles)
  show ?thesis
  proof (cases "map_of reg ?k")
    case None
    let ?m = "AList.update ?k \<lparr>uai = ?k, nomEcole = celluleODS row 1, resultats = []\<rparr> reg"
    have "map_of ?m u = Some r"
      using assms None by (auto simp: AList.update_conv')
    from map_entry_conserve [OF this mono, of ?k]
    show ?thesis using False None by (simp add: traiterLigne_def Let_def)
  next
    case (Some y)
    from map_entry_conserve [OF assms mono, of ?k]
    show ?thesis using False Some by (simp add: traiterLigne_def Let_def)
  qed
qed

lemma fusion_deux_ods:
  assumes u: "CHR ''_'' \<notin> set n1" "CHR ''_'' \<notin> set m1" "CHR ''_'' \<notin> set n2" "CHR ''_'' \<notin> set m2"
    and d: "(n1, m1) \<noteq> (n2, m2)"
    and id1: "celluleODS row1 0 = k" and id2: "celluleODS row2 0 = k"
    and ok: "\<not> ligneIgnoree k"
    and abs: "map_of reg k = None"
  shows "traiterLigne c2 n2 m2 row2 (traiterLigne c1 n1 m1 row1 reg)
       = reg @ [(k, \<lparr>uai = k, nomEcole = celluleODS row1 1,
                     resultats = extraireResultats row1 c1 n1 m1
                                   @ extraireResultats row2 c2 n2 m2\<rparr>)]
       \<and> distinct (map fst (extraireResultats row1 c1 n1 m1 @ extraireResultats row2 c2 n2 m2))"
proof -
  let ?r1 = "extraireResultats row1 c1 n1 m1"
  let ?r2 = "extraireResultats row2 c2 n2 m2"
  have d1: "distinct (map fst ?r1)" by (rule extraireResultats_distinct)
  have d2: "distinct (map fst ?r2)" by (rule extraireResultats_distinct)
  have dis: "fst ` set ?r2 \<inter> fst ` set ?r1 = {}"
    using extraireResultats_cles [of row1 c1 n1 m1] extraireResultats_cles [of row2 c2 n2 m2]
      cles_disjointes [OF u d, of nomO "set c1" nomO "set c2"]
    by blast
  have a1: "assign [] ?r1 = ?r1"
    using assign_disjoint [OF d1, of "[]"] by simp
  have a2: "assign ?r1 ?r2 = ?r1 @ ?r2"
    using assign_disjoint [OF d2 dis] .
  have kk: "k \<notin> fst ` set reg" using abs by (simp add: map_of_eq_None_iff)
  have s1: "traiterLigne c1 n1 m1 row1 reg
       = reg @ [(k, \<lparr>uai = k, nomEcole = celluleODS row1 1, resultats = ?r1\<rparr>)]"
    using abs kk ok id1 by (simp add: traiterLigne_def update_absent map_entry_fin a1)
  have p: "map_of (reg @ [(k, \<lparr>uai = k, nomEcole = celluleODS row1 1, resultats = ?r1\<rparr>)]) k
      \<noteq> None"
    using abs by (simp add: map_add_def)
  have s2: "traiterLigne c2 n2 m2 row2 (traiterLigne c1 n1 m1 row1 reg)
       = reg @ [(k, \<lparr>uai = k, nomEcole = celluleODS row1 1, resultats = ?r1 @ ?r2\<rparr>)]"
    unfolding s1 using p kk ok id2 by (simp add: traiterLigne_def map_entry_fin a2)
  have "distinct (map fst (?r1 @ ?r2))"
    using d1 d2 dis by auto
  with s2 show ?thesis by simp
qed

text \<open>
  Claim C7. Two partial records with the same school identifier, coming from two distinct
  (level, subject) units whose level and subject names hold no underscore (as all the
  units of \<open>configs\<close> do), merged into a registry that did not hold that identifier:
  the registry gains exactly one school for it, whose results are the entries of the
  first record followed by those of the second, all under distinct keys. This holds for
  the merge of \<open>OraceCSVService.loadEcoles\<close> and for the row loop of
  \<open>OraceService.loadEcoles\<close>. And in both, merging a record or a row into any registry
  keeps every school and every key of its results.
\<close>

theorem fusion_union:
  "(\<forall>c \<in> set configs. CHR ''_'' \<notin> set (fst c) \<and> CHR ''_'' \<notin> set (fst (snd c)))
   \<and> (CHR ''_'' \<notin> set n1 \<and> CHR ''_'' \<notin> set m1 \<and> CHR ''_'' \<notin> set n2 \<and> CHR ''_'' \<notin> set m2
        \<and> (n1, m1) \<noteq> (n2, m2)
      \<longrightarrow> (e1 \<in> set (chargerFichierCSV f1 n1 m1) \<and> e2 \<in> set (chargerFichierCSV f2 n2 m2)
            \<and> uai e1 = uai e2 \<and> map_of reg (uai e1) = None
          \<longrightarrow> fusionnerEcole e2 (fusionnerEcole e1 reg)
                = reg @ [(uai e1, \<lparr>uai = uai e1, nomEcole = nomEcole e1,
                                    resultats = resultats e1 @ resultats e2\<rparr>)]
              \<and> distinct (map fst (resultats e1 @ resultats e2)))
        \<and> (celluleODS row1 0 = k \<and> celluleODS row2 0 = k \<and> \<not> ligneIgnoree k
            \<and> map_of reg k = None
          \<longrightarrow> traiterLigne c2 n2 m2 row2 (traiterLigne c1 n1 m1 row1 reg)
                = reg @ [(k, \<lparr>uai = k, nomEcole = celluleODS row1 1,
                              resultats = extraireResultats row1 c1 n1 m1
                                            @ extraireResultats row2 c2 n2 m2\<rparr>)]
              \<and> distinct (map fst (extraireResultats row1 c1 n1 m1
                                     @ extraireResultats row2 c2 n2 m2))))
   \<and> (map_of reg u = Some r
      \<longrightarrow> (\<exists>r'. map_of (fusionnerEcole e reg) u = Some r'
                \<and> fst ` set (resultats r) \<subseteq> fst ` set (resultats r'))
        \<and> (\<exists>r'. map_of (traiterLigne c n m row reg) u = Some r'
                \<and> fst ` set (resultats r) \<subseteq> fst ` set (resultats r')))"
proof (intro conjI impI ballI)
  fix c assume "c \<in> set configs"
  then show "CHR ''_'' \<notin> set (fst c)" "CHR ''_'' \<notin> set (fst (snd c))"
    using configs_sans_souligne [of "fst c" "fst (snd c)" "snd (snd c)"] by simp_all
next
  assume u: "CHR ''_'' \<notin> set n1 \<and> CHR ''_'' \<notin> set m1 \<and> CHR ''_'' \<notin> set n2 \<and> CHR ''_'' \<notin> set m2
        \<and> (n1, m1) \<noteq> (n2, m2)"
    and h: "e1 \<in> set (chargerFichierCSV f1 n1 m1) \<and> e2 \<in> set (chargerFichierCSV f2 n2 m2)
            \<and> uai e1 = uai e2 \<and> map_of reg (uai e1) = None"
  from u h fusion_deux_csv [of n1 m1 n2 m2 e1 f1 e2 f2 reg]
  show "fusionnerEcole e2 (fusionnerEcole e1 reg)
                = reg @ [(uai e1, \<lparr>uai = uai e1, nomEcole = nomEcole e1,
                                    resultats = resultats e1 @ resultats e2\<rparr>)]"
    and "distinct (map fst (resultats e1 @ resultats e2))"
    by blast+
next
  assume u: "CHR ''_'' \<notin> set n1 \<and> CHR ''_'' \<notin> set m1 \<and> CHR ''_'' \<notin> set n2 \<and> CHR ''_'' \<notin> set m2
        \<and> (n1, m1) \<noteq> (n2, m2)"
    and h: "celluleODS row1 0 = k \<and> celluleODS row2 0 = k \<and> \<not> ligneIgnoree k
            \<and> map_of reg k = None"
  from u h fusion_deux_ods [of n1 m1 n2 m2 row1 k row2 reg c2 c1]
  show "traiterLigne c2 n2 m2 row2 (traiterLigne c1 n1 m1 row1 reg)
                = reg @ [(k, \<lparr>uai = k, nomEcole = celluleODS row1 1,
                              resultats = extraireResultats row1 c1 n1 m1
                                            @ extraireResultats row2 c2 n2 m2\<rparr>)]"
    and "distinct (map fst (extraireResultats row1 c1 n1 m1
                                     @ extraireResultats row2 c2 n2 m2))"
    by blast+
next
  assume "map_of reg u = Some r"
  then show "\<exists>r'. map_of (fusionnerEcole e reg) u = Some r'
                \<and> fst ` set (resultats r) \<subseteq> fst ` set (resultats r')"
    and "\<exists>r'. map_of (traiterLigne c n m row reg) u = Some r'
                \<and> fst ` set (resultats r) \<subseteq> fst ` set (resultats r')"
    by (rule fusionnerEcole_conserve, rule traiterLigne_conserve)
qed

lemma scenario_cp_maths:
  "chargerFichierCSV (Some (grilleScenario [''Evaluation cpma''])) ''CP'' ''maths''
     = [\<lparr>uai = ''0070116N'', nomEcole = ''Ecole Test'',
         resultats = [(''CP_maths_Lecture_de_mots_10_points'', Fini (125 / 2))]\<rparr>]"
  unfolding grilleScenario_def by code_simp

theorem fusion_union_witness:
  "fusionnerEcole
      \<lparr>uai = ''0070116N'', nomEcole = ''Ecole Test'',
        resultats = [(''CP_maths_Lecture_de_mots_10_points'', Fini (125 / 2))]\<rparr>
      (fusionnerEcole
         \<lparr>uai = ''0070116N'', nomEcole = ''Ecole Test'',
           resultats = [(''CP_francais_Lecture_de_mots_10_points'', Fini (125 / 2))]\<rparr> [])
     = [(''0070116N'',
         \<lparr>uai = ''0070116N'', nomEcole = ''Ecole Test'',
           resultats = [(''CP_francais_Lecture_de_mots_10_points'', Fini (125 / 2)),
                        (''CP_maths_Lecture_de_mots_10_points'', Fini (125 / 2))]\<rparr>)]
   \<and> \<not> ligneIgnoree ''0070116N''
   \<and> traiterLigne [\<lparr>nomO = ''Lecture de mots (10 points)'', colonneDebut = 2\<rparr>]
        ''CP'' ''maths'' [Some ''0070116N'', Some ''Ecole'', Some ''40 %'']
        (traiterLigne [\<lparr>nomO = ''Lecture de mots (10 points)'', colonneDebut = 2\<rparr>]
           ''CP'' ''francais'' [Some ''0070116N'', Some ''Ecole Test'', Some ''62,5 %''] [])
     = [(''0070116N'',
         \<lparr>uai = ''0070116N'', nomEcole = ''Ecole Test'',
           resultats = [(''CP_francais_Lecture_de_mots_10_points'', Fini (125 / 2)),
                        (''CP_maths_Lecture_de_mots_10_points'', Fini 40)]\<rparr>)]
   \<and> (\<exists>r'. map_of (fusionnerEcole
                \<lparr>uai = ''0070116N'', nomEcole = ''Ecole Test'',
                  resultats = [(''CP_maths_Lecture_de_mots_10_points'', Fini (125 / 2))]\<rparr>
                [(''0070116N'',
                  \<lparr>uai = ''0070116N'', nomEcole = ''Ecole Test'',
                    resultats = [(''CP_francais_Lecture_de_mots_10_points'',
                                  Fini (125 / 2))]\<rparr>)]) ''0070116N'' = Some r'
          \<and> {''CP_francais_Lecture_de_mots_10_points''} \<subseteq> fst ` set (resultats r'))"
proof -
  let ?e1 = "\<lparr>uai = ''0070116N'', nomEcole = ''Ecole Test'',
           resultats = [(''CP_francais_Lecture_de_mots_10_points'', Fini (125 / 2))]\<rparr>"
  let ?e2 = "\<lparr>uai = ''0070116N'', nomEcole = ''Ecole Test'',
        resultats = [(''CP_maths_Lecture_de_mots_10_points'', Fini (125 / 2))]\<rparr>"
  let ?c = "[\<lparr>nomO = ''Lecture de mots (10 points)'', colonneDebut = 2\<rparr>]"
  let ?row1 = "[Some ''0070116N'', Some ''Ecole Test'', Some ''62,5 %'']"
  let ?row2 = "[Some ''0070116N'', Some ''Ecole'', Some ''40 %'']"
  note t = fusion_union [of "''CP''" "''francais''" "''CP''" "''maths''"
      ?e1 "Some (grilleScenario [''Evaluation cpfr''])"
      ?e2 "Some (grilleScenario [''Evaluation cpma''])" "[]"
      ?row1 "''0070116N''" ?row2 ?c ?c]
  have u: "CHR ''_'' \<notin> set ''CP'' \<and> CHR ''_'' \<notin> set ''francais'' \<and> CHR ''_'' \<notin> set ''CP''
      \<and> CHR ''_'' \<notin> set ''maths'' \<and> (''CP'', ''francais'') \<noteq> (''CP'', ''maths'')"
    by simp
  have m1: "?e1 \<in> set (chargerFichierCSV (Some (grilleScenario [''Evaluation cpfr'']))
      ''CP'' ''francais'')"
    by (simp add: scenario_cp)
  have m2: "?e2 \<in> set (chargerFichierCSV (Some (grilleScenario [''Evaluation cpma'']))
      ''CP'' ''maths'')"
    by (simp add: scenario_cp_maths)
  have a: "fusionnerEcole ?e2 (fusionnerEcole ?e1 [])
     = [(''0070116N'',
         \<lparr>uai = ''0070116N'', nomEcole = ''Ecole Test'',
           resultats = [(''CP_francais_Lecture_de_mots_10_points'', Fini (125 / 2)),
                        (''CP_maths_Lecture_de_mots_10_points'', Fini (125 / 2))]\<rparr>)]"
    using t u m1 m2 by simp
  have k1: "celluleODS ?row1 0 = ''0070116N''" by code_simp
  have k2: "celluleODS ?row2 0 = ''0070116N''" by code_simp
  have k3: "celluleODS ?row1 1 = ''Ecole Test''" by code_simp
  have ok: "\<not> ligneIgnoree ''0070116N''" by code_simp
  have x1: "extraireResultats ?row1 ?c ''CP'' ''francais''
      = [(''CP_francais_Lecture_de_mots_10_points'', Fini (125 / 2))]"
    by code_simp
  have x2: "extraireResultats ?row2 ?c ''CP'' ''maths''
      = [(''CP_maths_Lecture_de_mots_10_points'', Fini 40)]"
    by code_simp
  have b: "traiterLigne ?c ''CP'' ''maths'' ?row2 (traiterLigne ?c ''CP'' ''francais'' ?row1 [])
     = [(''0070116N'',
         \<lparr>uai = ''0070116N'', nomEcole = ''Ecole Test'',
           resultats = [(''CP_francais_Lecture_de_mots_10_points'', Fini (125 / 2)),
                        (''CP_maths_Lecture_de_mots_10_points'', Fini 40)]\<rparr>)]"
    using t u k1 k2 k3 ok x1 x2 by simp
  have c: "\<exists>r'. map_of (fusionnerEcole ?e2 [(''0070116N'', ?e1)]) ''0070116N'' = Some r'
          \<and> {''CP_francais_Lecture_de_mots_10_points''} \<subseteq> fst ` set (resultats r')"
    using fusion_union [where reg = "[(''0070116N'', ?e1)]" and u = "''0070116N''"
        and r = ?e1 and e = ?e2]
    by simp
  show ?thesis using a ok b c by simp
qed

section \<open>What a merge leaves unchanged\<close>

lemma map_fst_map_entry: "map fst (AList.map_entry k f al) = map fst al"
  by (induction al) auto

lemma map_entry_existante:
  assumes "map_of reg k = Some r"
  shows "(\<exists>r'. map_of (AList.map_entry k (\<lambda>x. x\<lparr>resultats := g x\<rparr>) reg) k = Some r'
            \<and> uai r' = uai r \<and> nomEcole r' = nomEcole r \<and> resultats r' = g r)
       \<and> (\<forall>u. u \<noteq> k
             \<longrightarrow> map_of (AList.map_entry k (\<lambda>x. x\<lparr>resultats := g x\<rparr>) reg) u = map_of reg u)
       \<and> map fst (AList.map_entry k (\<lambda>x. x\<lparr>resultats := g x\<rparr>) reg) = map fst reg"
  using assms by (simp add: AList.map_of_map_entry map_fst_map_entry)

text \<open>
  Claim C10. When a partial record (flat-file service) or a row (workbook service) is
  merged for a school identifier that the registry already holds, the school keeps its
  identifier and its name, whatever name the record or row carries; its results become
  the old ones with the new entries written over them; every other school, and the order
  of the schools, is unchanged.
\<close>

theorem fusion_conserve_identite:
  "(map_of reg (uai e) = Some r
      \<longrightarrow> (\<exists>r'. map_of (fusionnerEcole e reg) (uai e) = Some r'
                \<and> uai r' = uai r \<and> nomEcole r' = nomEcole r
                \<and> resultats r' = assign (resultats r) (resultats e))
        \<and> (\<forall>u. u \<noteq> uai e \<longrightarrow> map_of (fusionnerEcole e reg) u = map_of reg u)
        \<and> map fst (fusionnerEcole e reg) = map fst reg)
   \<and> (map_of reg (celluleODS row 0) = Some r \<and> \<not> ligneIgnoree (celluleODS row 0)
      \<longrightarrow> (\<exists>r'. map_of (traiterLigne c n m row reg) (celluleODS row 0) = Some r'
                \<and> uai r' = uai r \<and> nomEcole r' = nomEcole r
                \<and> resultats r' = assign (resultats r) (extraireResultats row c n m))
        \<and> (\<forall>u. u \<noteq> celluleODS row 0
              \<longrightarrow> map_of (traiterLigne c n m row reg) u = map_of reg u)
        \<and> map fst (traiterLigne c n m row reg) = map fst reg)"
proof (intro conjI impI)
  assume h: "map_of reg (uai e) = Some r"
  have eq: "fusionnerEcole e reg
       = AList.map_entry (uai e) (\<lambda>x. x\<lparr>resultats := assign (resultats x) (resultats e)\<rparr>) reg"
    using h by (simp add: fusionnerEcole_def)
  from map_entry_existante [OF h, of "\<lambda>x. assign (resultats x) (resultats e)"]
  show "\<exists>r'. map_of (fusionnerEcole e reg) (uai e) = Some r'
                \<and> uai r' = uai r \<and> nomEcole r' = nomEcole r
                \<and> resultats r' = assign (resultats r) (resultats e)"
    and "\<forall>u. u \<noteq> uai e \<longrightarrow> map_of (fusionnerEcole e reg) u = map_of reg u"
    and "map fst (fusionnerEcole e reg) = map fst reg"
    unfolding eq by blast+
next
  assume h0: "map_of reg (celluleODS row 0) = Some r \<and> \<not> ligneIgnoree (celluleODS row 0)"
  then have h: "map_of reg (celluleODS row 0) = Some r" by simp
  have eq: "traiterLigne c n m row reg
       = AList.map_entry (celluleODS row 0)
           (\<lambda>x. x\<lparr>resultats := assign (resultats x) (extraireResultats row c n m)\<rparr>) reg"
    using h0 by (simp add: traiterLigne_def Let_def)
  from map_entry_existante [OF h, of "\<lambda>x. assign (resultats x) (extraireResultats row c n m)"]
  show "\<exists>r'. map_of (traiterLigne c n m row reg) (celluleODS row 0) = Some r'
                \<and> uai r' = uai r \<and> nomEcole r' = nomEcole r
                \<and> resultats r' = assign (resultats r) (extraireResultats row c n m)"
    and "\<forall>u. u \<noteq> celluleODS row 0
              \<longrightarrow> map_of (traiterLigne c n m row reg) u = map_of reg u"
    and "map fst (traiterLigne c n m row reg) = map fst reg"
    unfolding eq by blast+
qed

theorem fusion_conserve_identite_witness:
  "map_of [(''0070116N'', \<lparr>uai = ''0070116N'', nomEcole = ''Ecole Test'',
              resultats = [(''CP_francais_Lecture_de_mots_10_points'', Fini (125 / 2))]\<rparr>)]
      (uai \<lparr>uai = ''0070116N'', nomEcole = ''Autre nom'',
             resultats = [(''CP_maths_Lecture_de_mots_10_points'', Fini 40)]\<rparr>)
     = Some \<lparr>uai = ''0070116N'', nomEcole = ''Ecole Test'',
              resultats = [(''CP_francais_Lecture_de_mots_10_points'', Fini (125 / 2))]\<rparr>
   \<and> fusionnerEcole
        \<lparr>uai = ''0070116N'', nomEcole = ''Autre nom'',
          resultats = [(''CP_maths_Lecture_de_mots_10_points'', Fini 40)]\<rparr>
        [(''0070116N'', \<lparr>uai = ''0070116N'', nomEcole = ''Ecole Test'',
              resultats = [(''CP_francais_Lecture_de_mots_10_points'', Fini (125 / 2))]\<rparr>)]
     = [(''0070116N'', \<lparr>uai = ''0070116N'', nomEcole = ''Ecole Test'',
              resultats = [(''CP_francais_Lecture_de_mots_10_points'', Fini (125 / 2)),
                           (''CP_maths_Lecture_de_mots_10_points'', Fini 40)]\<rparr>)]
   \<and> \<not> ligneIgnoree (celluleODS [Some ''0070116N'', Some ''Autre nom'', Some ''40 %''] 0)
   \<and> traiterLigne [\<lparr>nomO = ''Lecture de mots (10 points)'', colonneDebut = 2\<rparr>]
        ''CP'' ''maths'' [Some ''0070116N'', Some ''Autre nom'', Some ''40 %'']
        [(''0070116N'', \<lparr>uai = ''0070116N'', nomEcole = ''Ecole Test'',
              resultats = [(''CP_francais_Lecture_de_mots_10_points'', Fini (125 / 2))]\<rparr>)]
     = [(''0070116N'', \<lparr>uai = ''0070116N'', nomEcole = ''Ecole Test'',
              resultats = [(''CP_francais_Lecture_de_mots_10_points'', Fini (125 / 2)),
                           (''CP_maths_Lecture_de_mots_10_points'', Fini 40)]\<rparr>)]"
proof -
  let ?r = "\<lparr>uai = ''0070116N'', nomEcole = ''Ecole Test'',
              resultats = [(''CP_francais_Lecture_de_mots_10_points'', Fini (125 / 2))]\<rparr>"
  let ?e = "\<lparr>uai = ''0070116N'', nomEcole = ''Autre nom'',
          resultats = [(''CP_maths_Lecture_de_mots_10_points'', Fini 40)]\<rparr>"
  let ?row = "[Some ''0070116N'', Some ''Autre nom'', Some ''40 %'']"
  let ?c = "[\<lparr>nomO = ''Lecture de mots (10 points)'', colonneDebut = 2\<rparr>]"
  let ?fin = "\<lparr>uai = ''0070116N'', nomEcole = ''Ecole Test'',
              resultats = [(''CP_francais_Lecture_de_mots_10_points'', Fini (125 / 2)),
                           (''CP_maths_Lecture_de_mots_10_points'', Fini 40)]\<rparr>"
  note t = fusion_conserve_identite [of "[(''0070116N'', ?r)]" ?e ?r ?row ?c "''CP''" "''maths''"]
  have h1: "map_of [(''0070116N'', ?r)] (uai ?e) = Some ?r" by simp
  have k: "celluleODS ?row 0 = ''0070116N''" by code_simp
  have ok: "\<not> ligneIgnoree (celluleODS ?row 0)" by code_simp
  have h2: "map_of [(''0070116N'', ?r)] (celluleODS ?row 0) = Some ?r" by (simp add: k)
  have as1: "assign (resultats ?r) (resultats ?e) = resultats ?fin" by code_simp
  have as2: "assign (resultats ?r) (extraireResultats ?row ?c ''CP'' ''maths'') = resultats ?fin"
    by code_simp
  from t h1 as1 obtain r' where
    p1: "map_of (fusionnerEcole ?e [(''0070116N'', ?r)]) ''0070116N'' = Some r'"
    and q1: "uai r' = ''0070116N''" "nomEcole r' = ''Ecole Test''" "resultats r' = resultats ?fin"
    and f1: "map fst (fusionnerEcole ?e [(''0070116N'', ?r)]) = [''0070116N'']"
    by auto
  from f1 obtain x where x: "fusionnerEcole ?e [(''0070116N'', ?r)] = [(''0070116N'', x)]"
    by (cases "fusionnerEcole ?e [(''0070116N'', ?r)]") auto
  with p1 q1 have a: "fusionnerEcole ?e [(''0070116N'', ?r)] = [(''0070116N'', ?fin)]"
    by simp
  from t h2 ok as2 k obtain r'' where
    p2: "map_of (traiterLigne ?c ''CP'' ''maths'' ?row [(''0070116N'', ?r)]) ''0070116N''
           = Some r''"
    and q2: "uai r'' = ''0070116N''" "nomEcole r'' = ''Ecole Test''"
      "resultats r'' = resultats ?fin"
    and f2: "map fst (traiterLigne ?c ''CP'' ''maths'' ?row [(''0070116N'', ?r)]) = [''0070116N'']"
    by auto
  from f2 obtain y where
    y: "traiterLigne ?c ''CP'' ''maths'' ?row [(''0070116N'', ?r)] = [(''0070116N'', y)]"
    by (cases "traiterLigne ?c ''CP'' ''maths'' ?row [(''0070116N'', ?r)]") auto
  with p2 q2 have b: "traiterLigne ?c ''CP'' ''maths'' ?row [(''0070116N'', ?r)]
      = [(''0070116N'', ?fin)]"
    by simp
  show ?thesis using h1 a ok b by simp
qed

section \<open>Rows without any value\<close>

lemma fold_update_aucun:
  "(\<forall>c \<in> set cs. P c = None)
   \<Longrightarrow> fold (\<lambda>c res. case P c of None \<Rightarrow> res | Some v \<Rightarrow> AList.update (K c) v res) cs acc = acc"
  by (induction cs arbitrary: acc) auto

lemma resultatsLigne_aucun:
  "(\<forall>c \<in> set competences. parsePourcentage (valeurCellule ligne (colonne c)) = None)
   \<Longrightarrow> resultatsLigne ligne competences niveau matiere = []"
  unfolding resultatsLigne_def
  using fold_update_aucun [where P = "\<lambda>c. parsePourcentage (valeurCellule ligne (colonne c))"
      and K = "\<lambda>c. cleCompetence niveau matiere (nom c)" and cs = competences and acc = "[]"]
  by simp

lemma extraireResultats_aucun:
  "(\<forall>c \<in> set competences. parsePourcentage (valeurODS row (colonneDebut c)) = None)
   \<Longrightarrow> extraireResultats row competences niveau matiere = []"
  unfolding extraireResultats_def
  using fold_update_aucun [where P = "\<lambda>c. parsePourcentage (valeurODS row (colonneDebut c))"
      and K = "\<lambda>c. cleCompetence niveau matiere (nomO c)" and cs = competences and acc = "[]"]
  by simp

text \<open>The flat-file service adds nothing for such a row.\<close>

lemma extraireEcole_sans_valeur:
  "(\<forall>c \<in> set competences. parsePourcentage (valeurCellule ligne (colonne c)) = None)
   \<Longrightarrow> extraireEcole competences niveau matiere ligne ecoles = ecoles"
  by (simp add: extraireEcole_def resultatsLigne_aucun Let_def)

text \<open>The workbook service leaves a school that exists as it is, but creates one that
  does not.\<close>

lemma map_entry_identite: "(\<And>x. f x = x) \<Longrightarrow> AList.map_entry k f al = al"
  by (induction al) auto

lemma traiterLigne_sans_valeur_existante:
  assumes "\<forall>c \<in> set competences. parsePourcentage (valeurODS row (colonneDebut c)) = None"
    and "map_of reg (celluleODS row 0) \<noteq> None"
  shows "traiterLigne competences niveau matiere row reg = reg"
proof -
  from assms(2) obtain y where "map_of reg (celluleODS row 0) = Some y" by auto
  then show ?thesis
    using assms(1)
    by (simp add: traiterLigne_def extraireResultats_aucun Let_def assign_def
        map_entry_identite)
qed

lemma traiterLigne_sans_valeur_nouvelle:
  assumes "\<forall>c \<in> set competences. parsePourcentage (valeurODS row (colonneDebut c)) = None"
    and "map_of reg (celluleODS row 0) = None" "\<not> ligneIgnoree (celluleODS row 0)"
  shows "traiterLigne competences niveau matiere row reg
       = reg @ [(celluleODS row 0,
                 \<lparr>uai = celluleODS row 0, nomEcole = celluleODS row 1, resultats = []\<rparr>)]"
proof -
  have k: "celluleODS row 0 \<notin> fst ` set reg"
    using assms(2) by (simp add: map_of_eq_None_iff)
  show ?thesis
    using assms k
    by (simp add: traiterLigne_def extraireResultats_aucun Let_def assign_def update_absent
        map_entry_fin)
qed

text \<open>
  Claim C4 at a row the workbook service can receive: an identifier, a name and an empty
  percentage cell, for a school the registry does not hold yet. No competency cell parses
  (\<open>extraireResultats\<close> is empty), yet \<open>OraceService.loadEcoles\<close> creates the school, with
  no result. The flat-file service, on the same row, adds no school.
\<close>

theorem ligne_sans_valeur_cree_ecole:
  "\<not> ligneIgnoree (celluleODS [Some ''0070116N'', Some ''Ecole Test'', None] 0)
   \<and> extraireResultats [Some ''0070116N'', Some ''Ecole Test'', None]
        [\<lparr>nomO = ''Lecture de mots (10 points)'', colonneDebut = 2\<rparr>] ''CP'' ''francais'' = []
   \<and> traiterLigne [\<lparr>nomO = ''Lecture de mots (10 points)'', colonneDebut = 2\<rparr>]
        ''CP'' ''francais'' [Some ''0070116N'', Some ''Ecole Test'', None] []
     = [(''0070116N'', \<lparr>uai = ''0070116N'', nomEcole = ''Ecole Test'', resultats = []\<rparr>)]
   \<and> extraireEcoles [[''0070116N'', ''Ecole Test'', '''']]
        [\<lparr>nom = ''Lecture de mots (10 points)'', colonne = 2\<rparr>] ''CP'' ''francais'' = []"
proof -
  let ?row = "[Some ''0070116N'', Some ''Ecole Test'', None]"
  let ?c = "[\<lparr>nomO = ''Lecture de mots (10 points)'', colonneDebut = 2\<rparr>]"
  have a: "\<not> ligneIgnoree (celluleODS ?row 0)" by code_simp
  have b: "extraireResultats ?row ?c ''CP'' ''francais'' = []" by code_simp
  have c: "traiterLigne ?c ''CP'' ''francais'' ?row []
     = [(''0070116N'', \<lparr>uai = ''0070116N'', nomEcole = ''Ecole Test'', resultats = []\<rparr>)]"
    by code_simp
  have d: "extraireEcoles [[''0070116N'', ''Ecole Test'', '''']]
        [\<lparr>nom = ''Lecture de mots (10 points)'', colonne = 2\<rparr>] ''CP'' ''francais'' = []"
    by code_simp
  show ?thesis using a b c d by simp
qed

end
